theory Spec2Isabelle
  imports Main "HOL-Library.AList"
begin

section \<open>Strings of the host language\<close>

text \<open>
  A string is the list of its UTF-16 code units, each an integer from 0 to 0xFFFF. White
  space, line terminators, case mapping and the classes of regular expressions are those of
  ECMAScript on all of Unicode. A literal of the program is written with \<open>utf16\<close>, which
  gives the code units of a text whose characters are below U+0100.
\<close>

type_synonym ustring = "int list"

definition unit :: "char \<Rightarrow> int" where
  "unit c = of_char c"

definition utf16 :: "string \<Rightarrow> ustring" where
  "utf16 s = map unit s"

definition isSpace :: "int \<Rightarrow> bool" where
  \<comment> \<open>the class \<open>\s\<close> and the characters removed by \<open>trim()\<close>: the white space of
      ECMAScript (TAB, VT, FF, SP, NBSP, ZWNBSP and the category Zs) and its line terminators\<close>
  "isSpace c =
     (c \<in> set [0x09, 0x0A, 0x0B, 0x0C, 0x0D, 0x20, 0xA0, 0x1680, 0x2028, 0x2029, 0x202F,
               0x205F, 0x3000, 0xFEFF] \<or>
      (0x2000 \<le> c \<and> c \<le> 0x200A))"

definition isLineTerminator :: "int \<Rightarrow> bool" where
  \<comment> \<open>the characters that \<open>.\<close> does not match: LF, CR, LS, PS\<close>
  "isLineTerminator c = (c \<in> set [0x0A, 0x0D, 0x2028, 0x2029])"

definition isDigit :: "int \<Rightarrow> bool" where
  \<comment> \<open>\<open>0\<close> to \<open>9\<close>, the class \<open>\d\<close>\<close>
  "isDigit c = (0x30 \<le> c \<and> c \<le> 0x39)"

definition isUpper :: "int \<Rightarrow> bool" where
  \<comment> \<open>\<open>A\<close> to \<open>Z\<close>\<close>
  "isUpper c = (0x41 \<le> c \<and> c \<le> 0x5A)"

definition isLower :: "int \<Rightarrow> bool" where
  \<comment> \<open>\<open>a\<close> to \<open>z\<close>\<close>
  "isLower c = (0x61 \<le> c \<and> c \<le> 0x7A)"

definition isWordChar :: "int \<Rightarrow> bool" where
  \<comment> \<open>the class \<open>\w\<close>, which decides \<open>\b\<close>\<close>
  "isWordChar c = (isLower c \<or> isUpper c \<or> isDigit c \<or> c = 0x5F)"

definition isHexChar :: "int \<Rightarrow> bool" where
  \<comment> \<open>\<open>[a-f0-9]\<close> under the flag \<open>i\<close>\<close>
  "isHexChar c = (isDigit c \<or> (0x61 \<le> c \<and> c \<le> 0x66) \<or> (0x41 \<le> c \<and> c \<le> 0x46))"

definition toLowerAscii :: "int \<Rightarrow> int" where
  \<comment> \<open>the other case of a letter from \<open>A\<close> to \<open>Z\<close>\<close>
  "toLowerAscii c = (if isUpper c then c + 0x20 else c)"

definition matchesI :: "int \<Rightarrow> int \<Rightarrow> bool" where
  \<comment> \<open>\<open>matchesI p c\<close>: the ASCII character \<open>p\<close> of a pattern matches \<open>c\<close> under the flag
      \<open>i\<close>. Without the flag \<open>u\<close>, a character outside ASCII is never identified with an
      ASCII one, so a letter matches its two cases and nothing else\<close>
  "matchesI p c = (toLowerAscii p = toLowerAscii c)"

definition trim :: "ustring \<Rightarrow> ustring" where
  "trim s = rev (dropWhile isSpace (rev (dropWhile isSpace s)))"

fun startsWithCI :: "ustring \<Rightarrow> ustring \<Rightarrow> bool" where
  \<comment> \<open>\<open>startsWithCI p s\<close>: the literal \<open>p\<close> matches at the start of \<open>s\<close> under the flag \<open>i\<close>\<close>
  "startsWithCI [] s = True"
| "startsWithCI (p # ps) [] = False"
| "startsWithCI (p # ps) (c # cs) = (matchesI p c \<and> startsWithCI ps cs)"

fun startsWith :: "ustring \<Rightarrow> ustring \<Rightarrow> bool" where
  "startsWith [] s = True"
| "startsWith (p # ps) [] = False"
| "startsWith (p # ps) (c # cs) = (p = c \<and> startsWith ps cs)"

fun includesStr :: "ustring \<Rightarrow> ustring \<Rightarrow> bool" where
  \<comment> \<open>\<open>includesStr s sub\<close> is the method \<open>includes\<close> of \<open>s\<close> applied to \<open>sub\<close>\<close>
  "includesStr [] sub = (sub = [])"
| "includesStr (c # cs) sub = (startsWith sub (c # cs) \<or> includesStr cs sub)"

definition endsWith :: "ustring \<Rightarrow> ustring \<Rightarrow> bool" where
  "endsWith s suf = startsWith (rev suf) (rev s)"

definition orElse :: "ustring \<Rightarrow> ustring \<Rightarrow> ustring" where
  \<comment> \<open>\<open>a || b\<close> on strings: the empty string is falsy\<close>
  "orElse a b = (if a = [] then b else a)"

subsection \<open>Case mapping\<close>

text \<open>
  \<open>toLowerCase\<close> and \<open>toUpperCase\<close> are the default case conversions of Unicode, which work
  on code points. Their data are the tables below, taken from the Unicode Character Database
  (version 14.0) for the code points from U+0080 on; the ASCII range is written out in the
  functions. A range \<open>(lo, hi, stride, delta)\<close> maps every code point \<open>lo + k * stride\<close> up to
  \<open>hi\<close> to itself plus \<open>delta\<close>. \<open>upperSpecial\<close> holds the characters of
  the Basic Multilingual Plane whose upper case has more than one character; the one
  character whose lower case has more than one, U+0130, is written out in \<open>lowerPoint\<close>.
  \<open>casedRanges\<close> and \<open>ignorableRanges\<close> are the properties Cased and Case_Ignorable, which
  decide whether a capital sigma is final.
\<close>

definition lowerRanges :: "(int \<times> int \<times> int \<times> int) list" where
  "lowerRanges =
     [(0xC0, 0xD6, 1, 32), (0xD8, 0xDE, 1, 32), (0x100, 0x12E, 2, 1), (0x132, 0x136, 2, 1),
      (0x139, 0x147, 2, 1), (0x14A, 0x176, 2, 1), (0x178, 0x178, 1, -121), (0x179, 0x17D, 2, 1),
      (0x181, 0x181, 1, 210), (0x182, 0x184, 2, 1), (0x186, 0x186, 1, 206), (0x187, 0x187, 1, 1),
      (0x189, 0x18A, 1, 205), (0x18B, 0x18B, 1, 1), (0x18E, 0x18E, 1, 79), (0x18F, 0x18F, 1, 202),
      (0x190, 0x190, 1, 203), (0x191, 0x191, 1, 1), (0x193, 0x193, 1, 205), (0x194, 0x194, 1, 207),
      (0x196, 0x196, 1, 211), (0x197, 0x197, 1, 209), (0x198, 0x198, 1, 1), (0x19C, 0x19C, 1, 211),
      (0x19D, 0x19D, 1, 213), (0x19F, 0x19F, 1, 214), (0x1A0, 0x1A4, 2, 1), (0x1A6, 0x1A6, 1, 218),
      (0x1A7, 0x1A7, 1, 1), (0x1A9, 0x1A9, 1, 218), (0x1AC, 0x1AC, 1, 1), (0x1AE, 0x1AE, 1, 218),
      (0x1AF, 0x1AF, 1, 1), (0x1B1, 0x1B2, 1, 217), (0x1B3, 0x1B5, 2, 1), (0x1B7, 0x1B7, 1, 219),
      (0x1B8, 0x1B8, 1, 1), (0x1BC, 0x1BC, 1, 1), (0x1C4, 0x1C4, 1, 2), (0x1C5, 0x1C5, 1, 1),
      (0x1C7, 0x1C7, 1, 2), (0x1C8, 0x1C8, 1, 1), (0x1CA, 0x1CA, 1, 2), (0x1CB, 0x1DB, 2, 1),
      (0x1DE, 0x1EE, 2, 1), (0x1F1, 0x1F1, 1, 2), (0x1F2, 0x1F4, 2, 1), (0x1F6, 0x1F6, 1, -97),
      (0x1F7, 0x1F7, 1, -56), (0x1F8, 0x21E, 2, 1), (0x220, 0x220, 1, -130), (0x222, 0x232, 2, 1),
      (0x23A, 0x23A, 1, 10795), (0x23B, 0x23B, 1, 1), (0x23D, 0x23D, 1, -163), (0x23E, 0x23E, 1, 10792),
      (0x241, 0x241, 1, 1), (0x243, 0x243, 1, -195), (0x244, 0x244, 1, 69), (0x245, 0x245, 1, 71),
      (0x246, 0x24E, 2, 1), (0x370, 0x372, 2, 1), (0x376, 0x376, 1, 1), (0x37F, 0x37F, 1, 116),
      (0x386, 0x386, 1, 38), (0x388, 0x38A, 1, 37), (0x38C, 0x38C, 1, 64), (0x38E, 0x38F, 1, 63),
      (0x391, 0x3A1, 1, 32), (0x3A3, 0x3AB, 1, 32), (0x3CF, 0x3CF, 1, 8), (0x3D8, 0x3EE, 2, 1),
      (0x3F4, 0x3F4, 1, -60), (0x3F7, 0x3F7, 1, 1), (0x3F9, 0x3F9, 1, -7), (0x3FA, 0x3FA, 1, 1),
      (0x3FD, 0x3FF, 1, -130), (0x400, 0x40F, 1, 80), (0x410, 0x42F, 1, 32), (0x460, 0x480, 2, 1),
      (0x48A, 0x4BE, 2, 1), (0x4C0, 0x4C0, 1, 15), (0x4C1, 0x4CD, 2, 1), (0x4D0, 0x52E, 2, 1),
      (0x531, 0x556, 1, 48), (0x10A0, 0x10C5, 1, 7264), (0x10C7, 0x10C7, 1, 7264), (0x10CD, 0x10CD, 1, 7264),
      (0x13A0, 0x13EF, 1, 38864), (0x13F0, 0x13F5, 1, 8), (0x1C90, 0x1CBA, 1, -3008), (0x1CBD, 0x1CBF, 1, -3008),
      (0x1E00, 0x1E94, 2, 1), (0x1E9E, 0x1E9E, 1, -7615), (0x1EA0, 0x1EFE, 2, 1), (0x1F08, 0x1F0F, 1, -8),
      (0x1F18, 0x1F1D, 1, -8), (0x1F28, 0x1F2F, 1, -8), (0x1F38, 0x1F3F, 1, -8), (0x1F48, 0x1F4D, 1, -8),
      (0x1F59, 0x1F5F, 2, -8), (0x1F68, 0x1F6F, 1, -8), (0x1F88, 0x1F8F, 1, -8), (0x1F98, 0x1F9F, 1, -8),
      (0x1FA8, 0x1FAF, 1, -8), (0x1FB8, 0x1FB9, 1, -8), (0x1FBA, 0x1FBB, 1, -74), (0x1FBC, 0x1FBC, 1, -9),
      (0x1FC8, 0x1FCB, 1, -86), (0x1FCC, 0x1FCC, 1, -9), (0x1FD8, 0x1FD9, 1, -8), (0x1FDA, 0x1FDB, 1, -100),
      (0x1FE8, 0x1FE9, 1, -8), (0x1FEA, 0x1FEB, 1, -112), (0x1FEC, 0x1FEC, 1, -7), (0x1FF8, 0x1FF9, 1, -128),
      (0x1FFA, 0x1FFB, 1, -126), (0x1FFC, 0x1FFC, 1, -9), (0x2126, 0x2126, 1, -7517), (0x212A, 0x212A, 1, -8383),
      (0x212B, 0x212B, 1, -8262), (0x2132, 0x2132, 1, 28), (0x2160, 0x216F, 1, 16), (0x2183, 0x2183, 1, 1),
      (0x24B6, 0x24CF, 1, 26), (0x2C00, 0x2C2F, 1, 48), (0x2C60, 0x2C60, 1, 1), (0x2C62, 0x2C62, 1, -10743),
      (0x2C63, 0x2C63, 1, -3814), (0x2C64, 0x2C64, 1, -10727), (0x2C67, 0x2C6B, 2, 1), (0x2C6D, 0x2C6D, 1, -10780),
      (0x2C6E, 0x2C6E, 1, -10749), (0x2C6F, 0x2C6F, 1, -10783), (0x2C70, 0x2C70, 1, -10782), (0x2C72, 0x2C72, 1, 1),
      (0x2C75, 0x2C75, 1, 1), (0x2C7E, 0x2C7F, 1, -10815), (0x2C80, 0x2CE2, 2, 1), (0x2CEB, 0x2CED, 2, 1),
      (0x2CF2, 0x2CF2, 1, 1), (0xA640, 0xA66C, 2, 1), (0xA680, 0xA69A, 2, 1), (0xA722, 0xA72E, 2, 1),
      (0xA732, 0xA76E, 2, 1), (0xA779, 0xA77B, 2, 1), (0xA77D, 0xA77D, 1, -35332), (0xA77E, 0xA786, 2, 1),
      (0xA78B, 0xA78B, 1, 1), (0xA78D, 0xA78D, 1, -42280), (0xA790, 0xA792, 2, 1), (0xA796, 0xA7A8, 2, 1),
      (0xA7AA, 0xA7AA, 1, -42308), (0xA7AB, 0xA7AB, 1, -42319), (0xA7AC, 0xA7AC, 1, -42315), (0xA7AD, 0xA7AD, 1, -42305),
      (0xA7AE, 0xA7AE, 1, -42308), (0xA7B0, 0xA7B0, 1, -42258), (0xA7B1, 0xA7B1, 1, -42282), (0xA7B2, 0xA7B2, 1, -42261),
      (0xA7B3, 0xA7B3, 1, 928), (0xA7B4, 0xA7C2, 2, 1), (0xA7C4, 0xA7C4, 1, -48), (0xA7C5, 0xA7C5, 1, -42307),
      (0xA7C6, 0xA7C6, 1, -35384), (0xA7C7, 0xA7C9, 2, 1), (0xA7D0, 0xA7D0, 1, 1), (0xA7D6, 0xA7D8, 2, 1),
      (0xA7F5, 0xA7F5, 1, 1), (0xFF21, 0xFF3A, 1, 32), (0x10400, 0x10427, 1, 40), (0x104B0, 0x104D3, 1, 40),
      (0x10570, 0x10594, 2, 39), (0x10571, 0x10579, 2, 39), (0x1057D, 0x10589, 2, 39), (0x1058D, 0x10591, 2, 39),
      (0x10595, 0x10595, 1, 39), (0x10C80, 0x10CB2, 1, 64), (0x118A0, 0x118BF, 1, 32), (0x16E40, 0x16E5F, 1, 32),
      (0x1E900, 0x1E921, 1, 34)]"

definition upperRanges :: "(int \<times> int \<times> int \<times> int) list" where
  "upperRanges =
     [(0xB5, 0xB5, 1, 743), (0xE0, 0xF6, 1, -32), (0xF8, 0xFE, 1, -32), (0xFF, 0xFF, 1, 121),
      (0x101, 0x12F, 2, -1), (0x131, 0x131, 1, -232), (0x133, 0x137, 2, -1), (0x13A, 0x148, 2, -1),
      (0x14B, 0x177, 2, -1), (0x17A, 0x17E, 2, -1), (0x17F, 0x17F, 1, -300), (0x180, 0x180, 1, 195),
      (0x183, 0x185, 2, -1), (0x188, 0x188, 1, -1), (0x18C, 0x18C, 1, -1), (0x192, 0x192, 1, -1),
      (0x195, 0x195, 1, 97), (0x199, 0x199, 1, -1), (0x19A, 0x19A, 1, 163), (0x19E, 0x19E, 1, 130),
      (0x1A1, 0x1A5, 2, -1), (0x1A8, 0x1A8, 1, -1), (0x1AD, 0x1AD, 1, -1), (0x1B0, 0x1B0, 1, -1),
      (0x1B4, 0x1B6, 2, -1), (0x1B9, 0x1B9, 1, -1), (0x1BD, 0x1BD, 1, -1), (0x1BF, 0x1BF, 1, 56),
      (0x1C5, 0x1C5, 1, -1), (0x1C6, 0x1C6, 1, -2), (0x1C8, 0x1C8, 1, -1), (0x1C9, 0x1C9, 1, -2),
      (0x1CB, 0x1CB, 1, -1), (0x1CC, 0x1CC, 1, -2), (0x1CE, 0x1DC, 2, -1), (0x1DD, 0x1DD, 1, -79),
      (0x1DF, 0x1EF, 2, -1), (0x1F2, 0x1F2, 1, -1), (0x1F3, 0x1F3, 1, -2), (0x1F5, 0x1F5, 1, -1),
      (0x1F9, 0x21F, 2, -1), (0x223, 0x233, 2, -1), (0x23C, 0x23C, 1, -1), (0x23F, 0x240, 1, 10815),
      (0x242, 0x242, 1, -1), (0x247, 0x24F, 2, -1), (0x250, 0x250, 1, 10783), (0x251, 0x251, 1, 10780),
      (0x252, 0x252, 1, 10782), (0x253, 0x253, 1, -210), (0x254, 0x254, 1, -206), (0x256, 0x257, 1, -205),
      (0x259, 0x259, 1, -202), (0x25B, 0x25B, 1, -203), (0x25C, 0x25C, 1, 42319), (0x260, 0x260, 1, -205),
      (0x261, 0x261, 1, 42315), (0x263, 0x263, 1, -207), (0x265, 0x265, 1, 42280), (0x266, 0x266, 1, 42308),
      (0x268, 0x268, 1, -209), (0x269, 0x269, 1, -211), (0x26A, 0x26A, 1, 42308), (0x26B, 0x26B, 1, 10743),
      (0x26C, 0x26C, 1, 42305), (0x26F, 0x26F, 1, -211), (0x271, 0x271, 1, 10749), (0x272, 0x272, 1, -213),
      (0x275, 0x275, 1, -214), (0x27D, 0x27D, 1, 10727), (0x280, 0x280, 1, -218), (0x282, 0x282, 1, 42307),
      (0x283, 0x283, 1, -218), (0x287, 0x287, 1, 42282), (0x288, 0x288, 1, -218), (0x289, 0x289, 1, -69),
      (0x28A, 0x28B, 1, -217), (0x28C, 0x28C, 1, -71), (0x292, 0x292, 1, -219), (0x29D, 0x29D, 1, 42261),
      (0x29E, 0x29E, 1, 42258), (0x345, 0x345, 1, 84), (0x371, 0x373, 2, -1), (0x377, 0x377, 1, -1),
      (0x37B, 0x37D, 1, 130), (0x3AC, 0x3AC, 1, -38), (0x3AD, 0x3AF, 1, -37), (0x3B1, 0x3C1, 1, -32),
      (0x3C2, 0x3C2, 1, -31), (0x3C3, 0x3CB, 1, -32), (0x3CC, 0x3CC, 1, -64), (0x3CD, 0x3CE, 1, -63),
      (0x3D0, 0x3D0, 1, -62), (0x3D1, 0x3D1, 1, -57), (0x3D5, 0x3D5, 1, -47), (0x3D6, 0x3D6, 1, -54),
      (0x3D7, 0x3D7, 1, -8), (0x3D9, 0x3EF, 2, -1), (0x3F0, 0x3F0, 1, -86), (0x3F1, 0x3F1, 1, -80),
      (0x3F2, 0x3F2, 1, 7), (0x3F3, 0x3F3, 1, -116), (0x3F5, 0x3F5, 1, -96), (0x3F8, 0x3F8, 1, -1),
      (0x3FB, 0x3FB, 1, -1), (0x430, 0x44F, 1, -32), (0x450, 0x45F, 1, -80), (0x461, 0x481, 2, -1),
      (0x48B, 0x4BF, 2, -1), (0x4C2, 0x4CE, 2, -1), (0x4CF, 0x4CF, 1, -15), (0x4D1, 0x52F, 2, -1),
      (0x561, 0x586, 1, -48), (0x10D0, 0x10FA, 1, 3008), (0x10FD, 0x10FF, 1, 3008), (0x13F8, 0x13FD, 1, -8),
      (0x1C80, 0x1C80, 1, -6254), (0x1C81, 0x1C81, 1, -6253), (0x1C82, 0x1C82, 1, -6244), (0x1C83, 0x1C84, 1, -6242),
      (0x1C85, 0x1C85, 1, -6243), (0x1C86, 0x1C86, 1, -6236), (0x1C87, 0x1C87, 1, -6181), (0x1C88, 0x1C88, 1, 35266),
      (0x1D79, 0x1D79, 1, 35332), (0x1D7D, 0x1D7D, 1, 3814), (0x1D8E, 0x1D8E, 1, 35384), (0x1E01, 0x1E95, 2, -1),
      (0x1E9B, 0x1E9B, 1, -59), (0x1EA1, 0x1EFF, 2, -1), (0x1F00, 0x1F07, 1, 8), (0x1F10, 0x1F15, 1, 8),
      (0x1F20, 0x1F27, 1, 8), (0x1F30, 0x1F37, 1, 8), (0x1F40, 0x1F45, 1, 8), (0x1F51, 0x1F57, 2, 8),
      (0x1F60, 0x1F67, 1, 8), (0x1F70, 0x1F71, 1, 74), (0x1F72, 0x1F75, 1, 86), (0x1F76, 0x1F77, 1, 100),
      (0x1F78, 0x1F79, 1, 128), (0x1F7A, 0x1F7B, 1, 112), (0x1F7C, 0x1F7D, 1, 126), (0x1FB0, 0x1FB1, 1, 8),
      (0x1FBE, 0x1FBE, 1, -7205), (0x1FD0, 0x1FD1, 1, 8), (0x1FE0, 0x1FE1, 1, 8), (0x1FE5, 0x1FE5, 1, 7),
      (0x214E, 0x214E, 1, -28), (0x2170, 0x217F, 1, -16), (0x2184, 0x2184, 1, -1), (0x24D0, 0x24E9, 1, -26),
      (0x2C30, 0x2C5F, 1, -48), (0x2C61, 0x2C61, 1, -1), (0x2C65, 0x2C65, 1, -10795), (0x2C66, 0x2C66, 1, -10792),
      (0x2C68, 0x2C6C, 2, -1), (0x2C73, 0x2C73, 1, -1), (0x2C76, 0x2C76, 1, -1), (0x2C81, 0x2CE3, 2, -1),
      (0x2CEC, 0x2CEE, 2, -1), (0x2CF3, 0x2CF3, 1, -1), (0x2D00, 0x2D25, 1, -7264), (0x2D27, 0x2D27, 1, -7264),
      (0x2D2D, 0x2D2D, 1, -7264), (0xA641, 0xA66D, 2, -1), (0xA681, 0xA69B, 2, -1), (0xA723, 0xA72F, 2, -1),
      (0xA733, 0xA76F, 2, -1), (0xA77A, 0xA77C, 2, -1), (0xA77F, 0xA787, 2, -1), (0xA78C, 0xA78C, 1, -1),
      (0xA791, 0xA793, 2, -1), (0xA794, 0xA794, 1, 48), (0xA797, 0xA7A9, 2, -1), (0xA7B5, 0xA7C3, 2, -1),
      (0xA7C8, 0xA7CA, 2, -1), (0xA7D1, 0xA7D1, 1, -1), (0xA7D7, 0xA7D9, 2, -1), (0xA7F6, 0xA7F6, 1, -1),
      (0xAB53, 0xAB53, 1, -928), (0xAB70, 0xABBF, 1, -38864), (0xFF41, 0xFF5A, 1, -32)]"

definition upperSpecial :: "(int \<times> int list) list" where
  "upperSpecial =
     [(0xDF, [0x53, 0x53]), (0x149, [0x2BC, 0x4E]), (0x1F0, [0x4A, 0x30C]),
      (0x390, [0x399, 0x308, 0x301]), (0x3B0, [0x3A5, 0x308, 0x301]), (0x587, [0x535, 0x552]),
      (0x1E96, [0x48, 0x331]), (0x1E97, [0x54, 0x308]), (0x1E98, [0x57, 0x30A]),
      (0x1E99, [0x59, 0x30A]), (0x1E9A, [0x41, 0x2BE]), (0x1F50, [0x3A5, 0x313]),
      (0x1F52, [0x3A5, 0x313, 0x300]), (0x1F54, [0x3A5, 0x313, 0x301]), (0x1F56, [0x3A5, 0x313, 0x342]),
      (0x1F80, [0x1F08, 0x399]), (0x1F81, [0x1F09, 0x399]), (0x1F82, [0x1F0A, 0x399]),
      (0x1F83, [0x1F0B, 0x399]), (0x1F84, [0x1F0C, 0x399]), (0x1F85, [0x1F0D, 0x399]),
      (0x1F86, [0x1F0E, 0x399]), (0x1F87, [0x1F0F, 0x399]), (0x1F88, [0x1F08, 0x399]),
      (0x1F89, [0x1F09, 0x399]), (0x1F8A, [0x1F0A, 0x399]), (0x1F8B, [0x1F0B, 0x399]),
      (0x1F8C, [0x1F0C, 0x399]), (0x1F8D, [0x1F0D, 0x399]), (0x1F8E, [0x1F0E, 0x399]),
      (0x1F8F, [0x1F0F, 0x399]), (0x1F90, [0x1F28, 0x399]), (0x1F91, [0x1F29, 0x399]),
      (0x1F92, [0x1F2A, 0x399]), (0x1F93, [0x1F2B, 0x399]), (0x1F94, [0x1F2C, 0x399]),
      (0x1F95, [0x1F2D, 0x399]), (0x1F96, [0x1F2E, 0x399]), (0x1F97, [0x1F2F, 0x399]),
      (0x1F98, [0x1F28, 0x399]), (0x1F99, [0x1F29, 0x399]), (0x1F9A, [0x1F2A, 0x399]),
      (0x1F9B, [0x1F2B, 0x399]), (0x1F9C, [0x1F2C, 0x399]), (0x1F9D, [0x1F2D, 0x399]),
      (0x1F9E, [0x1F2E, 0x399]), (0x1F9F, [0x1F2F, 0x399]), (0x1FA0, [0x1F68, 0x399]),
      (0x1FA1, [0x1F69, 0x399]), (0x1FA2, [0x1F6A, 0x399]), (0x1FA3, [0x1F6B, 0x399]),
      (0x1FA4, [0x1F6C, 0x399]), (0x1FA5, [0x1F6D, 0x399]), (0x1FA6, [0x1F6E, 0x399]),
      (0x1FA7, [0x1F6F, 0x399]), (0x1FA8, [0x1F68, 0x399]), (0x1FA9, [0x1F69, 0x399]),
      (0x1FAA, [0x1F6A, 0x399]), (0x1FAB, [0x1F6B, 0x399]), (0x1FAC, [0x1F6C, 0x399]),
      (0x1FAD, [0x1F6D, 0x399]), (0x1FAE, [0x1F6E, 0x399]), (0x1FAF, [0x1F6F, 0x399]),
      (0x1FB2, [0x1FBA, 0x399]), (0x1FB3, [0x391, 0x399]), (0x1FB4, [0x386, 0x399]),
      (0x1FB6, [0x391, 0x342]), (0x1FB7, [0x391, 0x342, 0x399]), (0x1FBC, [0x391, 0x399]),
      (0x1FC2, [0x1FCA, 0x399]), (0x1FC3, [0x397, 0x399]), (0x1FC4, [0x389, 0x399]),
      (0x1FC6, [0x397, 0x342]), (0x1FC7, [0x397, 0x342, 0x399]), (0x1FCC, [0x397, 0x399]),
      (0x1FD2, [0x399, 0x308, 0x300]), (0x1FD3, [0x399, 0x308, 0x301]), (0x1FD6, [0x399, 0x342]),
      (0x1FD7, [0x399, 0x308, 0x342]), (0x1FE2, [0x3A5, 0x308, 0x300]), (0x1FE3, [0x3A5, 0x308, 0x301]),
      (0x1FE4, [0x3A1, 0x313]), (0x1FE6, [0x3A5, 0x342]), (0x1FE7, [0x3A5, 0x308, 0x342]),
      (0x1FF2, [0x1FFA, 0x399]), (0x1FF3, [0x3A9, 0x399]), (0x1FF4, [0x38F, 0x399]),
      (0x1FF6, [0x3A9, 0x342]), (0x1FF7, [0x3A9, 0x342, 0x399]), (0x1FFC, [0x3A9, 0x399]),
      (0xFB00, [0x46, 0x46]), (0xFB01, [0x46, 0x49]), (0xFB02, [0x46, 0x4C]),
      (0xFB03, [0x46, 0x46, 0x49]), (0xFB04, [0x46, 0x46, 0x4C]), (0xFB05, [0x53, 0x54]),
      (0xFB06, [0x53, 0x54]), (0xFB13, [0x544, 0x546]), (0xFB14, [0x544, 0x535]),
      (0xFB15, [0x544, 0x53B]), (0xFB16, [0x54E, 0x546]), (0xFB17, [0x544, 0x53D])]"

definition casedRanges :: "(int \<times> int) list" where
  "casedRanges =
     [(0xAA, 0xAA), (0xB5, 0xB5), (0xBA, 0xBA), (0xC0, 0xD6), (0xD8, 0xF6),
      (0xF8, 0x1BA), (0x1BC, 0x1BF), (0x1C4, 0x293), (0x295, 0x2B8), (0x2C0, 0x2C1),
      (0x2E0, 0x2E4), (0x345, 0x345), (0x370, 0x373), (0x376, 0x377), (0x37A, 0x37D),
      (0x37F, 0x37F), (0x386, 0x386), (0x388, 0x38A), (0x38C, 0x38C), (0x38E, 0x3A1),
      (0x3A3, 0x3F5), (0x3F7, 0x481), (0x48A, 0x52F), (0x531, 0x556), (0x560, 0x588),
      (0x10A0, 0x10C5), (0x10C7, 0x10C7), (0x10CD, 0x10CD), (0x10D0, 0x10FA), (0x10FD, 0x10FF),
      (0x13A0, 0x13F5), (0x13F8, 0x13FD), (0x1C80, 0x1C88), (0x1C90, 0x1CBA), (0x1CBD, 0x1CBF),
      (0x1D00, 0x1DBF), (0x1E00, 0x1F15), (0x1F18, 0x1F1D), (0x1F20, 0x1F45), (0x1F48, 0x1F4D),
      (0x1F50, 0x1F57), (0x1F59, 0x1F59), (0x1F5B, 0x1F5B), (0x1F5D, 0x1F5D), (0x1F5F, 0x1F7D),
      (0x1F80, 0x1FB4), (0x1FB6, 0x1FBC), (0x1FBE, 0x1FBE), (0x1FC2, 0x1FC4), (0x1FC6, 0x1FCC),
      (0x1FD0, 0x1FD3), (0x1FD6, 0x1FDB), (0x1FE0, 0x1FEC), (0x1FF2, 0x1FF4), (0x1FF6, 0x1FFC),
      (0x2071, 0x2071), (0x207F, 0x207F), (0x2090, 0x209C), (0x2102, 0x2102), (0x2107, 0x2107),
      (0x210A, 0x2113), (0x2115, 0x2115), (0x2119, 0x211D), (0x2124, 0x2124), (0x2126, 0x2126),
      (0x2128, 0x2128), (0x212A, 0x212D), (0x212F, 0x2134), (0x2139, 0x2139), (0x213C, 0x213F),
      (0x2145, 0x2149), (0x214E, 0x214E), (0x2160, 0x217F), (0x2183, 0x2184), (0x24B6, 0x24E9),
      (0x2C00, 0x2CE4), (0x2CEB, 0x2CEE), (0x2CF2, 0x2CF3), (0x2D00, 0x2D25), (0x2D27, 0x2D27),
      (0x2D2D, 0x2D2D), (0xA640, 0xA66D), (0xA680, 0xA69D), (0xA722, 0xA787), (0xA78B, 0xA78E),
      (0xA790, 0xA7CA), (0xA7D0, 0xA7D1), (0xA7D3, 0xA7D3), (0xA7D5, 0xA7D9), (0xA7F5, 0xA7F6),
      (0xA7F8, 0xA7FA), (0xAB30, 0xAB5A), (0xAB5C, 0xAB68), (0xAB70, 0xABBF), (0xFB00, 0xFB06),
      (0xFB13, 0xFB17), (0xFF21, 0xFF3A), (0xFF41, 0xFF5A), (0x10400, 0x1044F), (0x104B0, 0x104D3),
      (0x104D8, 0x104FB), (0x10570, 0x1057A), (0x1057C, 0x1058A), (0x1058C, 0x10592), (0x10594, 0x10595),
      (0x10597, 0x105A1), (0x105A3, 0x105B1), (0x105B3, 0x105B9), (0x105BB, 0x105BC), (0x10780, 0x10780),
      (0x10783, 0x10785), (0x10787, 0x107B0), (0x107B2, 0x107BA), (0x10C80, 0x10CB2), (0x10CC0, 0x10CF2),
      (0x118A0, 0x118DF), (0x16E40, 0x16E7F), (0x1D400, 0x1D454), (0x1D456, 0x1D49C), (0x1D49E, 0x1D49F),
      (0x1D4A2, 0x1D4A2), (0x1D4A5, 0x1D4A6), (0x1D4A9, 0x1D4AC), (0x1D4AE, 0x1D4B9), (0x1D4BB, 0x1D4BB),
      (0x1D4BD, 0x1D4C3), (0x1D4C5, 0x1D505), (0x1D507, 0x1D50A), (0x1D50D, 0x1D514), (0x1D516, 0x1D51C),
      (0x1D51E, 0x1D539), (0x1D53B, 0x1D53E), (0x1D540, 0x1D544), (0x1D546, 0x1D546), (0x1D54A, 0x1D550),
      (0x1D552, 0x1D6A5), (0x1D6A8, 0x1D6C0), (0x1D6C2, 0x1D6DA), (0x1D6DC, 0x1D6FA), (0x1D6FC, 0x1D714),
      (0x1D716, 0x1D734), (0x1D736, 0x1D74E), (0x1D750, 0x1D76E), (0x1D770, 0x1D788), (0x1D78A, 0x1D7A8),
      (0x1D7AA, 0x1D7C2), (0x1D7C4, 0x1D7CB), (0x1DF00, 0x1DF09), (0x1DF0B, 0x1DF1E), (0x1E900, 0x1E943),
      (0x1F130, 0x1F149), (0x1F150, 0x1F169), (0x1F170, 0x1F189)]"

definition ignorableRanges :: "(int \<times> int) list" where
  "ignorableRanges =
     [(0xA8, 0xA8), (0xAD, 0xAD), (0xAF, 0xAF), (0xB4, 0xB4), (0xB7, 0xB8),
      (0x2B0, 0x36F), (0x374, 0x375), (0x37A, 0x37A), (0x384, 0x385), (0x387, 0x387),
      (0x483, 0x489), (0x559, 0x559), (0x55F, 0x55F), (0x591, 0x5BD), (0x5BF, 0x5BF),
      (0x5C1, 0x5C2), (0x5C4, 0x5C5), (0x5C7, 0x5C7), (0x5F4, 0x5F4), (0x600, 0x605),
      (0x610, 0x61A), (0x61C, 0x61C), (0x640, 0x640), (0x64B, 0x65F), (0x670, 0x670),
      (0x6D6, 0x6DD), (0x6DF, 0x6E8), (0x6EA, 0x6ED), (0x70F, 0x70F), (0x711, 0x711),
      (0x730, 0x74A), (0x7A6, 0x7B0), (0x7EB, 0x7F5), (0x7FA, 0x7FA), (0x7FD, 0x7FD),
      (0x816, 0x82D), (0x859, 0x85B), (0x888, 0x888), (0x890, 0x891), (0x898, 0x89F),
      (0x8C9, 0x902), (0x93A, 0x93A), (0x93C, 0x93C), (0x941, 0x948), (0x94D, 0x94D),
      (0x951, 0x957), (0x962, 0x963), (0x971, 0x971), (0x981, 0x981), (0x9BC, 0x9BC),
      (0x9C1, 0x9C4), (0x9CD, 0x9CD), (0x9E2, 0x9E3), (0x9FE, 0x9FE), (0xA01, 0xA02),
      (0xA3C, 0xA3C), (0xA41, 0xA42), (0xA47, 0xA48), (0xA4B, 0xA4D), (0xA51, 0xA51),
      (0xA70, 0xA71), (0xA75, 0xA75), (0xA81, 0xA82), (0xABC, 0xABC), (0xAC1, 0xAC5),
      (0xAC7, 0xAC8), (0xACD, 0xACD), (0xAE2, 0xAE3), (0xAFA, 0xAFF), (0xB01, 0xB01),
      (0xB3C, 0xB3C), (0xB3F, 0xB3F), (0xB41, 0xB44), (0xB4D, 0xB4D), (0xB55, 0xB56),
      (0xB62, 0xB63), (0xB82, 0xB82), (0xBC0, 0xBC0), (0xBCD, 0xBCD), (0xC00, 0xC00),
      (0xC04, 0xC04), (0xC3C, 0xC3C), (0xC3E, 0xC40), (0xC46, 0xC48), (0xC4A, 0xC4D),
      (0xC55, 0xC56), (0xC62, 0xC63), (0xC81, 0xC81), (0xCBC, 0xCBC), (0xCBF, 0xCBF),
      (0xCC6, 0xCC6), (0xCCC, 0xCCD), (0xCE2, 0xCE3), (0xD00, 0xD01), (0xD3B, 0xD3C),
      (0xD41, 0xD44), (0xD4D, 0xD4D), (0xD62, 0xD63), (0xD81, 0xD81), (0xDCA, 0xDCA),
      (0xDD2, 0xDD4), (0xDD6, 0xDD6), (0xE31, 0xE31), (0xE34, 0xE3A), (0xE46, 0xE4E),
      (0xEB1, 0xEB1), (0xEB4, 0xEBC), (0xEC6, 0xEC6), (0xEC8, 0xECD), (0xF18, 0xF19),
      (0xF35, 0xF35), (0xF37, 0xF37), (0xF39, 0xF39), (0xF71, 0xF7E), (0xF80, 0xF84),
      (0xF86, 0xF87), (0xF8D, 0xF97), (0xF99, 0xFBC), (0xFC6, 0xFC6), (0x102D, 0x1030),
      (0x1032, 0x1037), (0x1039, 0x103A), (0x103D, 0x103E), (0x1058, 0x1059), (0x105E, 0x1060),
      (0x1071, 0x1074), (0x1082, 0x1082), (0x1085, 0x1086), (0x108D, 0x108D), (0x109D, 0x109D),
      (0x10FC, 0x10FC), (0x135D, 0x135F), (0x1712, 0x1714), (0x1732, 0x1733), (0x1752, 0x1753),
      (0x1772, 0x1773), (0x17B4, 0x17B5), (0x17B7, 0x17BD), (0x17C6, 0x17C6), (0x17C9, 0x17D3),
      (0x17D7, 0x17D7), (0x17DD, 0x17DD), (0x180B, 0x180F), (0x1843, 0x1843), (0x1885, 0x1886),
      (0x18A9, 0x18A9), (0x1920, 0x1922), (0x1927, 0x1928), (0x1932, 0x1932), (0x1939, 0x193B),
      (0x1A17, 0x1A18), (0x1A1B, 0x1A1B), (0x1A56, 0x1A56), (0x1A58, 0x1A5E), (0x1A60, 0x1A60),
      (0x1A62, 0x1A62), (0x1A65, 0x1A6C), (0x1A73, 0x1A7C), (0x1A7F, 0x1A7F), (0x1AA7, 0x1AA7),
      (0x1AB0, 0x1ACE), (0x1B00, 0x1B03), (0x1B34, 0x1B34), (0x1B36, 0x1B3A), (0x1B3C, 0x1B3C),
      (0x1B42, 0x1B42), (0x1B6B, 0x1B73), (0x1B80, 0x1B81), (0x1BA2, 0x1BA5), (0x1BA8, 0x1BA9),
      (0x1BAB, 0x1BAD), (0x1BE6, 0x1BE6), (0x1BE8, 0x1BE9), (0x1BED, 0x1BED), (0x1BEF, 0x1BF1),
      (0x1C2C, 0x1C33), (0x1C36, 0x1C37), (0x1C78, 0x1C7D), (0x1CD0, 0x1CD2), (0x1CD4, 0x1CE0),
      (0x1CE2, 0x1CE8), (0x1CED, 0x1CED), (0x1CF4, 0x1CF4), (0x1CF8, 0x1CF9), (0x1D2C, 0x1D6A),
      (0x1D78, 0x1D78), (0x1D9B, 0x1DFF), (0x1FBD, 0x1FBD), (0x1FBF, 0x1FC1), (0x1FCD, 0x1FCF),
      (0x1FDD, 0x1FDF), (0x1FED, 0x1FEF), (0x1FFD, 0x1FFE), (0x200B, 0x200F), (0x2018, 0x2019),
      (0x2024, 0x2024), (0x2027, 0x2027), (0x202A, 0x202E), (0x2060, 0x2064), (0x2066, 0x206F),
      (0x2071, 0x2071), (0x207F, 0x207F), (0x2090, 0x209C), (0x20D0, 0x20F0), (0x2C7C, 0x2C7D),
      (0x2CEF, 0x2CF1), (0x2D6F, 0x2D6F), (0x2D7F, 0x2D7F), (0x2DE0, 0x2DFF), (0x2E2F, 0x2E2F),
      (0x3005, 0x3005), (0x302A, 0x302D), (0x3031, 0x3035), (0x303B, 0x303B), (0x3099, 0x309E),
      (0x30FC, 0x30FE), (0xA015, 0xA015), (0xA4F8, 0xA4FD), (0xA60C, 0xA60C), (0xA66F, 0xA672),
      (0xA674, 0xA67D), (0xA67F, 0xA67F), (0xA69C, 0xA69F), (0xA6F0, 0xA6F1), (0xA700, 0xA721),
      (0xA770, 0xA770), (0xA788, 0xA78A), (0xA7F2, 0xA7F4), (0xA7F8, 0xA7F9), (0xA802, 0xA802),
      (0xA806, 0xA806), (0xA80B, 0xA80B), (0xA825, 0xA826), (0xA82C, 0xA82C), (0xA8C4, 0xA8C5),
      (0xA8E0, 0xA8F1), (0xA8FF, 0xA8FF), (0xA926, 0xA92D), (0xA947, 0xA951), (0xA980, 0xA982),
      (0xA9B3, 0xA9B3), (0xA9B6, 0xA9B9), (0xA9BC, 0xA9BD), (0xA9CF, 0xA9CF), (0xA9E5, 0xA9E6),
      (0xAA29, 0xAA2E), (0xAA31, 0xAA32), (0xAA35, 0xAA36), (0xAA43, 0xAA43), (0xAA4C, 0xAA4C),
      (0xAA70, 0xAA70), (0xAA7C, 0xAA7C), (0xAAB0, 0xAAB0), (0xAAB2, 0xAAB4), (0xAAB7, 0xAAB8),
      (0xAABE, 0xAABF), (0xAAC1, 0xAAC1), (0xAADD, 0xAADD), (0xAAEC, 0xAAED), (0xAAF3, 0xAAF4),
      (0xAAF6, 0xAAF6), (0xAB5B, 0xAB5F), (0xAB69, 0xAB6B), (0xABE5, 0xABE5), (0xABE8, 0xABE8),
      (0xABED, 0xABED), (0xFB1E, 0xFB1E), (0xFBB2, 0xFBC2), (0xFE00, 0xFE0F), (0xFE13, 0xFE13),
      (0xFE20, 0xFE2F), (0xFE52, 0xFE52), (0xFE55, 0xFE55), (0xFEFF, 0xFEFF), (0xFF07, 0xFF07),
      (0xFF0E, 0xFF0E), (0xFF1A, 0xFF1A), (0xFF3E, 0xFF3E), (0xFF40, 0xFF40), (0xFF70, 0xFF70),
      (0xFF9E, 0xFF9F), (0xFFE3, 0xFFE3), (0xFFF9, 0xFFFB), (0x101FD, 0x101FD), (0x102E0, 0x102E0),
      (0x10376, 0x1037A), (0x10780, 0x10785), (0x10787, 0x107B0), (0x107B2, 0x107BA), (0x10A01, 0x10A03),
      (0x10A05, 0x10A06), (0x10A0C, 0x10A0F), (0x10A38, 0x10A3A), (0x10A3F, 0x10A3F), (0x10AE5, 0x10AE6),
      (0x10D24, 0x10D27), (0x10EAB, 0x10EAC), (0x10F46, 0x10F50), (0x10F82, 0x10F85), (0x11001, 0x11001),
      (0x11038, 0x11046), (0x11070, 0x11070), (0x11073, 0x11074), (0x1107F, 0x11081), (0x110B3, 0x110B6),
      (0x110B9, 0x110BA), (0x110BD, 0x110BD), (0x110C2, 0x110C2), (0x110CD, 0x110CD), (0x11100, 0x11102),
      (0x11127, 0x1112B), (0x1112D, 0x11134), (0x11173, 0x11173), (0x11180, 0x11181), (0x111B6, 0x111BE),
      (0x111C9, 0x111CC), (0x111CF, 0x111CF), (0x1122F, 0x11231), (0x11234, 0x11234), (0x11236, 0x11237),
      (0x1123E, 0x1123E), (0x112DF, 0x112DF), (0x112E3, 0x112EA), (0x11300, 0x11301), (0x1133B, 0x1133C),
      (0x11340, 0x11340), (0x11366, 0x1136C), (0x11370, 0x11374), (0x11438, 0x1143F), (0x11442, 0x11444),
      (0x11446, 0x11446), (0x1145E, 0x1145E), (0x114B3, 0x114B8), (0x114BA, 0x114BA), (0x114BF, 0x114C0),
      (0x114C2, 0x114C3), (0x115B2, 0x115B5), (0x115BC, 0x115BD), (0x115BF, 0x115C0), (0x115DC, 0x115DD),
      (0x11633, 0x1163A), (0x1163D, 0x1163D), (0x1163F, 0x11640), (0x116AB, 0x116AB), (0x116AD, 0x116AD),
      (0x116B0, 0x116B5), (0x116B7, 0x116B7), (0x1171D, 0x1171F), (0x11722, 0x11725), (0x11727, 0x1172B),
      (0x1182F, 0x11837), (0x11839, 0x1183A), (0x1193B, 0x1193C), (0x1193E, 0x1193E), (0x11943, 0x11943),
      (0x119D4, 0x119D7), (0x119DA, 0x119DB), (0x119E0, 0x119E0), (0x11A01, 0x11A0A), (0x11A33, 0x11A38),
      (0x11A3B, 0x11A3E), (0x11A47, 0x11A47), (0x11A51, 0x11A56), (0x11A59, 0x11A5B), (0x11A8A, 0x11A96),
      (0x11A98, 0x11A99), (0x11C30, 0x11C36), (0x11C38, 0x11C3D), (0x11C3F, 0x11C3F), (0x11C92, 0x11CA7),
      (0x11CAA, 0x11CB0), (0x11CB2, 0x11CB3), (0x11CB5, 0x11CB6), (0x11D31, 0x11D36), (0x11D3A, 0x11D3A),
      (0x11D3C, 0x11D3D), (0x11D3F, 0x11D45), (0x11D47, 0x11D47), (0x11D90, 0x11D91), (0x11D95, 0x11D95),
      (0x11D97, 0x11D97), (0x11EF3, 0x11EF4), (0x13430, 0x13438), (0x16AF0, 0x16AF4), (0x16B30, 0x16B36),
      (0x16B40, 0x16B43), (0x16F4F, 0x16F4F), (0x16F8F, 0x16F9F), (0x16FE0, 0x16FE1), (0x16FE3, 0x16FE4),
      (0x1AFF0, 0x1AFF3), (0x1AFF5, 0x1AFFB), (0x1AFFD, 0x1AFFE), (0x1BC9D, 0x1BC9E), (0x1BCA0, 0x1BCA3),
      (0x1CF00, 0x1CF2D), (0x1CF30, 0x1CF46), (0x1D167, 0x1D169), (0x1D173, 0x1D182), (0x1D185, 0x1D18B),
      (0x1D1AA, 0x1D1AD), (0x1D242, 0x1D244), (0x1DA00, 0x1DA36), (0x1DA3B, 0x1DA6C), (0x1DA75, 0x1DA75),
      (0x1DA84, 0x1DA84), (0x1DA9B, 0x1DA9F), (0x1DAA1, 0x1DAAF), (0x1E000, 0x1E006), (0x1E008, 0x1E018),
      (0x1E01B, 0x1E021), (0x1E023, 0x1E024), (0x1E026, 0x1E02A), (0x1E130, 0x1E13D), (0x1E2AE, 0x1E2AE),
      (0x1E2EC, 0x1E2EF), (0x1E8D0, 0x1E8D6), (0x1E944, 0x1E94B), (0x1F3FB, 0x1F3FF), (0xE0001, 0xE0001),
      (0xE0020, 0xE007F), (0xE0100, 0xE01EF)]"

fun rangeLookup :: "(int \<times> int \<times> int \<times> int) list \<Rightarrow> int \<Rightarrow> int option" where
  "rangeLookup [] c = None"
| "rangeLookup ((lo, hi, stride, delta) # rs) c =
     (if lo \<le> c \<and> c \<le> hi \<and> (c - lo) mod stride = 0 then Some (c + delta)
      else rangeLookup rs c)"

fun inRanges :: "(int \<times> int) list \<Rightarrow> int \<Rightarrow> bool" where
  "inRanges [] c = False"
| "inRanges ((lo, hi) # rs) c = ((lo \<le> c \<and> c \<le> hi) \<or> inRanges rs c)"

definition cased :: "int \<Rightarrow> bool" where
  "cased c = (if c < 0x80 then isUpper c \<or> isLower c else inRanges casedRanges c)"

definition caseIgnorable :: "int \<Rightarrow> bool" where
  "caseIgnorable c =
     (if c < 0x80 then c \<in> set [0x27, 0x2E, 0x3A, 0x5E, 0x60] else inRanges ignorableRanges c)"

definition lowerPoint :: "int \<Rightarrow> int list" where
  \<comment> \<open>the lower case of a code point that is not a capital sigma\<close>
  "lowerPoint c =
     (if c < 0x80 then [toLowerAscii c]
      else if c = 0x130 then [0x69, 0x307]
      else (case rangeLookup lowerRanges c of Some l \<Rightarrow> [l] | None \<Rightarrow> [c]))"

definition finalSigma :: "int list \<Rightarrow> int list \<Rightarrow> bool" where
  \<comment> \<open>\<open>seen\<close> holds the code points in front of the sigma, the nearest first, \<open>rest\<close>
      those that follow it: the sigma is final when a cased letter stands in front of it and
      none follows it, case-ignorable characters being skipped\<close>
  "finalSigma seen rest =
     ((case dropWhile caseIgnorable seen of [] \<Rightarrow> False | b # _ \<Rightarrow> cased b) \<and>
      (case dropWhile caseIgnorable rest of [] \<Rightarrow> True | a # _ \<Rightarrow> \<not> cased a))"

fun lowerPoints :: "int list \<Rightarrow> int list \<Rightarrow> int list" where
  "lowerPoints seen [] = []"
| "lowerPoints seen (c # rest) =
     (if c = 0x3A3 then [if finalSigma seen rest then 0x3C2 else 0x3C3] else lowerPoint c) @
     lowerPoints (c # seen) rest"

fun decodeUtf16 :: "ustring \<Rightarrow> int list" where
  \<comment> \<open>the code points of a string; a surrogate that has no partner stands for itself\<close>
  "decodeUtf16 (h # l # r) =
     (if 0xD800 \<le> h \<and> h \<le> 0xDBFF \<and> 0xDC00 \<le> l \<and> l \<le> 0xDFFF
      then (0x10000 + (h - 0xD800) * 0x400 + (l - 0xDC00)) # decodeUtf16 r
      else h # decodeUtf16 (l # r))"
| "decodeUtf16 [h] = [h]"
| "decodeUtf16 [] = []"

definition encodePoint :: "int \<Rightarrow> ustring" where
  "encodePoint c =
     (if c < 0x10000 then [c]
      else [0xD800 + (c - 0x10000) div 0x400, 0xDC00 + (c - 0x10000) mod 0x400])"

definition toLowerCase :: "ustring \<Rightarrow> ustring" where
  "toLowerCase s = concat (map encodePoint (lowerPoints [] (decodeUtf16 s)))"

definition toUpperUnit :: "int \<Rightarrow> ustring" where
  \<comment> \<open>\<open>toUpperCase\<close> of the string that consists of one code unit, as \<open>charAt\<close> returns it;
      a surrogate has no upper case\<close>
  "toUpperUnit c =
     (if c < 0x80 then [if isLower c then c - 0x20 else c]
      else (case map_of upperSpecial c of
              Some us \<Rightarrow> us
            | None \<Rightarrow> (case rangeLookup upperRanges c of Some u \<Rightarrow> [u] | None \<Rightarrow> [c])))"

subsection \<open>Replacing the matches of a regular expression\<close>

text \<open>
  A pattern is given by its matcher: from the character before the position (for \<open>\b\<close>)
  and the text from the position on, the length of the match that starts there, if any.
  None of the patterns of this program matches the empty string. \<open>replaceAll\<close> is
  \<open>replace\<close> with a pattern under the flag \<open>g\<close>: the matches are found from left to
  right, a search resuming where the last match ended. \<open>replaceFirst\<close> is \<open>replace\<close>
  without the flag.
\<close>

type_synonym matcher = "int option \<Rightarrow> ustring \<Rightarrow> nat option"

fun replaceAll :: "matcher \<Rightarrow> ustring \<Rightarrow> int option \<Rightarrow> ustring \<Rightarrow> ustring" where
  "replaceAll m rep prev [] = []"
| "replaceAll m rep prev (c # cs) =
     (case m prev (c # cs) of
        Some (Suc n) \<Rightarrow> rep @ replaceAll m rep (Some ((c # cs) ! min n (length cs))) (drop n cs)
      | _ \<Rightarrow> c # replaceAll m rep (Some c) cs)"

fun replaceFirst :: "matcher \<Rightarrow> ustring \<Rightarrow> int option \<Rightarrow> ustring \<Rightarrow> ustring" where
  "replaceFirst m rep prev [] = []"
| "replaceFirst m rep prev (c # cs) =
     (case m prev (c # cs) of
        Some (Suc n) \<Rightarrow> rep @ drop n cs
      | _ \<Rightarrow> c # replaceFirst m rep (Some c) cs)"

section \<open>Cleaning the name of an inventory item (App.tsx)\<close>

definition mUnderscore :: matcher where
  \<comment> \<open>\<open>/_/g\<close>\<close>
  "mUnderscore prev s = (case s of c # cs \<Rightarrow> if c = 0x5F then Some 1 else None | [] \<Rightarrow> None)"

definition matchesErrorTail :: "ustring \<Rightarrow> bool" where
  \<comment> \<open>\<open>\s*-\s*ERROR\s*.*$\<close> matches the whole of \<open>s\<close>\<close>
  "matchesErrorTail s =
     (case dropWhile isSpace s of
        [] \<Rightarrow> False
      | c # s2 \<Rightarrow>
          c = 0x2D \<and>
          (let s3 = dropWhile isSpace s2
           in startsWithCI (utf16 ''ERROR'') s3 \<and>
              list_all (\<lambda>c. \<not> isLineTerminator c) (dropWhile isSpace (drop 5 s3))))"

definition mErrorTail :: matcher where
  \<comment> \<open>\<open>/\s*-\s*ERROR\s*.*$/i\<close>: a match runs to the end of the text\<close>
  "mErrorTail prev s = (if matchesErrorTail s then Some (length s) else None)"

definition mHexToken :: matcher where
  \<comment> \<open>\<open>/\b[a-f0-9]{8,}\b/gi\<close>: a run of hex digits of length 8 or more between two word
      boundaries\<close>
  "mHexToken prev s =
     (let run = takeWhile isHexChar s; rest = dropWhile isHexChar s
      in if (case prev of None \<Rightarrow> True | Some p \<Rightarrow> \<not> isWordChar p) \<and> 8 \<le> length run \<and>
            (case rest of [] \<Rightarrow> True | r # _ \<Rightarrow> \<not> isWordChar r)
         then Some (length run) else None)"

definition mVersion :: matcher where
  \<comment> \<open>\<open>/x86|x64|v\d+(\.\d+)?/gi\<close>\<close>
  "mVersion prev s =
     (if startsWithCI (utf16 ''x86'') s then Some 3
      else if startsWithCI (utf16 ''x64'') s then Some 3
      else (case s of
              [] \<Rightarrow> None
            | c # r \<Rightarrow>
                if matchesI (unit CHR ''v'') c then
                  (let d1 = takeWhile isDigit r; r2 = dropWhile isDigit r
                   in if d1 = [] then None
                      else (case r2 of
                              [] \<Rightarrow> Some (1 + length d1)
                            | dot # r3 \<Rightarrow>
                                (let d2 = takeWhile isDigit r3
                                 in if dot = 0x2E \<and> d2 \<noteq> []
                                    then Some (1 + length d1 + 1 + length d2)
                                    else Some (1 + length d1))))
                else None))"

definition mSpaces :: matcher where
  \<comment> \<open>\<open>/\s+/g\<close>\<close>
  "mSpaces prev s = (let run = takeWhile isSpace s in if run = [] then None else Some (length run))"

definition capitalize :: "ustring \<Rightarrow> ustring" where
  \<comment> \<open>\<open>cleanName.charAt(0).toUpperCase() + cleanName.slice(1)\<close>, when the name is not empty\<close>
  "capitalize s = (case s of [] \<Rightarrow> [] | c # cs \<Rightarrow> toUpperUnit c @ cs)"

definition cleanName :: "ustring \<Rightarrow> ustring" where
  \<comment> \<open>step 1 of \<open>sanitizeInventory\<close>: the chain of replacements and \<open>trim()\<close>\<close>
  "cleanName n =
     trim (replaceAll mSpaces (utf16 '' '') None
       (replaceAll mVersion [] None
         (replaceAll mHexToken [] None
           (replaceFirst mErrorTail [] None
             (replaceAll mUnderscore (utf16 '' '') None n)))))"

definition defaultDescription :: ustring where
  "defaultDescription =
     utf16 ''Un objeto tan misterioso que la propia realidad (o la IA) se niega a describirlo. Huele a ozono.''"

definition sanitizeName :: "ustring \<Rightarrow> ustring" where
  \<comment> \<open>steps 1 to 4 of \<open>sanitizeInventory\<close> on one name\<close>
  "sanitizeName n =
     (let c1 = capitalize (cleanName n);
          c2 = (if 22 < length c1 then take 20 c1 @ utf16 ''..'' else c1)
      in if c2 = [] then utf16 ''Objeto Raro'' else c2)"

definition normalizeLocKey :: "ustring \<Rightarrow> ustring" where
  "normalizeLocKey location = toLowerCase (trim location)"

section \<open>Values of the host language and \<open>JSON.parse\<close>\<close>

text \<open>
  What \<open>JSON.parse\<close> returns is not typed, and the program passes it on unchecked. So the
  values are kept as they are: \<open>null\<close>, a truth value, a number, a string, an array or an
  object. A number is kept as its literal, since the program only ever tests one for
  truthiness. An object is the list of its own properties in the order of their creation,
  each key once; \<open>AList.update\<close> replaces the value of a key that is there and adds the key
  at the end otherwise, as the creation of a data property does (the order in which the
  properties are enumerated plays no part in the program). \<open>JSON.parse\<close> belongs to
  the platform, not to the repository. It is modelled after the JSON grammar: a scanner
  producing tokens and a pushdown automaton over them.
\<close>

datatype json =
    JNull
  | JBool bool
  | JNumber ustring
  | JString ustring
  | JArray "json list"
  | JObject "(ustring \<times> json) list"

datatype token =
    TLBrace | TRBrace | TLBracket | TRBracket | TColon | TComma
  | TString ustring | TNumber ustring | TTrue | TFalse | TNull

definition isJsonSpace :: "int \<Rightarrow> bool" where
  "isJsonSpace c = (c \<in> set [0x09, 0x0A, 0x0D, 0x20])"

definition unescape :: "int \<Rightarrow> int option" where
  "unescape e =
     (if e = 0x22 then Some 0x22
      else if e = 0x5C then Some 0x5C
      else if e = unit CHR ''/'' then Some (unit CHR ''/'')
      else if e = unit CHR ''b'' then Some 0x08
      else if e = unit CHR ''f'' then Some 0x0C
      else if e = unit CHR ''n'' then Some 0x0A
      else if e = unit CHR ''r'' then Some 0x0D
      else if e = unit CHR ''t'' then Some 0x09
      else None)"

definition hexDigit :: "int \<Rightarrow> int" where
  "hexDigit c =
     (if isDigit c then c - 0x30
      else if isLower c then c - 0x57
      else c - 0x37)"

definition hexValue :: "ustring \<Rightarrow> int" where
  "hexValue ds = foldl (\<lambda>acc d. 16 * acc + hexDigit d) 0 ds"

fun scanString :: "ustring \<Rightarrow> ustring \<Rightarrow> (ustring \<times> ustring) option" where
  \<comment> \<open>after the opening quote: the decoded string and the text after the closing quote\<close>
  "scanString acc [] = None"
| "scanString acc (c # cs) =
     (if c = 0x22 then Some (acc, cs)
      else if c = 0x5C then
        (case cs of
           [] \<Rightarrow> None
         | e # es \<Rightarrow>
             if e = unit CHR ''u'' then
               (if 4 \<le> length es \<and> list_all isHexChar (take 4 es)
                then scanString (acc @ [hexValue (take 4 es)]) (drop 4 es)
                else None)
             else (case unescape e of
                     None \<Rightarrow> None
                   | Some d \<Rightarrow> scanString (acc @ [d]) es))
      else if c < 0x20 then None
      else scanString (acc @ [c]) cs)"

definition isNumberChar :: "int \<Rightarrow> bool" where
  "isNumberChar c = (isDigit c \<or> c \<in> set (utf16 ''+-.eE''))"

definition validNumber :: "ustring \<Rightarrow> bool" where
  \<comment> \<open>\<open>-?(0|[1-9][0-9]*)(\.[0-9]+)?([eE][+-]?[0-9]+)?\<close>\<close>
  "validNumber s =
     (let s1 = (case s of [] \<Rightarrow> [] | c # r \<Rightarrow> if c = 0x2D then r else s)
      in case s1 of
           [] \<Rightarrow> False
         | d # r \<Rightarrow>
             isDigit d \<and>
             (let afterInt = (if d = 0x30 then r else dropWhile isDigit r);
                  fracOk = (case afterInt of
                              [] \<Rightarrow> True
                            | p # f \<Rightarrow> p = 0x2E \<longrightarrow> takeWhile isDigit f \<noteq> []);
                  afterFrac = (case afterInt of
                                 [] \<Rightarrow> []
                               | p # f \<Rightarrow> if p = 0x2E then dropWhile isDigit f else afterInt)
              in fracOk \<and>
                 (case afterFrac of
                    [] \<Rightarrow> True
                  | e # x \<Rightarrow>
                      (e = unit CHR ''e'' \<or> e = unit CHR ''E'') \<and>
                      (let ds = (case x of
                                   [] \<Rightarrow> []
                                 | g # y \<Rightarrow> if g = 0x2B \<or> g = 0x2D then y else x)
                       in ds \<noteq> [] \<and> list_all isDigit ds))))"

function tokenize :: "ustring \<Rightarrow> token list option" where
  "tokenize [] = Some []"
| "tokenize (c # cs) =
     (if isJsonSpace c then tokenize cs
      else if c = 0x7B then map_option ((#) TLBrace) (tokenize cs)
      else if c = 0x7D then map_option ((#) TRBrace) (tokenize cs)
      else if c = 0x5B then map_option ((#) TLBracket) (tokenize cs)
      else if c = 0x5D then map_option ((#) TRBracket) (tokenize cs)
      else if c = 0x3A then map_option ((#) TColon) (tokenize cs)
      else if c = 0x2C then map_option ((#) TComma) (tokenize cs)
      else if c = 0x22 then
        (case scanString [] cs of
           None \<Rightarrow> None
         | Some (v, rest) \<Rightarrow> map_option ((#) (TString v)) (tokenize rest))
      else if c = 0x2D \<or> isDigit c then
        (if validNumber (c # takeWhile isNumberChar cs)
         then map_option ((#) (TNumber (c # takeWhile isNumberChar cs)))
                (tokenize (dropWhile isNumberChar cs))
         else None)
      else if startsWith (utf16 ''true'') (c # cs) then map_option ((#) TTrue) (tokenize (drop 3 cs))
      else if startsWith (utf16 ''false'') (c # cs) then map_option ((#) TFalse) (tokenize (drop 4 cs))
      else if startsWith (utf16 ''null'') (c # cs) then map_option ((#) TNull) (tokenize (drop 3 cs))
      else None)"
  by pat_completeness auto
termination
proof (relation "measure length")
  have shorter: "length rest < length s" if "scanString acc s = Some (v, rest)"
    for acc s v rest
    using that
  proof (induction acc s arbitrary: v rest rule: scanString.induct)
    case (1 acc)
    then show ?case by simp
  next
    case (2 acc c cs)
    then show ?case
      by (simp split: if_splits list.splits option.splits) fastforce+
  qed
  fix c cs x2 v rest
  assume "scanString [] cs = Some x2" and "(v, rest) = x2"
  then show "(rest, c # cs) \<in> measure length"
    using shorter [of "[]" cs v rest] by simp
qed (auto simp: less_Suc_eq_le length_dropWhile_le)

datatype frame =
    FArr "json list"
  | FObj "(ustring \<times> json) list"
  | FKey "(ustring \<times> json) list" ustring

datatype mode = MValue | MAfterOpenArr | MAfterOpenObj | MAfterValue | MKey | MColon | MDone json

text \<open>
  The stack holds the containers that are open: \<open>FArr\<close> with the elements read so
  far, \<open>FObj\<close> with the members read so far, \<open>FKey\<close> when a key has been read and
  its value is awaited. \<open>deliver\<close> hands a finished value to the innermost container; a
  member whose key has occurred before replaces the value read for it.
\<close>

definition deliver :: "json \<Rightarrow> frame list \<Rightarrow> (mode \<times> frame list) option" where
  "deliver v st =
     (case st of
        [] \<Rightarrow> Some (MDone v, [])
      | FArr es # st' \<Rightarrow> Some (MAfterValue, FArr (es @ [v]) # st')
      | FKey ms k # st' \<Rightarrow> Some (MAfterValue, FObj (AList.update k v ms) # st')
      | FObj ms # st' \<Rightarrow> None)"

definition startValue :: "token \<Rightarrow> frame list \<Rightarrow> (mode \<times> frame list) option" where
  "startValue t st =
     (case t of
        TLBrace \<Rightarrow> Some (MAfterOpenObj, FObj [] # st)
      | TLBracket \<Rightarrow> Some (MAfterOpenArr, FArr [] # st)
      | TString s \<Rightarrow> deliver (JString s) st
      | TNumber n \<Rightarrow> deliver (JNumber n) st
      | TTrue \<Rightarrow> deliver (JBool True) st
      | TFalse \<Rightarrow> deliver (JBool False) st
      | TNull \<Rightarrow> deliver JNull st
      | _ \<Rightarrow> None)"

definition stepToken :: "mode \<Rightarrow> frame list \<Rightarrow> token \<Rightarrow> (mode \<times> frame list) option" where
  "stepToken m st t =
     (case m of
        MValue \<Rightarrow> startValue t st
      | MAfterOpenArr \<Rightarrow>
          (case (t, st) of
             (TRBracket, FArr es # st') \<Rightarrow> deliver (JArray es) st'
           | _ \<Rightarrow> startValue t st)
      | MAfterOpenObj \<Rightarrow>
          (case (t, st) of
             (TRBrace, FObj ms # st') \<Rightarrow> deliver (JObject ms) st'
           | (TString k, FObj ms # st') \<Rightarrow> Some (MColon, FKey ms k # st')
           | _ \<Rightarrow> None)
      | MKey \<Rightarrow>
          (case (t, st) of
             (TString k, FObj ms # st') \<Rightarrow> Some (MColon, FKey ms k # st')
           | _ \<Rightarrow> None)
      | MColon \<Rightarrow> (case t of TColon \<Rightarrow> Some (MValue, st) | _ \<Rightarrow> None)
      | MAfterValue \<Rightarrow>
          (case (t, st) of
             (TComma, FArr es # st') \<Rightarrow> Some (MValue, st)
           | (TRBracket, FArr es # st') \<Rightarrow> deliver (JArray es) st'
           | (TComma, FObj ms # st') \<Rightarrow> Some (MKey, st)
           | (TRBrace, FObj ms # st') \<Rightarrow> deliver (JObject ms) st'
           | _ \<Rightarrow> None)
      | MDone v \<Rightarrow> None)"

fun runTokens :: "mode \<Rightarrow> frame list \<Rightarrow> token list \<Rightarrow> json option" where
  "runTokens m st [] = (case m of MDone v \<Rightarrow> Some v | _ \<Rightarrow> None)"
| "runTokens m st (t # ts) =
     (case stepToken m st t of
        None \<Rightarrow> None
      | Some (m', st') \<Rightarrow> runTokens m' st' ts)"

definition jsonParse :: "ustring \<Rightarrow> json option" where
  \<comment> \<open>\<open>JSON.parse\<close>; \<open>None\<close> is the thrown \<open>SyntaxError\<close>\<close>
  "jsonParse s = (case tokenize s of None \<Rightarrow> None | Some ts \<Rightarrow> runTokens MValue [] ts)"

subsection \<open>Truthiness and property access\<close>

definition digitsValue :: "ustring \<Rightarrow> int" where
  "digitsValue ds = foldl (\<lambda>acc d. 10 * acc + (d - 0x30)) 0 ds"

definition numberIsZero :: "ustring \<Rightarrow> bool" where
  \<comment> \<open>the binary64 value of a number literal is zero. With \<open>m\<close> the digits before the
      exponent taken as an integer, \<open>k\<close> the number of digits of the fraction and \<open>e\<close> the
      exponent, the literal denotes \<open>m * 10 ^ (e - k)\<close>, which is rounded to zero when it is
      at most \<open>2 ^ -1075\<close>, half of the least positive value\<close>
  "numberIsZero n =
     (let unsigned = (case n of [] \<Rightarrow> [] | c # r \<Rightarrow> if c = 0x2D then r else n);
          isE = (\<lambda>c. c = unit CHR ''e'' \<or> c = unit CHR ''E'');
          mantissa = takeWhile (\<lambda>c. \<not> isE c) unsigned;
          expPart = drop 1 (dropWhile (\<lambda>c. \<not> isE c) unsigned);
          e = (case expPart of
                 [] \<Rightarrow> 0
               | g # y \<Rightarrow>
                   if g = 0x2D then - digitsValue y
                   else if g = 0x2B then digitsValue y
                   else digitsValue expPart);
          k = int (length (drop 1 (dropWhile isDigit mantissa)));
          m = digitsValue (filter isDigit mantissa)
      in m = 0 \<or> (e < k \<and> m * 2 ^ 1075 \<le> 10 ^ nat (k - e)))"

fun truthy :: "json \<Rightarrow> bool" where
  "truthy JNull = False"
| "truthy (JBool b) = b"
| "truthy (JNumber n) = (\<not> numberIsZero n)"
| "truthy (JString s) = (s \<noteq> [])"
| "truthy (JArray xs) = True"
| "truthy (JObject ms) = True"

definition property :: "json \<Rightarrow> ustring \<Rightarrow> json option" where
  \<comment> \<open>\<open>v.k\<close> for a value \<open>v\<close> that is not \<open>null\<close> and a name \<open>k\<close> that no prototype
      defines; \<open>None\<close> is \<open>undefined\<close>\<close>
  "property v k = (case v of JObject ms \<Rightarrow> map_of ms k | _ \<Rightarrow> None)"

definition orElseJ :: "json option \<Rightarrow> json \<Rightarrow> json" where
  \<comment> \<open>\<open>a || b\<close>, where \<open>a\<close> may be \<open>undefined\<close>\<close>
  "orElseJ a b = (case a of Some v \<Rightarrow> if truthy v then v else b | None \<Rightarrow> b)"

subsection \<open>\<open>cleanJsonOutput\<close> and \<open>tryParseJSON\<close> (services/gemini)\<close>

fun indexOf :: "int \<Rightarrow> ustring \<Rightarrow> nat option" where
  \<comment> \<open>\<open>None\<close> is the result -1\<close>
  "indexOf x [] = None"
| "indexOf x (c # cs) = (if c = x then Some 0 else map_option Suc (indexOf x cs))"

definition lastIndexOf :: "int \<Rightarrow> ustring \<Rightarrow> nat option" where
  "lastIndexOf x s = map_option (\<lambda>i. length s - 1 - i) (indexOf x (rev s))"

definition substring :: "ustring \<Rightarrow> nat \<Rightarrow> nat \<Rightarrow> ustring" where
  \<comment> \<open>\<open>s.substring(a, b)\<close>: the arguments are swapped when \<open>a > b\<close>\<close>
  "substring s a b = take (max a b - min a b) (drop (min a b) s)"

definition cleanJsonOutput :: "ustring \<Rightarrow> ustring" where
  "cleanJsonOutput text =
     (let cleaned = trim text
      in case (indexOf 0x7B cleaned, lastIndexOf 0x7D cleaned) of
           (Some firstBrace, Some lastBrace) \<Rightarrow> substring cleaned firstBrace (lastBrace + 1)
         | _ \<Rightarrow> cleaned)"

definition tryParseJSON :: "ustring \<Rightarrow> json option" where
  \<comment> \<open>\<open>None\<close> is the \<open>null\<close> returned after the warning; every \<open>catch\<close> is a case on
      \<open>None\<close>\<close>
  "tryParseJSON jsonString =
     (case jsonParse jsonString of
        Some v \<Rightarrow> Some v
      | None \<Rightarrow>
          (case jsonParse (jsonString @ [0x7D]) of
             Some v \<Rightarrow> Some v
           | None \<Rightarrow>
               (case jsonParse (jsonString @ [0x5D, 0x7D]) of
                  Some v \<Rightarrow> Some v
                | None \<Rightarrow>
                    (if endsWith (trim jsonString) [0x22]
                     then jsonParse (jsonString @ [0x7D])
                     else jsonParse (jsonString @ [0x22, 0x7D])))))"

section \<open>Sanitizing an inventory (App.tsx)\<close>

record JsError =
  status :: "int option"
  code :: "int option"
  message :: "ustring option"

definition errorWith :: "ustring \<Rightarrow> JsError" where
  \<comment> \<open>\<open>new Error(msg)\<close>\<close>
  "errorWith msg = \<lparr>status = None, code = None, message = Some msg\<rparr>"

definition typeError :: JsError where
  \<comment> \<open>the \<open>TypeError\<close> thrown when a method is called on a value that does not have it;
      the wording of its message is the engine's and is not modelled\<close>
  "typeError = errorWith (utf16 ''TypeError'')"

definition sanitizeItem :: "json \<Rightarrow> JsError + json" where
  \<comment> \<open>the function mapped over the items: \<open>item.name.replace\<close> throws unless \<open>item\<close> is
      an object whose property \<open>name\<close> is a string; the result is the item with its
      properties \<open>name\<close> and \<open>description\<close> written\<close>
  "sanitizeItem item =
     (case item of
        JObject ms \<Rightarrow>
          (case map_of ms (utf16 ''name'') of
             Some (JString n) \<Rightarrow>
               Inr (JObject
                 (AList.update (utf16 ''description'')
                    (orElseJ (map_of ms (utf16 ''description'')) (JString defaultDescription))
                    (AList.update (utf16 ''name'') (JString (sanitizeName n)) ms)))
           | _ \<Rightarrow> Inl typeError)
      | _ \<Rightarrow> Inl typeError)"

fun sanitizeItems :: "json list \<Rightarrow> JsError + json list" where
  \<comment> \<open>\<open>items.map\<close>, which ends with the first item for which the function throws\<close>
  "sanitizeItems [] = Inr []"
| "sanitizeItems (item # items) =
     (case sanitizeItem item of
        Inl error \<Rightarrow> Inl error
      | Inr clean \<Rightarrow>
          (case sanitizeItems items of
             Inl error \<Rightarrow> Inl error
           | Inr cleans \<Rightarrow> Inr (clean # cleans)))"

definition sanitizeInventory :: "json \<Rightarrow> JsError + json list" where
  \<comment> \<open>\<open>items.map\<close> throws unless \<open>items\<close> is an array\<close>
  "sanitizeInventory items =
     (if \<not> truthy items then Inr []
      else (case items of JArray xs \<Rightarrow> sanitizeItems xs | _ \<Rightarrow> Inl typeError))"

section \<open>Replies of the game master (types, services/gemini)\<close>

text \<open>
  The fields of a \<open>GameResponse\<close> are declared as strings and arrays, but
  \<open>mapParsedResponse\<close> fills them with whatever the parsed document holds, so they are
  values of any kind here.
\<close>

record GameSettings =
  world :: ustring
  startLocation :: ustring
  artStyle :: ustring
  objective :: ustring
  tone :: ustring

record VisitedLocation =
  imageUrl :: ustring
  visualPrompt :: json

record GameResponse =
  narrative :: json
  location :: json
  visualPrompt :: json
  inventory :: json
  keyElements :: json
  availableExits :: json
  visualChanged :: bool

definition mapParsedResponse :: "json \<Rightarrow> GameSettings \<Rightarrow> GameResponse" where
  \<comment> \<open>\<open>parsed\<close> is truthy, so it is not \<open>null\<close>\<close>
  "mapParsedResponse parsed settings =
     \<lparr>GameResponse.narrative =
        orElseJ (property parsed (utf16 ''narrative'')) (JString (utf16 ''Comienza la aventura...'')),
      GameResponse.location =
        orElseJ (property parsed (utf16 ''location'')) (JString (startLocation settings)),
      GameResponse.visualPrompt =
        orElseJ (property parsed (utf16 ''visualPrompt''))
          (JString (utf16 ''Scene of '' @ startLocation settings)),
      GameResponse.inventory = orElseJ (property parsed (utf16 ''inventory'')) (JArray []),
      GameResponse.keyElements = orElseJ (property parsed (utf16 ''keyElements'')) (JArray []),
      GameResponse.availableExits = orElseJ (property parsed (utf16 ''availableExits'')) (JArray []),
      GameResponse.visualChanged = True\<rparr>"

section \<open>The generative service and the calls made to it (services/gemini)\<close>

text \<open>
  The service is outside the program. It is an oracle: the outcome of the \<open>n\<close>-th call
  made in a session, a thrown error or a reply. The calls made so far are kept in a log, so
  that a function takes the log and returns it extended by the calls it made. The text of a
  prompt is not rendered: a prompt records which template it is and what it is built from.
  Delays are not modelled.
\<close>

record Reply =
  replyText :: "ustring option"
  replyImage :: "ustring option"

datatype prompt =
    InitPrompt GameSettings
  | ActionPrompt ustring
  | FullPrompt ustring ustring "ustring list"
  | SimplePrompt ustring ustring

datatype request = Request ustring prompt "ustring option"

type_synonym service = "nat \<Rightarrow> JsError + Reply"

definition MODEL_INIT :: ustring where "MODEL_INIT = utf16 ''gemini-3-pro-preview''"
definition MODEL_LOOP :: ustring where "MODEL_LOOP = utf16 ''gemini-2.5-flash''"
definition MODEL_IMAGE :: ustring where "MODEL_IMAGE = utf16 ''gemini-2.5-flash-image''"

definition isTransient :: "JsError \<Rightarrow> bool" where
  "isTransient error =
     (status error = Some 503 \<or> code error = Some 503 \<or> status error = Some 500 \<or>
      (case message error of Some m \<Rightarrow> includesStr m (utf16 ''503'') | None \<Rightarrow> False))"

fun callWithRetry ::
  "service \<Rightarrow> request \<Rightarrow> nat \<Rightarrow> request list \<Rightarrow> (JsError + Reply) \<times> request list" where
  "callWithRetry svc req 0 log =
     (case svc (length log) of
        Inr r \<Rightarrow> (Inr r, log @ [req])
      | Inl error \<Rightarrow> (Inl error, log @ [req]))"
| "callWithRetry svc req (Suc retries) log =
     (case svc (length log) of
        Inr r \<Rightarrow> (Inr r, log @ [req])
      | Inl error \<Rightarrow>
          if isTransient error then callWithRetry svc req retries (log @ [req])
          else (Inl error, log @ [req]))"

definition truthyString :: "ustring option \<Rightarrow> ustring option" where
  \<comment> \<open>a value that may be \<open>null\<close>, \<open>undefined\<close> or a string, as a condition sees it:
      \<open>None\<close> when it is falsy\<close>
  "truthyString v = (case v of Some s \<Rightarrow> if s = [] then None else Some s | None \<Rightarrow> None)"

definition cleanBase64 :: "ustring \<Rightarrow> ustring" where
  \<comment> \<open>\<open>/^data:image\/(png|jpeg|jpg);base64,/\<close> replaced by the empty string\<close>
  "cleanBase64 dataUrl =
     (if startsWith (utf16 ''data:image/png;base64,'') dataUrl then drop 22 dataUrl
      else if startsWith (utf16 ''data:image/jpeg;base64,'') dataUrl then drop 23 dataUrl
      else if startsWith (utf16 ''data:image/jpg;base64,'') dataUrl then drop 22 dataUrl
      else dataUrl)"

definition dataUrlPrefix :: ustring where
  "dataUrlPrefix = utf16 ''data:image/png;base64,''"

definition generate ::
  "service \<Rightarrow> prompt \<Rightarrow> ustring option \<Rightarrow> request list \<Rightarrow> (JsError + ustring) \<times> request list" where
  \<comment> \<open>the local function \<open>generate\<close> of \<open>generateSceneImage\<close>\<close>
  "generate svc p refImage log =
     (case callWithRetry svc
             (Request MODEL_IMAGE p (map_option cleanBase64 (truthyString refImage))) 2 log of
        (Inl error, log') \<Rightarrow> (Inl error, log')
      | (Inr response, log') \<Rightarrow>
          (case truthyString (replyImage response) of
             None \<Rightarrow> (Inl (errorWith (utf16 ''No image data'')), log')
           | Some base64 \<Rightarrow> (Inr (dataUrlPrefix @ base64), log')))"

fun stringsOf :: "json list \<Rightarrow> ustring list option" where
  \<comment> \<open>the elements when each is a string\<close>
  "stringsOf [] = Some []"
| "stringsOf (x # xs) =
     (case x of
        JString s \<Rightarrow> map_option ((#) s) (stringsOf xs)
      | _ \<Rightarrow> None)"

definition generateSceneImage ::
  "service \<Rightarrow> json \<Rightarrow> ustring \<Rightarrow> json \<Rightarrow> ustring option \<Rightarrow> request list
     \<Rightarrow> (JsError + ustring) \<times> request list" where
  \<comment> \<open>\<open>keyElements\<close> is never \<open>undefined\<close> where the function is called. Before the
      \<open>try\<close> block, \<open>keyElements.map\<close> with \<open>el.replace\<close> throws unless \<open>keyElements\<close> is
      an array of strings, and \<open>visualPrompt.replace\<close> throws unless \<open>visualPrompt\<close> is a
      string; the block itself throws nothing\<close>
  "generateSceneImage svc vPrompt style elements referenceImageBase64 log =
     (case elements of
        JArray xs \<Rightarrow>
          (case stringsOf xs of
             None \<Rightarrow> (Inl typeError, log)
           | Some els \<Rightarrow>
               (case vPrompt of
                  JString vp \<Rightarrow>
                    (case generate svc (FullPrompt style vp els) referenceImageBase64 log of
                       (Inr url, log1) \<Rightarrow> (Inr url, log1)
                     | (Inl error, log1) \<Rightarrow>
                         (case generate svc (SimplePrompt style vp) None log1 of
                            (Inr url, log2) \<Rightarrow> (Inr url, log2)
                          | (Inl err2, log2) \<Rightarrow> (Inr [], log2)))
                | _ \<Rightarrow> (Inl typeError, log)))
      | _ \<Rightarrow> (Inl typeError, log))"

definition replyJson :: "Reply \<Rightarrow> json option" where
  \<comment> \<open>\<open>tryParseJSON(cleanJsonOutput(response.text || "{}"))\<close> as the test \<open>if (parsed)\<close>
      sees it: \<open>None\<close> when the result is \<open>null\<close> or another falsy value\<close>
  "replyJson response =
     (case tryParseJSON
             (cleanJsonOutput
                (case truthyString (replyText response) of
                   Some t \<Rightarrow> t
                 | None \<Rightarrow> [0x7B, 0x7D])) of
        None \<Rightarrow> None
      | Some parsed \<Rightarrow> if truthy parsed then Some parsed else None)"

definition initialFallback :: "GameSettings \<Rightarrow> GameResponse" where
  "initialFallback settings =
     \<lparr>GameResponse.narrative =
        JString (utf16 ''El sistema se ha reiniciado tras una inestabilidad cu'' @ [0xE1] @
                 utf16 ''ntica. Est'' @ [0xE1] @ utf16 ''s en el punto de inicio.''),
      GameResponse.location = JString (startLocation settings),
      GameResponse.visualPrompt =
        JString (utf16 ''A pixel art scene of '' @ startLocation settings @ utf16 '' in '' @
                 artStyle settings @ utf16 '' style.''),
      GameResponse.inventory = JArray [],
      GameResponse.keyElements = JArray [],
      GameResponse.availableExits = JArray [],
      GameResponse.visualChanged = True\<rparr>"

definition generateWithModel ::
  "service \<Rightarrow> GameSettings \<Rightarrow> ustring \<Rightarrow> request list \<Rightarrow> (JsError + Reply) \<times> request list" where
  "generateWithModel svc settings m log = callWithRetry svc (Request m (InitPrompt settings) None) 3 log"

definition generateInitialGameWorld ::
  "service \<Rightarrow> GameSettings \<Rightarrow> request list \<Rightarrow> GameResponse \<times> request list" where
  "generateInitialGameWorld svc settings log =
     (let (attempt1, log1) =
            (case generateWithModel svc settings MODEL_INIT log of
               (Inl error, l) \<Rightarrow> (Inl error, l)
             | (Inr response, l) \<Rightarrow>
                 (case replyJson response of
                    Some parsed \<Rightarrow> (Inr (mapParsedResponse parsed settings), l)
                  | None \<Rightarrow> (Inl (errorWith (utf16 ''Gemini 3 Pro returned invalid JSON'')), l)))
      in case attempt1 of
           Inr r \<Rightarrow> (r, log1)
         | Inl error \<Rightarrow>
             (case generateWithModel svc settings MODEL_LOOP log1 of
                (Inl flashError, log2) \<Rightarrow> (initialFallback settings, log2)
              | (Inr response, log2) \<Rightarrow>
                  (case replyJson response of
                     Some parsed \<Rightarrow> (mapParsedResponse parsed settings, log2)
                   | None \<Rightarrow> (initialFallback settings, log2))))"

section \<open>The game state and its transitions (types, App.tsx)\<close>

datatype role = RoleUser | RoleModel

text \<open>
  \<open>knownLocations\<close> is an object used as a dictionary: an association list in the order of
  insertion, read with \<open>map_of\<close> and written with \<open>AList.update\<close>, which keeps the place of
  a key that is already there, as the spread followed by a computed key does. The location of
  a state is a string, since a location is committed only after \<open>normalizeLocKey\<close> has been
  applied to it; the narrative, the exits and the visual description are whatever the reply
  holds, and the inventory is a list of sanitized items. What the components do with a state
  when they render it is not modelled.
\<close>

record GameState =
  settings :: GameSettings
  location :: ustring
  narrative :: json
  inventory :: "json list"
  availableExits :: json
  visualDescription :: json
  imageUrl :: "ustring option"
  loadingStatus :: "ustring option"
  history :: "(role \<times> json) list"
  knownLocations :: "(ustring \<times> VisitedLocation) list"

definition glitchNarrative :: ustring where
  "glitchNarrative =
     utf16 ''La realidad parpadea. Intenta esa acci'' @ [0xF3] @ utf16 ''n de nuevo.''"

definition softError :: "GameState \<Rightarrow> GameResponse" where
  \<comment> \<open>the reply that \<open>generateGameResponse\<close> makes up when the text cannot be decoded\<close>
  "softError currentState =
     \<lparr>GameResponse.narrative = JString glitchNarrative,
      GameResponse.location = JString (GameState.location currentState),
      GameResponse.visualPrompt = visualDescription currentState,
      GameResponse.inventory = JArray (GameState.inventory currentState),
      GameResponse.keyElements = JArray [],
      GameResponse.availableExits = GameState.availableExits currentState,
      GameResponse.visualChanged = False\<rparr>"

definition generateGameResponse ::
  "service \<Rightarrow> ustring \<Rightarrow> GameState \<Rightarrow> ustring option \<Rightarrow> request list
     \<Rightarrow> (JsError + GameResponse) \<times> request list" where
  "generateGameResponse svc userAction currentState currentImageBase64 log =
     (case callWithRetry svc
             (Request MODEL_LOOP (ActionPrompt userAction)
                (map_option cleanBase64 (truthyString currentImageBase64))) 3 log of
        (Inl error, log') \<Rightarrow> (Inl error, log')
      | (Inr response, log') \<Rightarrow>
          (case replyJson response of
             Some parsed \<Rightarrow> (Inr (mapParsedResponse parsed (settings currentState)), log')
           | None \<Rightarrow> (Inr (softError currentState), log')))"

definition replyLocation :: "json \<Rightarrow> JsError + ustring option" where
  \<comment> \<open>the location of a reply as \<open>||\<close> followed by \<open>normalizeLocKey\<close> reads it: \<open>None\<close>
      when it is falsy, so that the default is taken; the string when it is one; and the
      \<open>TypeError\<close> of \<open>location.trim\<close> otherwise\<close>
  "replyLocation v =
     (if \<not> truthy v then Inr None
      else (case v of JString l \<Rightarrow> Inr (Some l) | _ \<Rightarrow> Inl typeError))"

definition locationOr :: "ustring option \<Rightarrow> ustring \<Rightarrow> ustring" where
  "locationOr loc d = (case loc of Some l \<Rightarrow> l | None \<Rightarrow> d)"

definition handleStartGame ::
  "service \<Rightarrow> GameSettings \<Rightarrow> request list \<Rightarrow> GameState option \<times> request list" where
  \<comment> \<open>\<open>input\<close> holds the five fields of the menu form. \<open>None\<close> is a call that sets no
      state: the return at the guard, and the \<open>catch\<close> block, which is reached when
      \<open>generateSceneImage\<close> throws or when, in the object given to \<open>setGameState\<close>,
      \<open>sanitizeInventory\<close> or \<open>normalizeLocKey\<close> throws\<close>
  "handleStartGame svc input log =
     (if startLocation input = [] \<or> artStyle input = [] then (None, log)
      else
        (let newSettings = input;
             (initialWorld, log1) = generateInitialGameWorld svc newSettings log
         in case generateSceneImage svc (GameResponse.visualPrompt initialWorld)
                   (artStyle newSettings) (keyElements initialWorld) None log1 of
              (Inl error, log2) \<Rightarrow> (None, log2)
            | (Inr imageBase64, log2) \<Rightarrow>
                (case sanitizeInventory
                        (orElseJ (Some (GameResponse.inventory initialWorld)) (JArray [])) of
                   Inl error \<Rightarrow> (None, log2)
                 | Inr items \<Rightarrow>
                     (case replyLocation (GameResponse.location initialWorld) of
                        Inl error \<Rightarrow> (None, log2)
                      | Inr loc \<Rightarrow>
                          (Some
                             \<lparr>settings = newSettings,
                              location = locationOr loc (utf16 ''Desconocido''),
                              narrative =
                                orElseJ (Some (GameResponse.narrative initialWorld)) (JString []),
                              inventory = items,
                              availableExits =
                                orElseJ (Some (GameResponse.availableExits initialWorld)) (JArray []),
                              visualDescription = GameResponse.visualPrompt initialWorld,
                              imageUrl = Some imageBase64,
                              loadingStatus = None,
                              history = [(RoleModel, GameResponse.narrative initialWorld)],
                              knownLocations =
                                [(normalizeLocKey (locationOr loc (utf16 ''start'')),
                                  \<lparr>VisitedLocation.imageUrl = imageBase64,
                                   VisitedLocation.visualPrompt =
                                     GameResponse.visualPrompt initialWorld\<rparr>)]\<rparr>,
                           log2)))))"

definition inheritedKeys :: "ustring list" where
  \<comment> \<open>the properties that an object literal inherits and whose name is a normalized key\<close>
  "inheritedKeys = [utf16 ''constructor'', utf16 ''__proto__'']"

definition isKnown :: "(ustring \<times> VisitedLocation) list \<Rightarrow> ustring \<Rightarrow> bool" where
  \<comment> \<open>the test \<open>if (gameState.knownLocations[locationKey])\<close>: an entry is truthy, and so is
      an inherited property\<close>
  "isKnown known k = (map_of known k \<noteq> None \<or> k \<in> set inheritedKeys)"

definition cachedImage :: "(ustring \<times> VisitedLocation) list \<Rightarrow> ustring \<Rightarrow> ustring option" where
  \<comment> \<open>\<open>gameState.knownLocations[locationKey].imageUrl\<close>; \<open>None\<close> is \<open>undefined\<close>\<close>
  "cachedImage known k = map_option VisitedLocation.imageUrl (map_of known k)"

definition statusAnalysing :: ustring where
  "statusAnalysing = utf16 ''ANALIZANDO ACCI'' @ [0xD3] @ utf16 ''N...''"

definition statusLoading :: ustring where
  "statusLoading = utf16 ''CARGANDO UBICACI'' @ [0xD3] @ utf16 ''N...''"

definition statusGenerating :: ustring where
  "statusGenerating = utf16 ''GENERANDO ESCENA...''"

definition statusUpdating :: ustring where
  "statusUpdating = utf16 ''ACTUALIZANDO VISUALES...''"

definition optimistic :: "GameState \<Rightarrow> ustring \<Rightarrow> GameState" where
  \<comment> \<open>the first update of \<open>handleAction\<close>\<close>
  "optimistic prev action =
     prev\<lparr>loadingStatus := Some statusAnalysing,
          history := history prev @ [(RoleUser, JString action)]\<rparr>"

definition pruneHistory :: "(role \<times> json) list \<Rightarrow> (role \<times> json) list" where
  \<comment> \<open>\<open>if (newHistory.length > 20) newHistory.splice(0, 5)\<close>\<close>
  "pruneHistory newHistory = (if 20 < length newHistory then drop 5 newHistory else newHistory)"

definition committed ::
  "GameState \<Rightarrow> GameResponse \<Rightarrow> ustring option \<Rightarrow> ustring \<Rightarrow> ustring option \<Rightarrow> json list
     \<Rightarrow> GameState" where
  \<comment> \<open>the state that the last update of the \<open>try\<close> block returns: \<open>loc\<close> is the
      location of the reply as \<open>replyLocation\<close> has read it, \<open>items\<close> the sanitized
      inventory\<close>
  "committed prev response loc locationKey newImageUrl items =
     prev\<lparr>location := locationOr loc (location prev),
          narrative := GameResponse.narrative response,
          inventory := items,
          availableExits := orElseJ (Some (GameResponse.availableExits response)) (JArray []),
          visualDescription := GameResponse.visualPrompt response,
          imageUrl := newImageUrl,
          history := pruneHistory (history prev @ [(RoleModel, GameResponse.narrative response)]),
          knownLocations :=
            AList.update locationKey
              \<lparr>VisitedLocation.imageUrl =
                 (case truthyString newImageUrl of Some u \<Rightarrow> u | None \<Rightarrow> []),
               VisitedLocation.visualPrompt = GameResponse.visualPrompt response\<rparr>
              (knownLocations prev),
          loadingStatus := None\<rparr>"

definition commitTurn ::
  "GameState \<Rightarrow> GameResponse \<Rightarrow> ustring option \<Rightarrow> ustring \<Rightarrow> ustring option
     \<Rightarrow> JsError + GameState" where
  \<comment> \<open>the last update of the \<open>try\<close> block. \<open>Inl\<close> is an update that throws, which it
      does when \<open>sanitizeInventory\<close> does: the function given to \<open>setGameState\<close> runs
      while the component is rendered, outside the \<open>try\<close> block, so nothing catches the
      error, the component is unmounted and the session is lost\<close>
  "commitTurn prev response loc locationKey newImageUrl =
     (case sanitizeInventory
             (orElseJ (Some (GameResponse.inventory response)) (JArray (inventory prev))) of
        Inl error \<Rightarrow> Inl error
      | Inr items \<Rightarrow> Inr (committed prev response loc locationKey newImageUrl items))"

definition overloadNarrative :: ustring where
  "overloadNarrative =
     utf16 ''El sistema se ha sobrecargado moment'' @ [0xE1] @
     utf16 ''neamente. Intenta otra acci'' @ [0xF3] @ utf16 ''n.''"

definition caught :: "GameState \<Rightarrow> GameState" where
  \<comment> \<open>the update of the \<open>catch\<close> block\<close>
  "caught prev = prev\<lparr>loadingStatus := None, narrative := JString overloadNarrative\<rparr>"

definition busyOrBlank :: "GameState \<Rightarrow> ustring \<Rightarrow> bool" where
  \<comment> \<open>the condition \<open>gameState.loadingStatus || !action.trim()\<close>\<close>
  "busyOrBlank gameState action =
     (truthyString (loadingStatus gameState) \<noteq> None \<or> trim action = [])"

definition chooseImage ::
  "service \<Rightarrow> GameState \<Rightarrow> GameState \<Rightarrow> GameResponse \<Rightarrow> ustring \<Rightarrow> request list
     \<Rightarrow> (JsError + GameState \<times> ustring option) \<times> request list" where
  \<comment> \<open>the part of the \<open>try\<close> block of \<open>handleAction\<close> that decides on the image:
      \<open>gameState\<close> is the state the callback closed over, \<open>prev\<close> the state the updates are
      applied to. The result is the state with the status that has been set and
      \<open>newImageUrl\<close>, or what \<open>generateSceneImage\<close> throws for a new location; what it
      throws for a visual change is caught on the spot and the image is kept\<close>
  "chooseImage svc gameState prev response locationKey log1 =
     (let hasChangedLocation = (GameResponse.location response \<noteq> JString (location gameState));
          hasVisualChange = visualChanged response
      in if hasChangedLocation then
           (if isKnown (knownLocations gameState) locationKey then
              (Inr (prev\<lparr>loadingStatus := Some statusLoading\<rparr>,
                    cachedImage (knownLocations gameState) locationKey),
               log1)
            else
              (case generateSceneImage svc (GameResponse.visualPrompt response)
                      (artStyle (settings gameState)) (keyElements response) None log1 of
                 (Inl error, log2) \<Rightarrow> (Inl error, log2)
               | (Inr url, log2) \<Rightarrow>
                   (Inr (prev\<lparr>loadingStatus := Some statusGenerating\<rparr>, Some url), log2)))
         else if hasVisualChange then
           (case generateSceneImage svc (GameResponse.visualPrompt response)
                   (artStyle (settings gameState)) (keyElements response)
                   (truthyString (imageUrl gameState)) log1 of
              (Inl e, log2) \<Rightarrow>
                (Inr (prev\<lparr>loadingStatus := Some statusUpdating\<rparr>, imageUrl gameState), log2)
            | (Inr url, log2) \<Rightarrow>
                (Inr (prev\<lparr>loadingStatus := Some statusUpdating\<rparr>, Some url), log2))
         else (Inr (prev, imageUrl gameState), log1))"

definition handleAction ::
  "service \<Rightarrow> GameState \<Rightarrow> ustring \<Rightarrow> request list \<Rightarrow> (JsError + GameState) \<times> request list" where
  \<comment> \<open>the state after the last update of the call, and the log; \<open>Inl\<close> when that update
      throws. An error thrown inside the \<open>try\<close> block leads to the update of the \<open>catch\<close>
      block, which overwrites the status\<close>
  "handleAction svc gameState action log =
     (if busyOrBlank gameState action then (Inr gameState, log)
      else
        (let prev = optimistic gameState action
         in case generateGameResponse svc action gameState (imageUrl gameState) log of
              (Inl error, log1) \<Rightarrow> (Inr (caught prev), log1)
            | (Inr response, log1) \<Rightarrow>
                (case replyLocation (GameResponse.location response) of
                   Inl error \<Rightarrow> (Inr (caught prev), log1)
                 | Inr loc \<Rightarrow>
                     (let locationKey = normalizeLocKey (locationOr loc (utf16 ''unknown''))
                      in case chooseImage svc gameState prev response locationKey log1 of
                           (Inl error, log2) \<Rightarrow> (Inr (caught prev), log2)
                         | (Inr (prev', newImageUrl), log2) \<Rightarrow>
                             (commitTurn prev' response loc locationKey newImageUrl, log2)))))"

fun runActions ::
  "service \<Rightarrow> GameState \<Rightarrow> ustring list \<Rightarrow> request list
     \<Rightarrow> (JsError + GameState) \<times> request list" where
  \<comment> \<open>a sequence of turns, each submitted after the one before has returned; it ends when
      the component is unmounted\<close>
  "runActions svc s [] log = (Inr s, log)"
| "runActions svc s (a # as) log =
     (case handleAction svc s a log of
        (Inr s', log') \<Rightarrow> runActions svc s' as log'
      | (Inl error, log') \<Rightarrow> (Inl error, log'))"

inductive reachable :: "GameState \<Rightarrow> bool" where
  started: "handleStartGame svc input log = (Some s, log') \<Longrightarrow> reachable s"
| turn: "reachable s \<Longrightarrow> handleAction svc s action log = (Inr s', log') \<Longrightarrow> reachable s'"

inductive shown :: "GameState \<Rightarrow> bool" where
  \<comment> \<open>the states that the component holds in the course of a session: those between two
      calls, and those set while a call of \<open>handleAction\<close> that has passed the gate is
      waiting, which have the history with the action added and one of the four statuses\<close>
  idle: "reachable s \<Longrightarrow> shown s"
| waiting:
    "reachable s \<Longrightarrow> \<not> busyOrBlank s action \<Longrightarrow>
     l \<in> set [statusAnalysing, statusLoading, statusGenerating, statusUpdating] \<Longrightarrow>
     shown ((optimistic s action)\<lparr>loadingStatus := Some l\<rparr>)"

section \<open>Notions used to state the properties\<close>

fun containsMatch :: "matcher \<Rightarrow> int option \<Rightarrow> ustring \<Rightarrow> bool" where
  \<comment> \<open>the pattern matches somewhere in the text\<close>
  "containsMatch m prev [] = False"
| "containsMatch m prev (c # cs) = (m prev (c # cs) \<noteq> None \<or> containsMatch m (Some c) cs)"

fun isImageRequest :: "request \<Rightarrow> bool" where
  "isImageRequest (Request m p i) = (m = MODEL_IMAGE)"

definition imageCalls :: "request list \<Rightarrow> request list" where
  "imageCalls log = filter isImageRequest log"

definition tierResult ::
  "service \<Rightarrow> GameSettings \<Rightarrow> ustring \<Rightarrow> request list \<Rightarrow> json option \<times> request list" where
  \<comment> \<open>what one model tier of the initialization yields: a document, or \<open>None\<close> when the call
      throws or the reply cannot be decoded\<close>
  "tierResult svc s m log =
     (case generateWithModel svc s m log of
        (Inl error, l) \<Rightarrow> (None, l)
      | (Inr response, l) \<Rightarrow> (replyJson response, l))"

definition stateAfter :: "(JsError + GameState) \<times> request list \<Rightarrow> GameState option" where
  \<comment> \<open>the state that a call leaves, if the component is still mounted\<close>
  "stateAfter result = (case fst result of Inr s \<Rightarrow> Some s | Inl error \<Rightarrow> None)"

definition isString :: "json \<Rightarrow> bool" where
  "isString v = (case v of JString s \<Rightarrow> True | _ \<Rightarrow> False)"

definition isStrings :: "json \<Rightarrow> bool" where
  "isStrings v = (case v of JArray xs \<Rightarrow> list_all isString xs | _ \<Rightarrow> False)"

definition isItem :: "json \<Rightarrow> bool" where
  "isItem v =
     (case v of
        JObject ms \<Rightarrow> (case map_of ms (utf16 ''name'') of Some n \<Rightarrow> isString n | None \<Rightarrow> False)
      | _ \<Rightarrow> False)"

definition isItems :: "json \<Rightarrow> bool" where
  "isItems v = (case v of JArray xs \<Rightarrow> list_all isItem xs | _ \<Rightarrow> False)"

definition wellFormed :: "GameResponse \<Rightarrow> bool" where
  \<comment> \<open>the fields have the types that \<open>gameSchema\<close> and the interface \<open>GameResponse\<close>
      declare: the narrative, the location and the visual prompt are strings, the key elements
      and the exits are arrays of strings, and every item of the inventory is an object with
      a name that is a string\<close>
  "wellFormed r =
     (isString (GameResponse.narrative r) \<and> isString (GameResponse.location r) \<and>
      isString (GameResponse.visualPrompt r) \<and> isStrings (keyElements r) \<and>
      isStrings (GameResponse.availableExits r) \<and> isItems (GameResponse.inventory r))"

definition stringOf :: "json \<Rightarrow> ustring" where
  \<comment> \<open>the string that a value is, when it is one\<close>
  "stringOf v = (case v of JString s \<Rightarrow> s | _ \<Rightarrow> [])"

definition locationKeyOf :: "GameResponse \<Rightarrow> ustring" where
  \<comment> \<open>the key under which \<open>handleAction\<close> looks up and stores the location of a reply
      whose location is a string\<close>
  "locationKeyOf r =
     normalizeLocKey (orElse (stringOf (GameResponse.location r)) (utf16 ''unknown''))"

definition hasEntry :: "GameState \<Rightarrow> bool" where
  \<comment> \<open>the cache has an entry under the key of the current location\<close>
  "hasEntry s = (map_of (knownLocations s) (normalizeLocKey (location s)) \<noteq> None)"

subsection \<open>Sessions used as examples\<close>

definition scripted :: "(JsError + Reply) list \<Rightarrow> service" where
  \<comment> \<open>a service that gives the listed outcomes and is unreachable afterwards\<close>
  "scripted outcomes n =
     (if n < length outcomes then outcomes ! n else Inl (errorWith (utf16 ''Failed to fetch'')))"

definition textReply :: "string \<Rightarrow> JsError + Reply" where
  "textReply t = Inr \<lparr>replyText = Some (utf16 t), replyImage = None\<rparr>"

definition imageReply :: "string \<Rightarrow> JsError + Reply" where
  "imageReply b = Inr \<lparr>replyText = None, replyImage = Some (utf16 b)\<rparr>"

definition exRefusal :: JsError where
  "exRefusal = \<lparr>status = Some 400, code = None, message = Some (utf16 ''Bad Request'')\<rparr>"

definition refused :: "JsError + Reply" where
  "refused = Inl exRefusal"

definition exItem :: "string \<Rightarrow> string \<Rightarrow> json" where
  "exItem n d =
     JObject [(utf16 ''name'', JString (utf16 n)), (utf16 ''description'', JString (utf16 d))]"

definition exSettings :: GameSettings where
  "exSettings =
     \<lparr>world = utf16 ''Bilbao'', startLocation = utf16 ''Bar'', artStyle = utf16 ''Pixel Art'',
      objective = utf16 ''Find the recipe'', tone = utf16 ''Absurd''\<rparr>"

definition exOpeningService :: service where
  \<open>exOpeningService =
     scripted
       [textReply
          ''{"narrative":"You wake up in the bar.","location":"Bar","visualPrompt":"A crowded bar","inventory":[{"name":"cafev2babe","description":"A badge."}]}'',
        imageReply ''BAR'']\<close>

definition exOpened :: GameState where
  \<comment> \<open>the state with which the session of \<open>exOpeningService\<close> starts\<close>
  "exOpened =
     \<lparr>settings = exSettings,
      location = utf16 ''Bar'',
      narrative = JString (utf16 ''You wake up in the bar.''),
      inventory = [exItem ''Cafebabe'' ''A badge.''],
      availableExits = JArray [],
      visualDescription = JString (utf16 ''A crowded bar''),
      imageUrl = Some (utf16 ''data:image/png;base64,BAR''),
      loadingStatus = None,
      history = [(RoleModel, JString (utf16 ''You wake up in the bar.''))],
      knownLocations =
        [(utf16 ''bar'', \<lparr>VisitedLocation.imageUrl = utf16 ''data:image/png;base64,BAR'',
                          VisitedLocation.visualPrompt = JString (utf16 ''A crowded bar'')\<rparr>)]\<rparr>"

definition exOutsideService :: service where
  \<open>exOutsideService =
     scripted
       [textReply
          ''{"narrative":"You are in the street.","location":"Street","visualPrompt":"A narrow street","inventory":[{"name":"cafev2babe","description":"A badge."}],"availableExits":["Bar"]}'',
        imageReply ''STREET'']\<close>

definition exState :: GameState where
  \<comment> \<open>the state of that session after the turn that leads from the bar to the street\<close>
  "exState =
     \<lparr>settings = exSettings,
      location = utf16 ''Street'',
      narrative = JString (utf16 ''You are in the street.''),
      inventory = [exItem ''Cafebabe'' ''A badge.''],
      availableExits = JArray [JString (utf16 ''Bar'')],
      visualDescription = JString (utf16 ''A narrow street''),
      imageUrl = Some (utf16 ''data:image/png;base64,STREET''),
      loadingStatus = None,
      history =
        [(RoleModel, JString (utf16 ''You wake up in the bar.'')),
         (RoleUser, JString (utf16 ''go outside'')),
         (RoleModel, JString (utf16 ''You are in the street.''))],
      knownLocations =
        [(utf16 ''bar'', \<lparr>VisitedLocation.imageUrl = utf16 ''data:image/png;base64,BAR'',
                          VisitedLocation.visualPrompt = JString (utf16 ''A crowded bar'')\<rparr>),
         (utf16 ''street'', \<lparr>VisitedLocation.imageUrl = utf16 ''data:image/png;base64,STREET'',
                             VisitedLocation.visualPrompt = JString (utf16 ''A narrow street'')\<rparr>)]\<rparr>"

definition exLookService :: service where
  \<open>exLookService =
     scripted [textReply ''{"narrative":"Nothing new.","location":"Street"}'', imageReply ''NEW'']\<close>

definition exDownService :: service where
  "exDownService = scripted [refused]"

definition exGarbageReply :: Reply where
  "exGarbageReply =
     \<lparr>replyText = Some (utf16 ''<html>502 Bad Gateway</html>''), replyImage = None\<rparr>"

definition exGarbageService :: service where
  "exGarbageService = scripted [Inr exGarbageReply]"

definition exInitFailService :: service where
  \<comment> \<open>the first tier is refused, the second answers with text that is no document, and
      the image request succeeds\<close>
  "exInitFailService = scripted [refused, Inr exGarbageReply, imageReply ''BAR'']"

definition exStarted :: GameState where
  \<comment> \<open>the state with which a session starts when both tiers of the initialization fail\<close>
  "exStarted =
     \<lparr>settings = exSettings,
      location = utf16 ''Bar'',
      narrative = GameResponse.narrative (initialFallback exSettings),
      inventory = [],
      availableExits = JArray [],
      visualDescription = JString (utf16 ''A pixel art scene of Bar in Pixel Art style.''),
      imageUrl = Some (utf16 ''data:image/png;base64,BAR''),
      loadingStatus = None,
      history = [(RoleModel, GameResponse.narrative (initialFallback exSettings))],
      knownLocations =
        [(utf16 ''bar'',
          \<lparr>VisitedLocation.imageUrl = utf16 ''data:image/png;base64,BAR'',
           VisitedLocation.visualPrompt =
             JString (utf16 ''A pixel art scene of Bar in Pixel Art style.'')\<rparr>)]\<rparr>"

definition exOutageService :: service where
  \<comment> \<open>a service that answers every call with the same short document, except for the calls
      36 to 39, which it refuses\<close>
  \<open>exOutageService n = (if 36 \<le> n \<and> n < 40 then refused else textReply ''{"narrative":"ok"}'')\<close>

definition exPlazaService :: service where
  \<open>exPlazaService =
     scripted
       [textReply ''{"narrative":"You reach the plaza.","location":"Plaza","visualPrompt":"A sunny plaza"}'',
        imageReply ''PLAZA'']\<close>

definition exBusy :: GameState where
  \<comment> \<open>the state shown while the scene of a new location is generated for the action \<open>go\<close>\<close>
  "exBusy = (optimistic exState (utf16 ''go''))\<lparr>loadingStatus := Some statusGenerating\<rparr>"

definition exBlank :: ustring where
  \<comment> \<open>a space, a no-break space, an ideographic space and a line feed\<close>
  "exBlank = [0x20, 0xA0, 0x3000, 0x0A]"

definition exPlaza :: GameState where
  \<comment> \<open>the state after the first turn of the session of \<open>exStarted\<close>, which leads to the
      plaza\<close>
  "exPlaza =
     \<lparr>settings = exSettings,
      location = utf16 ''Plaza'',
      narrative = JString (utf16 ''You reach the plaza.''),
      inventory = [],
      availableExits = JArray [],
      visualDescription = JString (utf16 ''A sunny plaza''),
      imageUrl = Some (utf16 ''data:image/png;base64,PLAZA''),
      loadingStatus = None,
      history =
        [(RoleModel, GameResponse.narrative (initialFallback exSettings)),
         (RoleUser, JString (utf16 ''go'')),
         (RoleModel, JString (utf16 ''You reach the plaza.''))],
      knownLocations =
        [(utf16 ''bar'',
          \<lparr>VisitedLocation.imageUrl = utf16 ''data:image/png;base64,BAR'',
           VisitedLocation.visualPrompt =
             JString (utf16 ''A pixel art scene of Bar in Pixel Art style.'')\<rparr>),
         (utf16 ''plaza'',
          \<lparr>VisitedLocation.imageUrl = utf16 ''data:image/png;base64,PLAZA'',
           VisitedLocation.visualPrompt = JString (utf16 ''A sunny plaza'')\<rparr>)]\<rparr>"

definition exBarService :: service where
  \<open>exBarService =
     scripted
       [textReply ''{"narrative":"You enter.","location":" BAR ","visualPrompt":"An empty bar"}'']\<close>

definition exBarReply :: GameResponse where
  "exBarReply =
     \<lparr>GameResponse.narrative = JString (utf16 ''You enter.''),
      GameResponse.location = JString (utf16 '' BAR ''),
      GameResponse.visualPrompt = JString (utf16 ''An empty bar''),
      GameResponse.inventory = JArray [],
      GameResponse.keyElements = JArray [],
      GameResponse.availableExits = JArray [],
      GameResponse.visualChanged = True\<rparr>"

definition exPlazaReply :: GameResponse where
  "exPlazaReply =
     \<lparr>GameResponse.narrative = JString (utf16 ''You reach the plaza.''),
      GameResponse.location = JString (utf16 ''Plaza''),
      GameResponse.visualPrompt = JString (utf16 ''A sunny plaza''),
      GameResponse.inventory = JArray [],
      GameResponse.keyElements = JArray [],
      GameResponse.availableExits = JArray [],
      GameResponse.visualChanged = True\<rparr>"

definition exNoLocation :: GameSettings where
  \<comment> \<open>the menu form with the start location cleared\<close>
  "exNoLocation = exSettings\<lparr>startLocation := []\<rparr>"

definition exHiDocument :: json where
  "exHiDocument = JObject [(utf16 ''narrative'', JString (utf16 ''Hi''))]"

definition exFirstTierService :: service where
  \<open>exFirstTierService = scripted [textReply ''{"narrative":"Hi"}'', imageReply ''BAR'']\<close>

definition exSecondTierService :: service where
  \<open>exSecondTierService = scripted [refused, textReply ''{"narrative":"Hi"}'', imageReply ''BAR'']\<close>

definition exNamelessService :: service where
  \<comment> \<open>the first item of the inventory has no name\<close>
  \<open>exNamelessService =
     scripted
       [textReply ''{"narrative":"Hi","location":"Bar","inventory":[{"description":"A thing."}]}'',
        imageReply ''BAR'']\<close>

definition exImagesRefusedService :: service where
  \<comment> \<open>the reply leads to the plaza, and both image requests are refused\<close>
  \<open>exImagesRefusedService =
     scripted
       [textReply ''{"narrative":"You reach the plaza.","location":"Plaza","visualPrompt":"A sunny plaza"}'',
        refused, refused]\<close>


definition exNoSignal :: GameState where
  \<comment> \<open>the state after the turn from the street into the plaza for which no image could be
      generated\<close>
  "exNoSignal =
     exState\<lparr>location := utf16 ''Plaza'',
             narrative := JString (utf16 ''You reach the plaza.''),
             inventory := [],
             availableExits := JArray [],
             visualDescription := JString (utf16 ''A sunny plaza''),
             imageUrl := Some [],
             history :=
               history exState @
               [(RoleUser, JString (utf16 ''go'')), (RoleModel, JString (utf16 ''You reach the plaza.''))],
             knownLocations :=
               knownLocations exState @
               [(utf16 ''plaza'',
                 \<lparr>VisitedLocation.imageUrl = [],
                  VisitedLocation.visualPrompt = JString (utf16 ''A sunny plaza'')\<rparr>)]\<rparr>"

definition exStayService :: service where
  \<comment> \<open>the reply stays in the plaza and says that the scene has changed\<close>
  \<open>exStayService =
     scripted
       [textReply
          ''{"narrative":"The sun sets.","location":"Plaza","visualPrompt":"A sunny plaza","visualChanged":true}'',
        imageReply ''PLAZA'']\<close>

definition exStreetService :: service where
  \<open>exStreetService =
     scripted
       [textReply ''{"narrative":"Back in the street.","location":"Street","visualPrompt":"A narrow street"}'']\<close>

definition exAway :: GameState where
  \<comment> \<open>the state after going from the plaza back to the street\<close>
  "exAway =
     exNoSignal\<lparr>location := utf16 ''Street'',
                narrative := JString (utf16 ''Back in the street.''),
                visualDescription := JString (utf16 ''A narrow street''),
                imageUrl := Some (utf16 ''data:image/png;base64,STREET''),
                history :=
                  history exNoSignal @
                  [(RoleUser, JString (utf16 ''go'')), (RoleModel, JString (utf16 ''Back in the street.''))]\<rparr>"

definition exReturnService :: service where
  \<open>exReturnService =
     scripted
       [textReply ''{"narrative":"The plaza again.","location":"PLAZA ","visualPrompt":"A sunny plaza"}'']\<close>

definition exReturnReply :: GameResponse where
  "exReturnReply =
     \<lparr>GameResponse.narrative = JString (utf16 ''The plaza again.''),
      GameResponse.location = JString (utf16 ''PLAZA ''),
      GameResponse.visualPrompt = JString (utf16 ''A sunny plaza''),
      GameResponse.inventory = JArray [],
      GameResponse.keyElements = JArray [],
      GameResponse.availableExits = JArray [],
      GameResponse.visualChanged = True\<rparr>"

section \<open>Properties of strings and keys\<close>

lemma utf16_Nil: "utf16 [] = []"
  by (simp add: utf16_def)

lemma trim_empty_iff: "trim a = [] \<longleftrightarrow> (\<forall>c \<in> set a. isSpace c)"
proof
  assume "trim a = []"
  then have e: "\<forall>x \<in> set (dropWhile isSpace a). isSpace x"
    by (simp add: trim_def dropWhile_eq_Nil_conv)
  have "dropWhile isSpace a = []"
  proof (rule ccontr)
    assume ne: "dropWhile isSpace a \<noteq> []"
    then have "\<not> isSpace (hd (dropWhile isSpace a))" by (rule hd_dropWhile)
    moreover from ne have "hd (dropWhile isSpace a) \<in> set (dropWhile isSpace a)" by simp
    ultimately show False using e by blast
  qed
  then show "\<forall>c \<in> set a. isSpace c" by (simp add: dropWhile_eq_Nil_conv)
next
  assume "\<forall>c \<in> set a. isSpace c"
  then show "trim a = []"
    by (auto simp: trim_def dropWhile_eq_Nil_conv dest: set_dropWhileD)
qed

lemma trim_padded:
  assumes "\<forall>c \<in> set pre. isSpace c" and "\<forall>c \<in> set post. isSpace c"
  shows "trim (pre @ l @ post) = trim l"
proof -
  have a: "dropWhile isSpace (pre @ l @ post) = dropWhile isSpace (l @ post)"
    using assms(1) by (simp add: dropWhile_append2)
  show ?thesis
  proof (cases "\<forall>c \<in> set l. isSpace c")
    case True
    with assms(2) have "\<forall>c \<in> set (l @ post). isSpace c" by auto
    then have "dropWhile isSpace (l @ post) = []" by (simp add: dropWhile_eq_Nil_conv)
    with a have e: "dropWhile isSpace (pre @ l @ post) = []" by simp
    have "trim (pre @ l @ post) = []"
      by (simp only: trim_def e rev.simps dropWhile.simps)
    moreover from True have "trim l = []" by (simp add: trim_empty_iff)
    ultimately show ?thesis by simp
  next
    case False
    then obtain x where "x \<in> set l" and "\<not> isSpace x" by blast
    then have "dropWhile isSpace (l @ post) = dropWhile isSpace l @ post"
      by (rule dropWhile_append1)
    with a have "rev (dropWhile isSpace (pre @ l @ post)) = rev post @ rev (dropWhile isSpace l)"
      by simp
    moreover have "dropWhile isSpace (rev post @ rev (dropWhile isSpace l)) =
        dropWhile isSpace (rev (dropWhile isSpace l))"
    proof (rule dropWhile_append2)
      fix x
      assume "x \<in> set (rev post)"
      with assms(2) show "isSpace x" by simp
    qed
    ultimately show ?thesis unfolding trim_def by simp
  qed
qed

lemma isSpace_toLowerAscii: "isSpace (toLowerAscii c) = isSpace c"
  by (auto simp: isSpace_def toLowerAscii_def isUpper_def)

lemma trim_toLowerAscii: "trim (map toLowerAscii s) = map toLowerAscii (trim s)"
proof -
  have c: "isSpace \<circ> toLowerAscii = isSpace"
    by (rule ext) (simp add: isSpace_toLowerAscii)
  show ?thesis
    by (simp add: trim_def dropWhile_map rev_map c)
qed

lemma toLowerAscii_idem: "toLowerAscii (toLowerAscii c) = toLowerAscii c"
  by (auto simp: toLowerAscii_def isUpper_def)

lemma toLowerAscii_high: "0x80 \<le> c \<Longrightarrow> toLowerAscii c = c"
  by (simp add: toLowerAscii_def isUpper_def)

lemma decodeUtf16_toLowerAscii:
  "decodeUtf16 (map toLowerAscii s) = map toLowerAscii (decodeUtf16 s)"
proof (induction s rule: decodeUtf16.induct)
  case (1 h l r)
  let ?pair = "0xD800 \<le> h \<and> h \<le> 0xDBFF \<and> 0xDC00 \<le> l \<and> l \<le> 0xDFFF"
  let ?point = "0x10000 + (h - 0xD800) * 0x400 + (l - 0xDC00)"
  show ?case
  proof (cases ?pair)
    case True
    then have f: "toLowerAscii h = h" "toLowerAscii l = l" "toLowerAscii ?point = ?point"
      by (simp_all add: toLowerAscii_high)
    have "decodeUtf16 (map toLowerAscii (h # l # r)) = ?point # decodeUtf16 (map toLowerAscii r)"
      using True f(1,2) by simp
    also have "\<dots> = ?point # map toLowerAscii (decodeUtf16 r)"
      using "1.IH"(1) [OF True] by simp
    also have "\<dots> = map toLowerAscii (decodeUtf16 (h # l # r))"
      using True f(3) by simp
    finally show ?thesis .
  next
    case False
    have n: "\<not> (0xD800 \<le> toLowerAscii h \<and> toLowerAscii h \<le> 0xDBFF \<and>
        0xDC00 \<le> toLowerAscii l \<and> toLowerAscii l \<le> 0xDFFF)"
      using False by (auto simp: toLowerAscii_def isUpper_def)
    have "decodeUtf16 (map toLowerAscii (h # l # r)) =
        toLowerAscii h # decodeUtf16 (map toLowerAscii (l # r))"
      using n by simp
    also have "\<dots> = toLowerAscii h # map toLowerAscii (decodeUtf16 (l # r))"
      using "1.IH"(2) [OF False] by simp
    also have "\<dots> = map toLowerAscii (h # decodeUtf16 (l # r))"
      by simp
    also have "h # decodeUtf16 (l # r) = decodeUtf16 (h # l # r)"
      by (simp only: decodeUtf16.simps(1) False if_False)
    finally show ?thesis .
  qed
next
  case (2 h)
  then show ?case by simp
next
  case 3
  then show ?case by simp
qed

lemma lowerPoint_toLowerAscii: "lowerPoint (toLowerAscii c) = lowerPoint c"
proof (cases "c < 0x80")
  case True
  then have "toLowerAscii c < 0x80" by (auto simp: toLowerAscii_def isUpper_def)
  with True show ?thesis by (simp add: lowerPoint_def toLowerAscii_idem)
next
  case False
  then show ?thesis by (simp add: toLowerAscii_high)
qed

lemma cased_toLowerAscii: "cased (toLowerAscii c) = cased c"
proof (cases "c < 0x80")
  case True
  then show ?thesis by (auto simp: cased_def toLowerAscii_def isUpper_def isLower_def)
next
  case False
  then show ?thesis by (simp add: toLowerAscii_high)
qed

lemma caseIgnorable_toLowerAscii: "caseIgnorable (toLowerAscii c) = caseIgnorable c"
proof (cases "c < 0x80")
  case True
  then show ?thesis by (auto simp: caseIgnorable_def toLowerAscii_def isUpper_def)
next
  case False
  then show ?thesis by (simp add: toLowerAscii_high)
qed

lemma sigma_toLowerAscii: "toLowerAscii c = 0x3A3 \<longleftrightarrow> c = 0x3A3"
  by (auto simp: toLowerAscii_def isUpper_def)

lemma finalSigma_toLowerAscii:
  "finalSigma (map toLowerAscii seen) (map toLowerAscii rest) = finalSigma seen rest"
proof -
  have c: "caseIgnorable \<circ> toLowerAscii = caseIgnorable"
    by (rule ext) (simp add: caseIgnorable_toLowerAscii)
  have h1: "(case map toLowerAscii xs of [] \<Rightarrow> False | b # _ \<Rightarrow> cased b) =
      (case xs of [] \<Rightarrow> False | b # _ \<Rightarrow> cased b)" for xs
    by (cases xs) (simp_all add: cased_toLowerAscii)
  have h2: "(case map toLowerAscii xs of [] \<Rightarrow> True | a # _ \<Rightarrow> \<not> cased a) =
      (case xs of [] \<Rightarrow> True | a # _ \<Rightarrow> \<not> cased a)" for xs
    by (cases xs) (simp_all add: cased_toLowerAscii)
  show ?thesis
    by (simp add: finalSigma_def dropWhile_map c h1 h2)
qed

lemma lowerPoints_toLowerAscii:
  "lowerPoints (map toLowerAscii seen) (map toLowerAscii cs) = lowerPoints seen cs"
proof (induction cs arbitrary: seen)
  case Nil
  then show ?case by simp
next
  case (Cons c cs)
  from Cons [of "c # seen"] show ?case
    by (simp add: sigma_toLowerAscii finalSigma_toLowerAscii lowerPoint_toLowerAscii)
qed

lemma toLowerCase_toLowerAscii: "toLowerCase (map toLowerAscii s) = toLowerCase s"
  using lowerPoints_toLowerAscii [of "[]" "decodeUtf16 s"]
  by (simp add: toLowerCase_def decodeUtf16_toLowerAscii)

lemma key_of_variant:
  assumes "\<forall>c \<in> set pre. isSpace c" and "\<forall>c \<in> set post. isSpace c"
    and "map toLowerAscii l2 = map toLowerAscii l1"
  shows "normalizeLocKey (pre @ l2 @ post) = normalizeLocKey l1"
proof -
  have "normalizeLocKey (pre @ l2 @ post) = toLowerCase (trim l2)"
    using assms(1,2) by (simp add: normalizeLocKey_def trim_padded)
  also have "\<dots> = toLowerCase (map toLowerAscii (trim l2))"
    by (simp add: toLowerCase_toLowerAscii)
  also have "\<dots> = toLowerCase (map toLowerAscii (trim l1))"
    using assms(3) by (simp add: trim_toLowerAscii [symmetric])
  also have "\<dots> = normalizeLocKey l1"
    by (simp add: toLowerCase_toLowerAscii normalizeLocKey_def)
  finally show ?thesis .
qed

text \<open>
  Outside ASCII the key is the lower case of Unicode: an accented capital has the key of its
  small letter, and a capital sigma at the end of a word becomes the final sigma.
\<close>

lemma key_examples:
  "normalizeLocKey (utf16 ''CAF'' @ [0xC9]) = utf16 ''caf'' @ [0xE9]"
  "normalizeLocKey ([0xA0] @ utf16 ''Caf'' @ [0xE9] @ [0x2003]) = utf16 ''caf'' @ [0xE9]"
  "normalizeLocKey [0x39F, 0x394, 0x39F, 0x3A3] = [0x3BF, 0x3B4, 0x3BF, 0x3C2]"
  by code_simp+

section \<open>Properties of the calls\<close>

lemma callWithRetry_log:
  "\<exists>k. 1 \<le> k \<and> k \<le> Suc n \<and> snd (callWithRetry svc req n log) = log @ replicate k req"
proof (induction n arbitrary: log)
  case 0
  have "snd (callWithRetry svc req 0 log) = log @ replicate 1 req"
    by (simp split: sum.splits)
  then show ?case by (intro exI [of _ 1]) simp
next
  case (Suc n)
  from Suc [of "log @ [req]"] obtain k where
    k: "1 \<le> k" "k \<le> Suc n"
      "snd (callWithRetry svc req n (log @ [req])) = (log @ [req]) @ replicate k req"
    by blast
  show ?case
  proof (cases "svc (length log)")
    case (Inr r)
    then have "snd (callWithRetry svc req (Suc n) log) = log @ replicate 1 req" by simp
    then show ?thesis by (intro exI [of _ 1]) simp
  next
    case (Inl e)
    show ?thesis
    proof (cases "isTransient e")
      case True
      with Inl k have "snd (callWithRetry svc req (Suc n) log) = log @ replicate (Suc k) req"
        by simp
      with k show ?thesis by (intro exI [of _ "Suc k"]) simp
    next
      case False
      with Inl have "snd (callWithRetry svc req (Suc n) log) = log @ replicate 1 req" by simp
      then show ?thesis by (intro exI [of _ 1]) simp
    qed
  qed
qed

lemma imageCalls_append_text:
  "m \<noteq> MODEL_IMAGE \<Longrightarrow> imageCalls (log @ replicate k (Request m p i)) = imageCalls log"
  by (induction k) (auto simp: imageCalls_def)

lemma generateGameResponse_log:
  "\<exists>k. 1 \<le> k \<and> k \<le> 4 \<and>
     snd (generateGameResponse svc a s img log) =
       log @ replicate k (Request MODEL_LOOP (ActionPrompt a) (map_option cleanBase64 (truthyString img)))"
proof -
  let ?req = "Request MODEL_LOOP (ActionPrompt a) (map_option cleanBase64 (truthyString img))"
  obtain k where k: "1 \<le> k" "k \<le> 4" "snd (callWithRetry svc ?req 3 log) = log @ replicate k ?req"
    using callWithRetry_log [of 3 svc ?req log] by auto
  have "snd (generateGameResponse svc a s img log) = snd (callWithRetry svc ?req 3 log)"
    by (auto simp: generateGameResponse_def split: prod.splits sum.splits option.splits)
  with k show ?thesis by auto
qed

lemma models_differ: "MODEL_LOOP \<noteq> MODEL_IMAGE"
  by (simp add: MODEL_LOOP_def MODEL_IMAGE_def utf16_def)

lemma generateGameResponse_imageCalls:
  "imageCalls (snd (generateGameResponse svc a s img log)) = imageCalls log"
  using generateGameResponse_log [of svc a s img log] models_differ
  by (auto simp: imageCalls_append_text)

lemma replied_imageCalls:
  "generateGameResponse svc a s img log = (res, log1) \<Longrightarrow> imageCalls log1 = imageCalls log"
  using generateGameResponse_imageCalls [of svc a s img log] by simp



lemma stringsOf_total: "list_all isString xs \<Longrightarrow> \<exists>els. stringsOf xs = Some els"
proof (induction xs)
  case Nil
  then show ?case by simp
next
  case (Cons x xs)
  then obtain els where "stringsOf xs = Some els" by auto
  moreover from Cons.prems obtain s where "x = JString s"
    by (cases x) (simp_all add: isString_def)
  ultimately show ?case by simp
qed

lemma generateSceneImage_typed:
  assumes "stringsOf xs = Some els"
  shows "generateSceneImage svc (JString vp) style (JArray xs) ref log =
     (case generate svc (FullPrompt style vp els) ref log of
        (Inr url, log1) \<Rightarrow> (Inr url, log1)
      | (Inl error, log1) \<Rightarrow>
          (case generate svc (SimplePrompt style vp) None log1 of
             (Inr url, log2) \<Rightarrow> (Inr url, log2)
           | (Inl err2, log2) \<Rightarrow> (Inr [], log2)))"
  using assms by (simp add: generateSceneImage_def)



lemma generateSceneImage_both_fail:
  assumes "stringsOf xs = Some els"
    and "generate svc (FullPrompt style vp els) ref log = (Inl e1, l1)"
    and "generate svc (SimplePrompt style vp) None l1 = (Inl e2, l2)"
  shows "generateSceneImage svc (JString vp) style (JArray xs) ref log = (Inr [], l2)"
  using assms by (simp add: generateSceneImage_typed)

lemma generateSceneImage_returns:
  assumes "isString vp" and "isStrings els"
  shows "\<exists>url log2. generateSceneImage svc vp style els ref log = (Inr url, log2)"
proof -
  from assms(1) obtain p where p: "vp = JString p"
    by (cases vp) (simp_all add: isString_def)
  from assms(2) obtain xs where xs: "els = JArray xs" "list_all isString xs"
    by (cases els) (simp_all add: isStrings_def)
  from xs(2) obtain ss where ss: "stringsOf xs = Some ss"
    using stringsOf_total by blast
  show ?thesis
    unfolding p xs(1) generateSceneImage_typed [OF ss]
    by (auto split: prod.splits sum.splits)
qed


lemma sanitizeItems_total: "list_all isItem xs \<Longrightarrow> \<exists>items. sanitizeItems xs = Inr items"
proof (induction xs)
  case Nil
  then show ?case by simp
next
  case (Cons x xs)
  then obtain items where i: "sanitizeItems xs = Inr items" by auto
  from Cons.prems have "isItem x" by simp
  then obtain clean where "sanitizeItem x = Inr clean"
    by (auto simp: isItem_def isString_def sanitizeItem_def split: json.splits option.splits)
  with i show ?case by simp
qed

lemma sanitizeInventory_total:
  assumes "isItems v"
  shows "\<exists>items. sanitizeInventory (orElseJ (Some v) d) = Inr items"
proof -
  from assms obtain xs where xs: "v = JArray xs" "list_all isItem xs"
    by (cases v) (simp_all add: isItems_def)
  from xs(2) obtain items where "sanitizeItems xs = Inr items"
    using sanitizeItems_total by blast
  with xs(1) show ?thesis by (simp add: sanitizeInventory_def orElseJ_def)
qed

lemma commitTurn_total:
  assumes "isItems (GameResponse.inventory r)"
  shows "\<exists>items. commitTurn prev r loc k img = Inr (committed prev r loc k img items)"
  using sanitizeInventory_total [OF assms, of "JArray (inventory prev)"]
  by (auto simp: commitTurn_def)

lemma commitTurn_cases:
  "commitTurn prev r loc k img = Inr s' \<Longrightarrow> \<exists>items. s' = committed prev r loc k img items"
  by (auto simp: commitTurn_def split: sum.splits)

section \<open>Properties of the transitions\<close>

lemma handleAction_rejected: "busyOrBlank s a \<Longrightarrow> handleAction svc s a log = (Inr s, log)"
  by (simp add: handleAction_def)

lemma handleAction_failed:
  "\<not> busyOrBlank s a \<Longrightarrow> generateGameResponse svc a s (imageUrl s) log = (Inl e, log1) \<Longrightarrow>
   handleAction svc s a log = (Inr (caught (optimistic s a)), log1)"
  by (simp add: handleAction_def)

lemma replyLocation_string: "replyLocation (JString l) = Inr (if l = [] then None else Some l)"
  by (simp add: replyLocation_def)

lemma locationOr_string: "locationOr (if l = [] then None else Some l) d = orElse l d"
  by (simp add: locationOr_def orElse_def)

lemma locationKeyOf_string:
  "GameResponse.location r = JString l \<Longrightarrow>
   locationKeyOf r = normalizeLocKey (orElse l (utf16 ''unknown''))"
  by (simp add: locationKeyOf_def stringOf_def)

lemma handleAction_replied:
  assumes "\<not> busyOrBlank s a"
    and "generateGameResponse svc a s (imageUrl s) log = (Inr r, log1)"
    and "GameResponse.location r = JString l"
    and "chooseImage svc s (optimistic s a) r (locationKeyOf r) log1 = (Inr (prev', img), log2)"
  shows "handleAction svc s a log =
     (commitTurn prev' r (if l = [] then None else Some l) (locationKeyOf r) img, log2)"
  using assms
  by (simp add: handleAction_def Let_def replyLocation_string locationOr_string locationKeyOf_string)

lemma chooseImage_hit:
  "GameResponse.location r \<noteq> JString (location s) \<Longrightarrow> isKnown (knownLocations s) k \<Longrightarrow>
   chooseImage svc s prev r k log1 =
     (Inr (prev\<lparr>loadingStatus := Some statusLoading\<rparr>, cachedImage (knownLocations s) k), log1)"
  by (simp add: chooseImage_def Let_def)

lemma chooseImage_miss:
  "GameResponse.location r \<noteq> JString (location s) \<Longrightarrow> \<not> isKnown (knownLocations s) k \<Longrightarrow>
   generateSceneImage svc (GameResponse.visualPrompt r) (artStyle (settings s)) (keyElements r)
     None log1 = (Inr url, log2) \<Longrightarrow>
   chooseImage svc s prev r k log1 =
     (Inr (prev\<lparr>loadingStatus := Some statusGenerating\<rparr>, Some url), log2)"
  by (simp add: chooseImage_def Let_def)



lemma chooseImage_prev:
  assumes "chooseImage svc s prev r k log1 = (Inr (prev', img), log2)"
  shows "\<exists>st. prev' = prev\<lparr>loadingStatus := st\<rparr>"
proof -
  have "\<exists>st. x = x\<lparr>loadingStatus := st\<rparr>" for x :: GameState
    by (rule exI [of _ "loadingStatus x"]) simp
  with assms show ?thesis
    by (auto simp: chooseImage_def Let_def split: if_splits prod.splits sum.splits)
qed


lemma handleAction_outcome:
  assumes "\<not> busyOrBlank s a" and "handleAction svc s a log = (Inr s', log')"
  shows "s' = caught (optimistic s a) \<or>
     (\<exists>st r loc img items.
        s' = committed ((optimistic s a)\<lparr>loadingStatus := st\<rparr>) r loc
               (normalizeLocKey (locationOr loc (utf16 ''unknown''))) img items)"
proof (cases "generateGameResponse svc a s (imageUrl s) log")
  case (Pair res log1)
  show ?thesis
  proof (cases res)
    case (Inl e)
    with Pair assms show ?thesis by (simp add: handleAction_def)
  next
    case (Inr r)
    note reply = this
    show ?thesis
    proof (cases "replyLocation (GameResponse.location r)")
      case (Inl e)
      with Pair reply assms show ?thesis by (simp add: handleAction_def)
    next
      case (Inr loc)
      note read = this
      let ?k = "normalizeLocKey (locationOr loc (utf16 ''unknown''))"
      obtain ci log2 where c: "chooseImage svc s (optimistic s a) r ?k log1 = (ci, log2)"
        by (cases "chooseImage svc s (optimistic s a) r ?k log1") blast
      show ?thesis
      proof (cases ci)
        case (Inl e)
        with Pair reply read c assms show ?thesis by (simp add: handleAction_def Let_def)
      next
        case (Inr chosen)
        obtain prev' img where p: "chosen = (prev', img)" by (cases chosen) blast
        from c Inr p obtain st where st: "prev' = (optimistic s a)\<lparr>loadingStatus := st\<rparr>"
          using chooseImage_prev by blast
        from Pair reply read c Inr p assms have "commitTurn prev' r loc ?k img = Inr s'"
          by (simp add: handleAction_def Let_def)
        then obtain items where "s' = committed prev' r loc ?k img items"
          using commitTurn_cases by blast
        with st show ?thesis by blast
      qed
    qed
  qed
qed

lemma handleAction_status:
  assumes "\<not> busyOrBlank s a" and "handleAction svc s a log = (Inr s', log')"
  shows "loadingStatus s' = None"
  using handleAction_outcome [OF assms] by (auto simp: caught_def committed_def)

lemma started_status:
  "handleStartGame svc input log = (Some s, log') \<Longrightarrow> loadingStatus s = None"
  by (auto simp: handleStartGame_def Let_def split: if_splits prod.splits sum.splits)

lemma reachable_idle: "reachable s \<Longrightarrow> loadingStatus s = None"
proof (induction rule: reachable.induct)
  case (started svc input log s log')
  then show ?case by (rule started_status)
next
  case (turn s svc action log s' log')
  show ?case
  proof (cases "busyOrBlank s action")
    case True
    with turn show ?thesis by (simp add: handleAction_rejected)
  next
    case False
    from False turn(2) show ?thesis by (rule handleAction_status)
  qed
qed

lemma status_nonempty:
  "l \<in> set [statusAnalysing, statusLoading, statusGenerating, statusUpdating] \<Longrightarrow> l \<noteq> []"
  by (auto simp: statusAnalysing_def statusLoading_def statusGenerating_def statusUpdating_def
      utf16_def)

lemma shown_status:
  "shown s \<Longrightarrow> loadingStatus s = None \<or> (\<exists>l. loadingStatus s = Some l \<and> l \<noteq> [])"
proof (induction rule: shown.induct)
  case (idle s)
  then show ?case by (simp add: reachable_idle)
next
  case (waiting s action l)
  then show ?case using status_nonempty by simp
qed

subsection \<open>The entry of the current location\<close>

lemma truthy_orElseJ: "truthy d \<Longrightarrow> truthy (orElseJ v d)"
  by (simp add: orElseJ_def split: option.splits)

lemma mapParsedResponse_location:
  "startLocation st \<noteq> [] \<Longrightarrow> truthy (GameResponse.location (mapParsedResponse p st))"
  by (simp add: mapParsedResponse_def truthy_orElseJ)

lemma initial_world_cases:
  "(\<exists>p. fst (generateInitialGameWorld svc st log) = mapParsedResponse p st) \<or>
   fst (generateInitialGameWorld svc st log) = initialFallback st"
  by (auto simp: generateInitialGameWorld_def split: prod.splits sum.splits option.splits)

lemma initial_world_location:
  assumes "startLocation st \<noteq> []"
  shows "truthy (GameResponse.location (fst (generateInitialGameWorld svc st log)))"
  using initial_world_cases [of svc st log] assms mapParsedResponse_location [of st]
  by (auto simp: initialFallback_def)

lemma replyLocation_truthy:
  "truthy v \<Longrightarrow> replyLocation v = Inr loc \<Longrightarrow> \<exists>l. loc = Some l"
  by (auto simp: replyLocation_def split: json.splits)

lemma started_hasEntry:
  assumes "handleStartGame svc input log = (Some s, log')"
  shows "hasEntry s"
proof -
  from assms have g: "startLocation input \<noteq> []"
    by (auto simp: handleStartGame_def split: if_splits)
  let ?world = "fst (generateInitialGameWorld svc input log)"
  have t: "truthy (GameResponse.location ?world)" using g by (rule initial_world_location)
  from assms g obtain loc where
    loc: "replyLocation (GameResponse.location ?world) = Inr loc"
    and s: "location s = locationOr loc (utf16 ''Desconocido'')"
      "map_of (knownLocations s) (normalizeLocKey (locationOr loc (utf16 ''start''))) \<noteq> None"
    by (auto simp: handleStartGame_def Let_def split: if_splits prod.splits sum.splits)
  from t loc obtain l where "loc = Some l" using replyLocation_truthy by blast
  with s show ?thesis by (simp add: hasEntry_def locationOr_def)
qed

lemma committed_hasEntry:
  assumes "hasEntry prev"
  shows "hasEntry (committed prev r loc (normalizeLocKey (locationOr loc d)) img items)"
  using assms by (cases loc) (auto simp: hasEntry_def committed_def locationOr_def update_conv')

lemma turn_hasEntry:
  assumes "hasEntry s" and "handleAction svc s a log = (Inr s', log')"
  shows "hasEntry s'"
proof (cases "busyOrBlank s a")
  case True
  with assms show ?thesis by (simp add: handleAction_rejected)
next
  case False
  from handleAction_outcome [OF False assms(2)] show ?thesis
  proof
    assume "s' = caught (optimistic s a)"
    with assms(1) show ?thesis by (simp add: hasEntry_def caught_def optimistic_def)
  next
    assume "\<exists>st r loc img items.
        s' = committed ((optimistic s a)\<lparr>loadingStatus := st\<rparr>) r loc
               (normalizeLocKey (locationOr loc (utf16 ''unknown''))) img items"
    then obtain st r loc img items where
      s': "s' = committed ((optimistic s a)\<lparr>loadingStatus := st\<rparr>) r loc
               (normalizeLocKey (locationOr loc (utf16 ''unknown''))) img items"
      by blast
    have "hasEntry ((optimistic s a)\<lparr>loadingStatus := st\<rparr>)"
      using assms(1) by (simp add: hasEntry_def optimistic_def)
    then show ?thesis unfolding s' by (rule committed_hasEntry)
  qed
qed

lemma reachable_hasEntry: "reachable s \<Longrightarrow> hasEntry s"
  by (induction rule: reachable.induct) (auto intro: started_hasEntry turn_hasEntry)

subsection \<open>The example sessions\<close>

lemma exStarted_started: "fst (handleStartGame exInitFailService exSettings []) = Some exStarted"
  by code_simp

lemma exStarted_reachable: "reachable exStarted"
proof -
  have "handleStartGame exInitFailService exSettings [] =
      (Some exStarted, snd (handleStartGame exInitFailService exSettings []))"
    using exStarted_started by (metis prod.collapse)
  then show ?thesis by (rule reachable.started)
qed

lemma exState_reachable: "reachable exState"
proof -
  have "fst (handleStartGame exOpeningService exSettings []) = Some exOpened"
    by code_simp
  then have "handleStartGame exOpeningService exSettings [] =
      (Some exOpened, snd (handleStartGame exOpeningService exSettings []))"
    by (metis prod.collapse)
  then have "reachable exOpened" by (rule reachable.started)
  moreover have "fst (handleAction exOutsideService exOpened (utf16 ''go outside'') []) = Inr exState"
    by code_simp
  then have "handleAction exOutsideService exOpened (utf16 ''go outside'') [] =
      (Inr exState, snd (handleAction exOutsideService exOpened (utf16 ''go outside'') []))"
    by (metis prod.collapse)
  ultimately show ?thesis by (rule reachable.turn)
qed

lemma exNoSignal_reached:
  "fst (handleAction exImagesRefusedService exState (utf16 ''go'') []) = Inr exNoSignal"
  by code_simp

lemma exAway_reached:
  "fst (handleAction exStreetService exNoSignal (utf16 ''go'') []) = Inr exAway"
  by code_simp

lemma exNoSignal_reachable: "reachable exNoSignal"
proof -
  have "handleAction exImagesRefusedService exState (utf16 ''go'') [] =
      (Inr exNoSignal, snd (handleAction exImagesRefusedService exState (utf16 ''go'') []))"
    using exNoSignal_reached by (metis prod.collapse)
  with exState_reachable show ?thesis by (rule reachable.turn)
qed

lemma exAway_reachable: "reachable exAway"
proof -
  have "handleAction exStreetService exNoSignal (utf16 ''go'') [] =
      (Inr exAway, snd (handleAction exStreetService exNoSignal (utf16 ''go'') []))"
    using exAway_reached by (metis prod.collapse)
  with exNoSignal_reachable show ?thesis by (rule reachable.turn)
qed

section \<open>The repair of a truncated reply\<close>

lemma tryParseJSON_cases:
  "tryParseJSON s = jsonParse s \<or> tryParseJSON s = jsonParse (s @ [0x7D]) \<or>
   tryParseJSON s = jsonParse (s @ [0x5D, 0x7D]) \<or>
   tryParseJSON s = jsonParse (s @ [0x22, 0x7D])"
  by (auto simp: tryParseJSON_def split: option.splits)

lemma endings:
  \<open>utf16 ''}'' = [0x7D]\<close> \<open>utf16 '']}'' = [0x5D, 0x7D]\<close> \<open>utf16 ''"}'' = [0x22, 0x7D]\<close>
  \<open>utf16 ''"'' = [0x22]\<close>
  by (simp_all add: utf16_def unit_def)

text \<open>
  C6. The reply text \<open>{"narrative":"Hello\<close>, cut in the middle of a string, has no closing
  brace, so \<open>cleanJsonOutput\<close> leaves it as it is, and \<open>tryParseJSON\<close> returns the document
  whose only field \<open>narrative\<close> is the string \<open>Hello\<close>, with nothing of the cut left in it.
  For every text: when each attempt that is made fails the result is \<open>null\<close>, and a result
  is always what \<open>JSON.parse\<close> gives for the text, or for the text followed by one of the
  three fixed endings.
\<close>

theorem truncated_narrative_repaired:
  \<open>tryParseJSON (cleanJsonOutput (utf16 ''{"narrative":"Hello'')) =
     Some (JObject [(utf16 ''narrative'', JString (utf16 ''Hello''))]) \<and>
   property (JObject [(utf16 ''narrative'', JString (utf16 ''Hello''))]) (utf16 ''narrative'') =
     Some (JString (utf16 ''Hello'')) \<and>
   (jsonParse s = None \<and> jsonParse (s @ utf16 ''}'') = None \<and>
    jsonParse (s @ utf16 '']}'') = None \<and>
    (\<not> endsWith (trim s) (utf16 ''"'') \<longrightarrow> jsonParse (s @ utf16 ''"}'') = None)
      \<longrightarrow> tryParseJSON s = None) \<and>
   (tryParseJSON s = jsonParse s \<or> tryParseJSON s = jsonParse (s @ utf16 ''}'') \<or>
    tryParseJSON s = jsonParse (s @ utf16 '']}'') \<or> tryParseJSON s = jsonParse (s @ utf16 ''"}''))\<close>
proof -
  have a: \<open>tryParseJSON (cleanJsonOutput (utf16 ''{"narrative":"Hello'')) =
     Some (JObject [(utf16 ''narrative'', JString (utf16 ''Hello''))])\<close>
    by code_simp
  have b: "property (JObject [(utf16 ''narrative'', JString (utf16 ''Hello''))]) (utf16 ''narrative'') =
     Some (JString (utf16 ''Hello''))"
    by code_simp
  have c: \<open>jsonParse s = None \<and> jsonParse (s @ utf16 ''}'') = None \<and>
    jsonParse (s @ utf16 '']}'') = None \<and>
    (\<not> endsWith (trim s) (utf16 ''"'') \<longrightarrow> jsonParse (s @ utf16 ''"}'') = None)
      \<longrightarrow> tryParseJSON s = None\<close>
    by (simp add: tryParseJSON_def endings)
  show ?thesis using a b c tryParseJSON_cases [of s] by (simp add: endings)
qed

theorem truncated_narrative_repaired_witness:
  \<open>jsonParse (utf16 ''['') = None \<and> jsonParse (utf16 ''['' @ utf16 ''}'') = None \<and>
   jsonParse (utf16 ''['' @ utf16 '']}'') = None \<and> \<not> endsWith (trim (utf16 ''['')) (utf16 ''"'') \<and>
   jsonParse (utf16 ''['' @ utf16 ''"}'') = None \<and> tryParseJSON (utf16 ''['') = None\<close>
proof -
  have h: \<open>jsonParse (utf16 ''['') = None \<and> jsonParse (utf16 ''['' @ utf16 ''}'') = None \<and>
    jsonParse (utf16 ''['' @ utf16 '']}'') = None \<and> \<not> endsWith (trim (utf16 ''['')) (utf16 ''"'') \<and>
    jsonParse (utf16 ''['' @ utf16 ''"}'') = None\<close>
    by code_simp
  show ?thesis using h truncated_narrative_repaired [of "utf16 ''[''"] by blast
qed

section \<open>The busy gate\<close>

text \<open>
  C1. In every state that the component holds in the course of a session, \<open>loadingStatus\<close>
  is absent or one of four texts, none of them empty. So when it is not absent, or when the
  action is empty or consists of white space only, \<open>handleAction\<close> returns at once: the state
  is the one it was given, so no history entry is added, and the log of calls is the one it was
  given, so the service is not called.
\<close>

theorem busy_or_blank_is_noop:
  "shown s \<Longrightarrow> loadingStatus s \<noteq> None \<or> (\<forall>c \<in> set a. isSpace c) \<Longrightarrow>
   handleAction svc s a log = (Inr s, log)"
proof -
  assume "shown s" and "loadingStatus s \<noteq> None \<or> (\<forall>c \<in> set a. isSpace c)"
  then have "busyOrBlank s a"
    using shown_status [of s]
    by (auto simp: busyOrBlank_def truthyString_def trim_empty_iff)
  then show ?thesis by (rule handleAction_rejected)
qed

theorem busy_or_blank_is_noop_witness:
  "shown exBusy \<and> loadingStatus exBusy = Some statusGenerating \<and>
   handleAction exLookService exBusy (utf16 ''look'') [] = (Inr exBusy, []) \<and>
   shown exState \<and> list_all isSpace exBlank \<and>
   handleAction exLookService exState exBlank [] = (Inr exState, [])"
proof -
  have g: "\<not> busyOrBlank exState (utf16 ''go'')" by code_simp
  have "shown ((optimistic exState (utf16 ''go''))\<lparr>loadingStatus := Some statusGenerating\<rparr>)"
    using exState_reachable g by (rule shown.waiting) simp
  then have s1: "shown exBusy" by (simp add: exBusy_def)
  have s2: "shown exState" using exState_reachable by (rule shown.idle)
  have b: "loadingStatus exBusy = Some statusGenerating" by (simp add: exBusy_def)
  have w: "list_all isSpace exBlank" by code_simp
  have "handleAction exLookService exBusy (utf16 ''look'') [] = (Inr exBusy, [])"
    using busy_or_blank_is_noop [of exBusy "utf16 ''look''" exLookService "[]"] s1 b by simp
  moreover have "handleAction exLookService exState exBlank [] = (Inr exState, [])"
    using busy_or_blank_is_noop [of exState exBlank exLookService "[]"] s2 w
    by (simp add: list_all_iff)
  ultimately show ?thesis using s1 s2 b w by simp
qed

section \<open>Sanitized inventories\<close>

text \<open>
  C3 does not hold of the code. The comments of \<open>sanitizeInventory\<close> announce that hex codes
  and version numbers are removed, but each pattern is applied once, in a fixed order, and a
  later replacement can leave what an earlier one was to remove: removing \<open>v2\<close> from
  \<open>cafev2babe\<close> joins two halves into the hex-like token \<open>Cafebabe\<close> of length 8, after the
  hex codes have been removed, and removing the inner \<open>x86\<close> from \<open>xx8686\<close> leaves \<open>X86\<close>
  behind. The first of the two names is in the inventory of a state that a session reaches.
  On the name \<open>Key_v2_a1b2c3d4\<close> the replacements do what the comments say.
\<close>

theorem sanitizer_leaves_tokens:
  "sanitizeInventory (JArray [exItem ''cafev2babe'' ''A badge.'']) =
     Inr [exItem ''Cafebabe'' ''A badge.''] \<and>
   containsMatch mHexToken None (utf16 ''Cafebabe'') \<and>
   sanitizeInventory (JArray [exItem ''xx8686'' ''A chip.'']) = Inr [exItem ''X86'' ''A chip.''] \<and>
   containsMatch mVersion None (utf16 ''X86'') \<and>
   reachable exState \<and> inventory exState = [exItem ''Cafebabe'' ''A badge.''] \<and>
   sanitizeInventory (JArray [exItem ''Key_v2_a1b2c3d4'' ''A key.'']) = Inr [exItem ''Key'' ''A key.'']"
proof -
  have "sanitizeInventory (JArray [exItem ''cafev2babe'' ''A badge.'']) =
     Inr [exItem ''Cafebabe'' ''A badge.''] \<and>
   containsMatch mHexToken None (utf16 ''Cafebabe'') \<and>
   sanitizeInventory (JArray [exItem ''xx8686'' ''A chip.'']) = Inr [exItem ''X86'' ''A chip.''] \<and>
   containsMatch mVersion None (utf16 ''X86'') \<and>
   inventory exState = [exItem ''Cafebabe'' ''A badge.''] \<and>
   sanitizeInventory (JArray [exItem ''Key_v2_a1b2c3d4'' ''A key.'']) = Inr [exItem ''Key'' ''A key.'']"
    by code_simp
  with exState_reachable show ?thesis by simp
qed

section \<open>Turns that fail\<close>

text \<open>
  C4 does not hold of the code. When the reply cannot be decoded, \<open>generateGameResponse\<close>
  returns a reply that repeats the inventory of the current state, so as to keep it, and the
  turn is committed like any other, which sanitizes that inventory once more. Sanitizing a
  sanitized name can change it: the name \<open>Cafebabe\<close>, which the sanitizer has produced from
  \<open>cafev2babe\<close>, is a hex-like token that the second pass removes, so that the item is
  renamed to the fallback name. The other kind of failed turn, a call that throws, leaves the
  inventory as it is.
\<close>

theorem garbled_reply_changes_inventory:
  "reachable exState \<and> replyJson exGarbageReply = None \<and>
   inventory exState = [exItem ''Cafebabe'' ''A badge.''] \<and>
   map_option inventory (stateAfter (handleAction exGarbageService exState (utf16 ''look'') [])) =
     Some [exItem ''Objeto Raro'' ''A badge.''] \<and>
   map_option narrative (stateAfter (handleAction exGarbageService exState (utf16 ''look'') [])) =
     Some (JString glitchNarrative) \<and>
   map_option inventory (stateAfter (handleAction exDownService exState (utf16 ''look'') [])) =
     Some [exItem ''Cafebabe'' ''A badge.'']"
proof -
  have "replyJson exGarbageReply = None \<and>
   inventory exState = [exItem ''Cafebabe'' ''A badge.''] \<and>
   map_option inventory (stateAfter (handleAction exGarbageService exState (utf16 ''look'') [])) =
     Some [exItem ''Objeto Raro'' ''A badge.''] \<and>
   map_option narrative (stateAfter (handleAction exGarbageService exState (utf16 ''look'') [])) =
     Some (JString glitchNarrative) \<and>
   map_option inventory (stateAfter (handleAction exDownService exState (utf16 ''look'') [])) =
     Some [exItem ''Cafebabe'' ''A badge.'']"
    by code_simp
  with exState_reachable show ?thesis by simp
qed

section \<open>The current location is in the cache\<close>

text \<open>
  C8. A state is reachable when \<open>handleStartGame\<close> yields it, or \<open>handleAction\<close> yields it
  from a reachable state, for any service, input and action. In every reachable state,
  \<open>knownLocations\<close> has an entry under the normalized form of the state's location. The
  guard of \<open>handleStartGame\<close> makes the start location non-empty, so that the location of the
  initial reply is not empty and the key written at the start is the normalized location; a
  commit writes the entry under the normalized location it commits, or keeps the location
  and with it the entry.
\<close>

theorem current_location_is_known:
  "reachable s \<Longrightarrow> \<exists>entry. map_of (knownLocations s) (normalizeLocKey (location s)) = Some entry"
  using reachable_hasEntry [of s] by (simp add: hasEntry_def)

theorem current_location_is_known_witness:
  "reachable exStarted \<and>
   handleAction exPlazaService exStarted (utf16 ''go'') [] =
     (Inr exPlaza, snd (handleAction exPlazaService exStarted (utf16 ''go'') [])) \<and>
   reachable exPlaza \<and> location exPlaza = utf16 ''Plaza'' \<and>
   map_of (knownLocations exPlaza) (utf16 ''plaza'') \<noteq> None"
proof -
  have "fst (handleAction exPlazaService exStarted (utf16 ''go'') []) = Inr exPlaza"
    by code_simp
  then have t: "handleAction exPlazaService exStarted (utf16 ''go'') [] =
      (Inr exPlaza, snd (handleAction exPlazaService exStarted (utf16 ''go'') []))"
    by (metis prod.collapse)
  with exStarted_reachable have r1: "reachable exPlaza" by (rule reachable.turn)
  have l: "location exPlaza = utf16 ''Plaza''" by code_simp
  have k: "normalizeLocKey (utf16 ''Plaza'') = utf16 ''plaza''" by code_simp
  from current_location_is_known [OF r1] l k
  have "map_of (knownLocations exPlaza) (utf16 ''plaza'') \<noteq> None" by auto
  with exStarted_reachable t r1 l show ?thesis by simp
qed

section \<open>The length of the history\<close>

text \<open>
  C7 does not hold of the code. A turn whose service call throws keeps the action that was
  appended before the call and prunes nothing, and a commit removes five entries however
  long the history is. A session starts with one entry; twelve turns with a reply bring the
  history to 20 entries; four turns during which the service refuses the call bring it to
  24; the commit of the next turn leaves 21.
\<close>

theorem history_exceeds_bound:
  "length (history exStarted) = 1 \<and>
   map_option (\<lambda>s. length (history s))
     (stateAfter (runActions exOutageService exStarted (replicate 12 (utf16 ''wait'')) [])) = Some 20 \<and>
   map_option (\<lambda>s. length (history s))
     (stateAfter (runActions exOutageService exStarted (replicate 13 (utf16 ''wait'')) [])) = Some 21 \<and>
   map_option (\<lambda>s. length (history s))
     (stateAfter (runActions exOutageService exStarted (replicate 16 (utf16 ''wait'')) [])) = Some 24 \<and>
   map_option (\<lambda>s. length (history s))
     (stateAfter (runActions exOutageService exStarted (replicate 17 (utf16 ''wait'')) [])) = Some 21 \<and>
   map_option narrative
     (stateAfter (runActions exOutageService exStarted (replicate 17 (utf16 ''wait'')) [])) =
     Some (JString (utf16 ''ok'')) \<and>
   map_option loadingStatus
     (stateAfter (runActions exOutageService exStarted (replicate 17 (utf16 ''wait'')) [])) = Some None"
  by code_simp

section \<open>The location cache\<close>

lemma stored_image: "(case truthyString (Some u) of Some v \<Rightarrow> v | None \<Rightarrow> []) = u"
  by (simp add: truthyString_def)

lemma wellFormed_location: "wellFormed r \<Longrightarrow> \<exists>l. GameResponse.location r = JString l"
  by (cases "GameResponse.location r") (simp_all add: wellFormed_def isString_def)

lemma cache_hit_turn:
  assumes "\<not> busyOrBlank s a"
    and "generateGameResponse svc a s (imageUrl s) log = (Inr r, log1)"
    and "wellFormed r"
    and "GameResponse.location r \<noteq> JString (location s)"
    and "map_of (knownLocations s) (locationKeyOf r) = Some e"
  shows "\<exists>loc items. handleAction svc s a log =
     (Inr (committed ((optimistic s a)\<lparr>loadingStatus := Some statusLoading\<rparr>) r loc
             (locationKeyOf r) (Some (VisitedLocation.imageUrl e)) items), log1)"
proof -
  from assms(3) obtain l where l: "GameResponse.location r = JString l"
    using wellFormed_location by blast
  from assms(5) have "isKnown (knownLocations s) (locationKeyOf r)"
    and "cachedImage (knownLocations s) (locationKeyOf r) = Some (VisitedLocation.imageUrl e)"
    by (simp_all add: isKnown_def cachedImage_def)
  with assms(4) have "chooseImage svc s (optimistic s a) r (locationKeyOf r) log1 =
      (Inr ((optimistic s a)\<lparr>loadingStatus := Some statusLoading\<rparr>,
            Some (VisitedLocation.imageUrl e)), log1)"
    by (simp add: chooseImage_hit)
  with assms(1,2) l have h: "handleAction svc s a log =
      (commitTurn ((optimistic s a)\<lparr>loadingStatus := Some statusLoading\<rparr>) r
         (if l = [] then None else Some l) (locationKeyOf r) (Some (VisitedLocation.imageUrl e)), log1)"
    by (rule handleAction_replied)
  from assms(3) have "isItems (GameResponse.inventory r)"
    by (simp add: wellFormed_def)
  then obtain items where
    "commitTurn ((optimistic s a)\<lparr>loadingStatus := Some statusLoading\<rparr>) r
       (if l = [] then None else Some l) (locationKeyOf r) (Some (VisitedLocation.imageUrl e)) =
     Inr (committed ((optimistic s a)\<lparr>loadingStatus := Some statusLoading\<rparr>) r
       (if l = [] then None else Some l) (locationKeyOf r) (Some (VisitedLocation.imageUrl e)) items)"
    using commitTurn_total by blast
  with h have "handleAction svc s a log =
     (Inr (committed ((optimistic s a)\<lparr>loadingStatus := Some statusLoading\<rparr>) r
       (if l = [] then None else Some l) (locationKeyOf r) (Some (VisitedLocation.imageUrl e)) items),
      log1)"
    by simp
  then show ?thesis by blast
qed

lemma cache_miss_turn:
  assumes "\<not> busyOrBlank s a"
    and "generateGameResponse svc a s (imageUrl s) log = (Inr r, log1)"
    and "wellFormed r"
    and "GameResponse.location r \<noteq> JString (location s)"
    and "\<not> isKnown (knownLocations s) (locationKeyOf r)"
    and "generateSceneImage svc (GameResponse.visualPrompt r) (artStyle (settings s))
      (keyElements r) None log1 = (Inr url, log2)"
  shows "\<exists>loc items. handleAction svc s a log =
     (Inr (committed ((optimistic s a)\<lparr>loadingStatus := Some statusGenerating\<rparr>) r loc
             (locationKeyOf r) (Some url) items), log2)"
proof -
  from assms(3) obtain l where l: "GameResponse.location r = JString l"
    using wellFormed_location by blast
  from assms(4,5,6) have "chooseImage svc s (optimistic s a) r (locationKeyOf r) log1 =
      (Inr ((optimistic s a)\<lparr>loadingStatus := Some statusGenerating\<rparr>, Some url), log2)"
    by (simp add: chooseImage_miss)
  with assms(1,2) l have h: "handleAction svc s a log =
      (commitTurn ((optimistic s a)\<lparr>loadingStatus := Some statusGenerating\<rparr>) r
         (if l = [] then None else Some l) (locationKeyOf r) (Some url), log2)"
    by (rule handleAction_replied)
  from assms(3) have "isItems (GameResponse.inventory r)"
    by (simp add: wellFormed_def)
  then obtain items where
    "commitTurn ((optimistic s a)\<lparr>loadingStatus := Some statusGenerating\<rparr>) r
       (if l = [] then None else Some l) (locationKeyOf r) (Some url) =
     Inr (committed ((optimistic s a)\<lparr>loadingStatus := Some statusGenerating\<rparr>) r
       (if l = [] then None else Some l) (locationKeyOf r) (Some url) items)"
    using commitTurn_total by blast
  with h have "handleAction svc s a log =
     (Inr (committed ((optimistic s a)\<lparr>loadingStatus := Some statusGenerating\<rparr>) r
       (if l = [] then None else Some l) (locationKeyOf r) (Some url) items), log2)"
    by simp
  then show ?thesis by blast
qed

lemma cache_hit_effect:
  assumes "\<not> busyOrBlank s a"
    and "generateGameResponse svc a s (imageUrl s) log = (Inr r, log1)"
    and "wellFormed r"
    and "GameResponse.location r \<noteq> JString (location s)"
    and "map_of (knownLocations s) (locationKeyOf r) = Some e"
  shows "\<exists>s'. handleAction svc s a log = (Inr s', log1) \<and>
     imageUrl s' = Some (VisitedLocation.imageUrl e) \<and>
     imageCalls log1 = imageCalls log \<and>
     visualDescription s' = GameResponse.visualPrompt r \<and>
     map_of (knownLocations s') (locationKeyOf r) =
       Some \<lparr>VisitedLocation.imageUrl = VisitedLocation.imageUrl e,
             VisitedLocation.visualPrompt = GameResponse.visualPrompt r\<rparr>"
proof -
  from cache_hit_turn [OF assms] obtain loc items where
    c: "handleAction svc s a log =
     (Inr (committed ((optimistic s a)\<lparr>loadingStatus := Some statusLoading\<rparr>) r loc
             (locationKeyOf r) (Some (VisitedLocation.imageUrl e)) items), log1)"
    by blast
  have "imageCalls log1 = imageCalls log" using assms(2) by (rule replied_imageCalls)
  then show ?thesis
    unfolding c by (simp add: committed_def update_conv' stored_image)
qed

lemma cache_miss_effect:
  assumes "\<not> busyOrBlank s a"
    and "generateGameResponse svc a s (imageUrl s) log = (Inr r, log1)"
    and "wellFormed r"
    and "GameResponse.location r \<noteq> JString (location s)"
    and "\<not> isKnown (knownLocations s) (locationKeyOf r)"
    and "generateSceneImage svc (GameResponse.visualPrompt r) (artStyle (settings s))
      (keyElements r) None log1 = (Inr url, log2)"
  shows "\<exists>s'. handleAction svc s a log = (Inr s', log2) \<and>
     imageUrl s' = Some url \<and>
     map_of (knownLocations s') (locationKeyOf r) =
       Some \<lparr>VisitedLocation.imageUrl = url,
             VisitedLocation.visualPrompt = GameResponse.visualPrompt r\<rparr>"
proof -
  from cache_miss_turn [OF assms] obtain loc items where
    c: "handleAction svc s a log =
     (Inr (committed ((optimistic s a)\<lparr>loadingStatus := Some statusGenerating\<rparr>) r loc
             (locationKeyOf r) (Some url) items), log2)"
    by blast
  show ?thesis
    unfolding c by (simp add: committed_def update_conv' stored_image)
qed

text \<open>
  C2, as the code has it. When a well-formed reply names a location other than the current
  one and the key of that location (the location trimmed and in lower case, or \<open>unknown\<close>
  when the reply's location is empty) has an entry in \<open>knownLocations\<close>, the committed
  image is the entry's image and no image request is made. The visual description is not
  taken from the cache: the committed \<open>visualDescription\<close> is the reply's visual prompt,
  and the entry is rewritten with it. When the key has no entry and is not otherwise known,
  the image that \<open>generateSceneImage\<close> returns is committed and stored under the key, where
  a later transition of the first kind finds it as long as the entry has not been rewritten.
  Two locations have the same key when they differ in the white space around them and in the
  case of their letters from \<open>A\<close> to \<open>Z\<close>.
\<close>

theorem cached_image_reused:
  "(\<not> busyOrBlank s a \<and> generateGameResponse svc a s (imageUrl s) log = (Inr r, log1) \<and>
    wellFormed r \<and> GameResponse.location r \<noteq> JString (location s) \<and>
    map_of (knownLocations s) (locationKeyOf r) = Some e \<longrightarrow>
      (\<exists>s'. handleAction svc s a log = (Inr s', log1) \<and>
         imageUrl s' = Some (VisitedLocation.imageUrl e) \<and>
         imageCalls log1 = imageCalls log \<and>
         visualDescription s' = GameResponse.visualPrompt r \<and>
         map_of (knownLocations s') (locationKeyOf r) =
           Some \<lparr>VisitedLocation.imageUrl = VisitedLocation.imageUrl e,
                 VisitedLocation.visualPrompt = GameResponse.visualPrompt r\<rparr>)) \<and>
   (\<not> busyOrBlank s a \<and> generateGameResponse svc a s (imageUrl s) log = (Inr r, log1) \<and>
    wellFormed r \<and> GameResponse.location r \<noteq> JString (location s) \<and>
    \<not> isKnown (knownLocations s) (locationKeyOf r) \<and>
    generateSceneImage svc (GameResponse.visualPrompt r) (artStyle (settings s))
      (keyElements r) None log1 = (Inr url, log2) \<longrightarrow>
      (\<exists>s'. handleAction svc s a log = (Inr s', log2) \<and>
         imageUrl s' = Some url \<and>
         map_of (knownLocations s') (locationKeyOf r) =
           Some \<lparr>VisitedLocation.imageUrl = url,
                 VisitedLocation.visualPrompt = GameResponse.visualPrompt r\<rparr>)) \<and>
   ((\<forall>c \<in> set pre. isSpace c) \<and> (\<forall>c \<in> set post. isSpace c) \<and>
    map toLowerAscii l2 = map toLowerAscii l1 \<longrightarrow>
      normalizeLocKey (pre @ l2 @ post) = normalizeLocKey l1)"
  using cache_hit_effect [of s a svc log r log1 e]
    cache_miss_effect [of s a svc log r log1 url log2]
    key_of_variant [of pre post l2 l1]
  by blast

theorem cached_image_reused_witness:
  "\<not> busyOrBlank exState (utf16 ''go'') \<and>
   generateGameResponse exBarService (utf16 ''go'') exState (imageUrl exState) [] =
     (Inr exBarReply, [Request MODEL_LOOP (ActionPrompt (utf16 ''go'')) (Some (utf16 ''STREET''))]) \<and>
   wellFormed exBarReply \<and>
   GameResponse.location exBarReply \<noteq> JString (location exState) \<and>
   locationKeyOf exBarReply = utf16 ''bar'' \<and>
   map_of (knownLocations exState) (utf16 ''bar'') =
     Some \<lparr>VisitedLocation.imageUrl = utf16 ''data:image/png;base64,BAR'',
           VisitedLocation.visualPrompt = JString (utf16 ''A crowded bar'')\<rparr> \<and>
   map_option imageUrl (stateAfter (handleAction exBarService exState (utf16 ''go'') [])) =
     Some (Some (utf16 ''data:image/png;base64,BAR'')) \<and>
   imageCalls (snd (handleAction exBarService exState (utf16 ''go'') [])) = [] \<and>
   generateGameResponse exPlazaService (utf16 ''go'') exState (imageUrl exState) [] =
     (Inr exPlazaReply, [Request MODEL_LOOP (ActionPrompt (utf16 ''go'')) (Some (utf16 ''STREET''))]) \<and>
   wellFormed exPlazaReply \<and>
   GameResponse.location exPlazaReply \<noteq> JString (location exState) \<and>
   \<not> isKnown (knownLocations exState) (locationKeyOf exPlazaReply) \<and>
   map_option imageUrl (stateAfter (handleAction exPlazaService exState (utf16 ''go'') [])) =
     Some (Some (utf16 ''data:image/png;base64,PLAZA'')) \<and>
   list_all isSpace [0x20, 0xA0] \<and> list_all isSpace [0x3000] \<and>
   map toLowerAscii (utf16 ''BAR'') = map toLowerAscii (utf16 ''Bar'') \<and>
   normalizeLocKey ([0x20, 0xA0] @ utf16 ''BAR'' @ [0x3000]) = normalizeLocKey (utf16 ''Bar'')"
proof -
  let ?log1 = "[Request MODEL_LOOP (ActionPrompt (utf16 ''go'')) (Some (utf16 ''STREET''))]"
  let ?e = "\<lparr>VisitedLocation.imageUrl = utf16 ''data:image/png;base64,BAR'',
           VisitedLocation.visualPrompt = JString (utf16 ''A crowded bar'')\<rparr>"
  let ?log2 = "?log1 @ [Request MODEL_IMAGE
      (FullPrompt (utf16 ''Pixel Art'') (utf16 ''A sunny plaza'') []) None]"
  have g: "\<not> busyOrBlank exState (utf16 ''go'')" by code_simp
  have r1: "generateGameResponse exBarService (utf16 ''go'') exState (imageUrl exState) [] =
     (Inr exBarReply, ?log1)" by code_simp
  have w1: "wellFormed exBarReply" by code_simp
  have d1: "GameResponse.location exBarReply \<noteq> JString (location exState)" by code_simp
  have k1: "locationKeyOf exBarReply = utf16 ''bar''" by code_simp
  have m1: "map_of (knownLocations exState) (utf16 ''bar'') = Some ?e" by code_simp
  have r2: "generateGameResponse exPlazaService (utf16 ''go'') exState (imageUrl exState) [] =
     (Inr exPlazaReply, ?log1)" by code_simp
  have w2: "wellFormed exPlazaReply" by code_simp
  have d2: "GameResponse.location exPlazaReply \<noteq> JString (location exState)" by code_simp
  have k2: "\<not> isKnown (knownLocations exState) (locationKeyOf exPlazaReply)" by code_simp
  have i2: "generateSceneImage exPlazaService (GameResponse.visualPrompt exPlazaReply)
      (artStyle (settings exState)) (keyElements exPlazaReply) None ?log1 =
      (Inr (utf16 ''data:image/png;base64,PLAZA''), ?log2)"
    by code_simp
  have c0: "imageCalls ?log1 = []" by code_simp
  have sp: "list_all isSpace [0x20, 0xA0]" "list_all isSpace [0x3000]" by code_simp+
  have ca: "map toLowerAscii (utf16 ''BAR'') = map toLowerAscii (utf16 ''Bar'')" by code_simp
  note t1 = cached_image_reused [of exState "utf16 ''go''" exBarService "[]" exBarReply ?log1 ?e
      "[]" "[]" "[0x20, 0xA0]" "[0x3000]" "utf16 ''BAR''" "utf16 ''Bar''"]
  from t1 g r1 w1 d1 k1 m1 obtain s' where
    "handleAction exBarService exState (utf16 ''go'') [] = (Inr s', ?log1)"
    "imageUrl s' = Some (utf16 ''data:image/png;base64,BAR'')"
    by auto
  then have a: "map_option imageUrl (stateAfter (handleAction exBarService exState (utf16 ''go'') [])) =
      Some (Some (utf16 ''data:image/png;base64,BAR''))"
    and b: "imageCalls (snd (handleAction exBarService exState (utf16 ''go'') [])) = []"
    using c0 by (simp_all add: stateAfter_def)
  from t1 sp ca have v:
    "normalizeLocKey ([0x20, 0xA0] @ utf16 ''BAR'' @ [0x3000]) = normalizeLocKey (utf16 ''Bar'')"
    by (simp add: list_all_iff)
  note t2 = cached_image_reused [of exState "utf16 ''go''" exPlazaService "[]" exPlazaReply ?log1 ?e
      "utf16 ''data:image/png;base64,PLAZA''" ?log2 "[]" "[]" "[]" "[]"]
  from t2 g r2 w2 d2 k2 i2 have "\<exists>s'. handleAction exPlazaService exState (utf16 ''go'') [] =
      (Inr s', ?log2) \<and> imageUrl s' = Some (utf16 ''data:image/png;base64,PLAZA'') \<and>
      map_of (knownLocations s') (locationKeyOf exPlazaReply) =
        Some \<lparr>VisitedLocation.imageUrl = utf16 ''data:image/png;base64,PLAZA'',
              VisitedLocation.visualPrompt = GameResponse.visualPrompt exPlazaReply\<rparr>"
    by blast
  then obtain s'' where
    "handleAction exPlazaService exState (utf16 ''go'') [] = (Inr s'', ?log2)"
    "imageUrl s'' = Some (utf16 ''data:image/png;base64,PLAZA'')"
    by blast
  then have c: "map_option imageUrl (stateAfter (handleAction exPlazaService exState (utf16 ''go'') [])) =
      Some (Some (utf16 ''data:image/png;base64,PLAZA''))"
    by (simp add: stateAfter_def)
  show ?thesis using g r1 w1 d1 k1 m1 a b r2 w2 d2 k2 c sp ca v by simp
qed

text \<open>
  C2 as the claim states it fails on the visual description: the entry for the bar holds
  the description \<open>A crowded bar\<close>, and after the transition into the bar the state and the
  entry hold the reply's \<open>An empty bar\<close>.
\<close>

theorem cached_description_not_reused:
  "map_of (knownLocations exState) (utf16 ''bar'') =
     Some \<lparr>VisitedLocation.imageUrl = utf16 ''data:image/png;base64,BAR'',
           VisitedLocation.visualPrompt = JString (utf16 ''A crowded bar'')\<rparr> \<and>
   location exState = utf16 ''Street'' \<and> wellFormed exBarReply \<and>
   generateGameResponse exBarService (utf16 ''go'') exState (imageUrl exState) [] =
     (Inr exBarReply, [Request MODEL_LOOP (ActionPrompt (utf16 ''go'')) (Some (utf16 ''STREET''))]) \<and>
   map_option location (stateAfter (handleAction exBarService exState (utf16 ''go'') [])) =
     Some (utf16 '' BAR '') \<and>
   map_option visualDescription (stateAfter (handleAction exBarService exState (utf16 ''go'') [])) =
     Some (JString (utf16 ''An empty bar'')) \<and>
   map_option (\<lambda>s. map_of (knownLocations s) (utf16 ''bar''))
     (stateAfter (handleAction exBarService exState (utf16 ''go'') [])) =
     Some (Some \<lparr>VisitedLocation.imageUrl = utf16 ''data:image/png;base64,BAR'',
                 VisitedLocation.visualPrompt = JString (utf16 ''An empty bar'')\<rparr>)"
  by code_simp

section \<open>World initialization\<close>

lemma generateWithModel_log:
  "\<exists>k. 1 \<le> k \<and> k \<le> 4 \<and>
     snd (generateWithModel svc st m log) = log @ replicate k (Request m (InitPrompt st) None)"
  using callWithRetry_log [of 3 svc "Request m (InitPrompt st) None" log]
  by (auto simp: generateWithModel_def)

lemma tierResult_log: "snd (tierResult svc st m log) = snd (generateWithModel svc st m log)"
  by (simp add: tierResult_def split: prod.splits sum.splits)

lemma initial_first_tier:
  assumes "fst (tierResult svc st MODEL_INIT log) = Some p"
  shows "generateInitialGameWorld svc st log =
     (mapParsedResponse p st, snd (tierResult svc st MODEL_INIT log))"
  using assms
  by (auto simp: generateInitialGameWorld_def tierResult_def split: prod.splits sum.splits option.splits)

lemma initial_second_tier:
  assumes "fst (tierResult svc st MODEL_INIT log) = None"
  shows "generateInitialGameWorld svc st log =
     (case tierResult svc st MODEL_LOOP (snd (tierResult svc st MODEL_INIT log)) of
        (Some p, l2) \<Rightarrow> (mapParsedResponse p st, l2)
      | (None, l2) \<Rightarrow> (initialFallback st, l2))"
  using assms
  by (auto simp: generateInitialGameWorld_def tierResult_def split: prod.splits sum.splits option.splits)

lemma initial_second_tier_called:
  assumes "fst (tierResult svc st MODEL_INIT log) = None"
  shows "Request MODEL_LOOP (InitPrompt st) None \<in> set (snd (generateInitialGameWorld svc st log))"
proof -
  let ?l1 = "snd (tierResult svc st MODEL_INIT log)"
  have "snd (generateInitialGameWorld svc st log) = snd (tierResult svc st MODEL_LOOP ?l1)"
    using initial_second_tier [OF assms] by (simp split: prod.splits option.splits)
  moreover obtain k where "1 \<le> k"
    and "snd (generateWithModel svc st MODEL_LOOP ?l1) =
      ?l1 @ replicate k (Request MODEL_LOOP (InitPrompt st) None)"
    using generateWithModel_log [of svc st MODEL_LOOP ?l1] by blast
  ultimately show ?thesis by (cases k) (simp_all add: tierResult_log)
qed

lemma initialFallback_wellFormed: "wellFormed (initialFallback st)"
  by (simp add: wellFormed_def initialFallback_def isString_def isStrings_def isItems_def)

lemma handleStartGame_started:
  assumes "startLocation input \<noteq> []" and "artStyle input \<noteq> []"
    and "wellFormed (fst (generateInitialGameWorld svc input log))"
  shows "\<exists>s log'. handleStartGame svc input log = (Some s, log') \<and> settings s = input \<and>
     loadingStatus s = None \<and>
     JString (location s) = GameResponse.location (fst (generateInitialGameWorld svc input log)) \<and>
     narrative s =
       orElseJ (Some (GameResponse.narrative (fst (generateInitialGameWorld svc input log))))
         (JString []) \<and>
     sanitizeInventory (GameResponse.inventory (fst (generateInitialGameWorld svc input log))) =
       Inr (inventory s) \<and>
     availableExits s =
       orElseJ (Some (GameResponse.availableExits (fst (generateInitialGameWorld svc input log))))
         (JArray [])"
proof -
  obtain world log1 where w: "generateInitialGameWorld svc input log = (world, log1)"
    by (cases "generateInitialGameWorld svc input log") blast
  with assms(3) have wf: "wellFormed world" by simp
  then have "isString (GameResponse.visualPrompt world)" and "isStrings (keyElements world)"
    by (simp_all add: wellFormed_def)
  then have "\<exists>url log2. generateSceneImage svc (GameResponse.visualPrompt world) (artStyle input)
      (keyElements world) None log1 = (Inr url, log2)"
    by (rule generateSceneImage_returns)
  then obtain url log2 where
    i: "generateSceneImage svc (GameResponse.visualPrompt world) (artStyle input) (keyElements world)
      None log1 = (Inr url, log2)"
    by blast
  from wf obtain xs where xs: "GameResponse.inventory world = JArray xs" "list_all isItem xs"
    by (cases "GameResponse.inventory world") (simp_all add: wellFormed_def isItems_def)
  from xs(2) obtain items where "sanitizeItems xs = Inr items"
    using sanitizeItems_total by blast
  with xs(1) have inv: "sanitizeInventory (GameResponse.inventory world) = Inr items"
    "sanitizeInventory (orElseJ (Some (GameResponse.inventory world)) (JArray [])) = Inr items"
    by (simp_all add: sanitizeInventory_def orElseJ_def)
  from wf obtain l where l: "GameResponse.location world = JString l"
    using wellFormed_location by blast
  have "truthy (GameResponse.location world)"
    using initial_world_location [OF assms(1), of svc log] w by simp
  with l have "l \<noteq> []" by simp
  with l have loc: "replyLocation (GameResponse.location world) = Inr (Some l)"
    by (simp add: replyLocation_string)
  show ?thesis
    using assms(1,2) w i inv loc l
    by (simp add: handleStartGame_def Let_def locationOr_def)
qed

text \<open>
  C5, as the code has it. \<open>handleStartGame\<close> starts nothing when the start location or the
  art style of the form is empty. Otherwise it builds the settings, and
  \<open>generateInitialGameWorld\<close> returns a reply for every setting and every behaviour of the
  service, since whatever is thrown inside it is caught inside it. A tier fails when its call
  throws (after the retries) or its text cannot be decoded. When the first tier yields a
  document, the reply is read from it; when it fails, the fast model is called, and the reply
  is read from its document if there is one; when both fail, the reply is made from the
  settings alone, with a fixed narrative, the start location of the settings and an empty
  inventory and exit list. From a reply that is well-formed \<open>handleStartGame\<close> commits a
  state, and the reply made from the settings is well-formed: after a failure of both tiers
  the state has that narrative, that location and no item and no exit.
\<close>

theorem initialization_falls_back:
  "(fst (tierResult svc st MODEL_INIT log) = Some p \<longrightarrow>
      fst (generateInitialGameWorld svc st log) = mapParsedResponse p st) \<and>
   (fst (tierResult svc st MODEL_INIT log) = None \<longrightarrow>
      Request MODEL_LOOP (InitPrompt st) None \<in> set (snd (generateInitialGameWorld svc st log))) \<and>
   (fst (tierResult svc st MODEL_INIT log) = None \<and>
    fst (tierResult svc st MODEL_LOOP (snd (tierResult svc st MODEL_INIT log))) = Some p \<longrightarrow>
      fst (generateInitialGameWorld svc st log) = mapParsedResponse p st) \<and>
   (fst (tierResult svc st MODEL_INIT log) = None \<and>
    fst (tierResult svc st MODEL_LOOP (snd (tierResult svc st MODEL_INIT log))) = None \<longrightarrow>
      fst (generateInitialGameWorld svc st log) = initialFallback st) \<and>
   GameResponse.narrative (initialFallback st) =
     JString (utf16 ''El sistema se ha reiniciado tras una inestabilidad cu'' @ [0xE1] @
              utf16 ''ntica. Est'' @ [0xE1] @ utf16 ''s en el punto de inicio.'') \<and>
   GameResponse.location (initialFallback st) = JString (startLocation st) \<and>
   GameResponse.inventory (initialFallback st) = JArray [] \<and>
   GameResponse.availableExits (initialFallback st) = JArray [] \<and>
   (startLocation st = [] \<or> artStyle st = [] \<longrightarrow> handleStartGame svc st log = (None, log)) \<and>
   (startLocation st \<noteq> [] \<and> artStyle st \<noteq> [] \<and>
    wellFormed (fst (generateInitialGameWorld svc st log)) \<longrightarrow>
      (\<exists>s log'. handleStartGame svc st log = (Some s, log') \<and> settings s = st \<and>
         loadingStatus s = None \<and>
         JString (location s) = GameResponse.location (fst (generateInitialGameWorld svc st log)))) \<and>
   (startLocation st \<noteq> [] \<and> artStyle st \<noteq> [] \<and>
    fst (tierResult svc st MODEL_INIT log) = None \<and>
    fst (tierResult svc st MODEL_LOOP (snd (tierResult svc st MODEL_INIT log))) = None \<longrightarrow>
      (\<exists>s log'. handleStartGame svc st log = (Some s, log') \<and> settings s = st \<and>
         loadingStatus s = None \<and>
         narrative s = GameResponse.narrative (initialFallback st) \<and>
         location s = startLocation st \<and> inventory s = [] \<and> availableExits s = JArray []))"
proof -
  have t1: "fst (generateInitialGameWorld svc st log) = mapParsedResponse p st"
    if "fst (tierResult svc st MODEL_INIT log) = Some p"
    using initial_first_tier [OF that] by simp
  have t2: "fst (generateInitialGameWorld svc st log) = mapParsedResponse p st"
    if "fst (tierResult svc st MODEL_INIT log) = None"
      and "fst (tierResult svc st MODEL_LOOP (snd (tierResult svc st MODEL_INIT log))) = Some p"
    using initial_second_tier [OF that(1)] that(2) by (simp split: prod.splits)
  have t3: "fst (generateInitialGameWorld svc st log) = initialFallback st"
    if "fst (tierResult svc st MODEL_INIT log) = None"
      and "fst (tierResult svc st MODEL_LOOP (snd (tierResult svc st MODEL_INIT log))) = None"
    using initial_second_tier [OF that(1)] that(2) by (simp split: prod.splits)
  have fb: "GameResponse.narrative (initialFallback st) =
     JString (utf16 ''El sistema se ha reiniciado tras una inestabilidad cu'' @ [0xE1] @
              utf16 ''ntica. Est'' @ [0xE1] @ utf16 ''s en el punto de inicio.'')"
    "GameResponse.location (initialFallback st) = JString (startLocation st)"
    "GameResponse.inventory (initialFallback st) = JArray []"
    "GameResponse.availableExits (initialFallback st) = JArray []"
    by (simp_all add: initialFallback_def)
  have guard: "handleStartGame svc st log = (None, log)"
    if "startLocation st = [] \<or> artStyle st = []"
    using that by (simp add: handleStartGame_def)
  have wf: "\<exists>s log'. handleStartGame svc st log = (Some s, log') \<and> settings s = st \<and>
         loadingStatus s = None \<and>
         JString (location s) = GameResponse.location (fst (generateInitialGameWorld svc st log))"
    if "startLocation st \<noteq> [] \<and> artStyle st \<noteq> [] \<and>
      wellFormed (fst (generateInitialGameWorld svc st log))"
    using that handleStartGame_started [of st svc log] by blast
  have both: "\<exists>s log'. handleStartGame svc st log = (Some s, log') \<and> settings s = st \<and>
         loadingStatus s = None \<and>
         narrative s = GameResponse.narrative (initialFallback st) \<and>
         location s = startLocation st \<and> inventory s = [] \<and> availableExits s = JArray []"
    if g: "startLocation st \<noteq> [] \<and> artStyle st \<noteq> [] \<and>
      fst (tierResult svc st MODEL_INIT log) = None \<and>
      fst (tierResult svc st MODEL_LOOP (snd (tierResult svc st MODEL_INIT log))) = None"
  proof -
    from g have w: "fst (generateInitialGameWorld svc st log) = initialFallback st"
      using t3 by blast
    then have "wellFormed (fst (generateInitialGameWorld svc st log))"
      by (simp add: initialFallback_wellFormed)
    with g handleStartGame_started [of st svc log] obtain s log' where
      s: "handleStartGame svc st log = (Some s, log')" "settings s = st" "loadingStatus s = None"
        "JString (location s) = GameResponse.location (fst (generateInitialGameWorld svc st log))"
        "narrative s =
           orElseJ (Some (GameResponse.narrative (fst (generateInitialGameWorld svc st log))))
             (JString [])"
        "sanitizeInventory (GameResponse.inventory (fst (generateInitialGameWorld svc st log))) =
           Inr (inventory s)"
        "availableExits s =
           orElseJ (Some (GameResponse.availableExits (fst (generateInitialGameWorld svc st log))))
             (JArray [])"
      by blast
    have "narrative s = GameResponse.narrative (initialFallback st) \<and>
       location s = startLocation st \<and> inventory s = [] \<and> availableExits s = JArray []"
      using s(4-7) unfolding w
      by (simp add: initialFallback_def orElseJ_def sanitizeInventory_def utf16_def)
    with s(1-3) have "handleStartGame svc st log = (Some s, log') \<and> settings s = st \<and>
         loadingStatus s = None \<and>
         narrative s = GameResponse.narrative (initialFallback st) \<and>
         location s = startLocation st \<and> inventory s = [] \<and> availableExits s = JArray []"
      by simp
    then show ?thesis by (intro exI)
  qed
  show ?thesis
    using t1 t2 t3 fb guard wf both initial_second_tier_called [of svc st log] by blast
qed

theorem initialization_falls_back_witness:
  "fst (tierResult exFirstTierService exSettings MODEL_INIT []) = Some exHiDocument \<and>
   fst (generateInitialGameWorld exFirstTierService exSettings []) =
     mapParsedResponse exHiDocument exSettings \<and>
   fst (tierResult exSecondTierService exSettings MODEL_INIT []) = None \<and>
   fst (tierResult exSecondTierService exSettings MODEL_LOOP
     (snd (tierResult exSecondTierService exSettings MODEL_INIT []))) = Some exHiDocument \<and>
   fst (generateInitialGameWorld exSecondTierService exSettings []) =
     mapParsedResponse exHiDocument exSettings \<and>
   fst (tierResult exInitFailService exSettings MODEL_INIT []) = None \<and>
   fst (tierResult exInitFailService exSettings MODEL_LOOP
     (snd (tierResult exInitFailService exSettings MODEL_INIT []))) = None \<and>
   startLocation exSettings \<noteq> [] \<and> artStyle exSettings \<noteq> [] \<and>
   fst (generateInitialGameWorld exInitFailService exSettings []) = initialFallback exSettings \<and>
   Request MODEL_LOOP (InitPrompt exSettings) None \<in>
     set (snd (generateInitialGameWorld exInitFailService exSettings [])) \<and>
   map_option location (fst (handleStartGame exInitFailService exSettings [])) =
     Some (utf16 ''Bar'') \<and>
   map_option inventory (fst (handleStartGame exInitFailService exSettings [])) = Some [] \<and>
   wellFormed (fst (generateInitialGameWorld exOpeningService exSettings [])) \<and>
   map_option settings (fst (handleStartGame exOpeningService exSettings [])) = Some exSettings \<and>
   startLocation exNoLocation = [] \<and>
   handleStartGame exInitFailService exNoLocation [] = (None, [])"
proof -
  have a1: "fst (tierResult exFirstTierService exSettings MODEL_INIT []) = Some exHiDocument"
    by code_simp
  have a2: "fst (tierResult exSecondTierService exSettings MODEL_INIT []) = None" by code_simp
  have b2: "fst (tierResult exSecondTierService exSettings MODEL_LOOP
     (snd (tierResult exSecondTierService exSettings MODEL_INIT []))) = Some exHiDocument"
    by code_simp
  have a: "fst (tierResult exInitFailService exSettings MODEL_INIT []) = None" by code_simp
  have b: "fst (tierResult exInitFailService exSettings MODEL_LOOP
     (snd (tierResult exInitFailService exSettings MODEL_INIT []))) = None" by code_simp
  have c: "startLocation exSettings \<noteq> [] \<and> artStyle exSettings \<noteq> []" by code_simp
  have d: "startLocation exSettings = utf16 ''Bar''" by code_simp
  have n: "startLocation exNoLocation = []" by code_simp
  have w: "wellFormed (fst (generateInitialGameWorld exOpeningService exSettings []))"
    by code_simp
  from initialization_falls_back [of exFirstTierService exSettings "[]" exHiDocument] a1
  have e1: "fst (generateInitialGameWorld exFirstTierService exSettings []) =
     mapParsedResponse exHiDocument exSettings"
    by blast
  from initialization_falls_back [of exSecondTierService exSettings "[]" exHiDocument] a2 b2
  have e2: "fst (generateInitialGameWorld exSecondTierService exSettings []) =
     mapParsedResponse exHiDocument exSettings"
    by blast
  note t = initialization_falls_back [of exInitFailService exSettings "[]"]
  from t a b have e:
    "fst (generateInitialGameWorld exInitFailService exSettings []) = initialFallback exSettings"
    by blast
  from t a have f: "Request MODEL_LOOP (InitPrompt exSettings) None \<in>
     set (snd (generateInitialGameWorld exInitFailService exSettings []))"
    by blast
  from t a b c obtain s log' where
    "handleStartGame exInitFailService exSettings [] = (Some s, log')"
    "location s = startLocation exSettings" "inventory s = []"
    by blast
  then have g: "map_option location (fst (handleStartGame exInitFailService exSettings [])) =
      Some (utf16 ''Bar'')"
    and h: "map_option inventory (fst (handleStartGame exInitFailService exSettings [])) = Some []"
    using d by simp_all
  from initialization_falls_back [of exOpeningService exSettings "[]"] c w obtain s2 log2 where
    "handleStartGame exOpeningService exSettings [] = (Some s2, log2)" "settings s2 = exSettings"
    by blast
  then have o: "map_option settings (fst (handleStartGame exOpeningService exSettings [])) =
      Some exSettings"
    by simp
  from initialization_falls_back [of exInitFailService exNoLocation "[]"] n
  have i: "handleStartGame exInitFailService exNoLocation [] = (None, [])"
    by blast
  show ?thesis using a1 e1 a2 b2 e2 a b c e f g h w o n i by simp
qed

text \<open>
  C5 as the claim states it fails at the guard: with the start location of the form cleared,
  \<open>handleStartGame\<close> returns without calling the service and without a state.
\<close>

theorem empty_start_location_starts_nothing:
  "startLocation exNoLocation = [] \<and> artStyle exNoLocation = utf16 ''Pixel Art'' \<and>
   handleStartGame exInitFailService exNoLocation [] = (None, [])"
  by code_simp

text \<open>
  A reply that is not well-formed can stop the start as well: an item without a name makes
  \<open>sanitizeInventory\<close> throw, after the image has been requested, and the \<open>catch\<close> block
  sets no state.
\<close>

lemma nameless_item_stops_start:
  "\<not> wellFormed (fst (generateInitialGameWorld exNamelessService exSettings [])) \<and>
   fst (handleStartGame exNamelessService exSettings []) = None \<and>
   length (snd (handleStartGame exNamelessService exSettings [])) = 2"
  by code_simp

section \<open>Image generation that fails\<close>





section \<open>A failed image in the cache\<close>

text \<open>
  C10, as the code has it. When both attempts for an image fail, \<open>generateSceneImage\<close>
  returns the empty string and throws nothing. For a well-formed reply that leads to a
  location that is not known, the commit stores the empty string as the state's \<open>imageUrl\<close>
  and in the entry written for the location. A later transition whose reply names a
  location other than the current one, under a key whose entry holds the empty string, finds
  the entry: it commits the empty string again and makes no image request.
\<close>

theorem failed_image_is_cached:
  "(stringsOf xs = Some els \<and>
    generate svc (FullPrompt style vp els) None log = (Inl e1, l1) \<and>
    generate svc (SimplePrompt style vp) None l1 = (Inl e2, l2) \<longrightarrow>
      generateSceneImage svc (JString vp) style (JArray xs) None log = (Inr [], l2)) \<and>
   (\<not> busyOrBlank s a \<and> generateGameResponse svc a s (imageUrl s) log0 = (Inr r, log1) \<and>
    wellFormed r \<and> GameResponse.location r \<noteq> JString (location s) \<and>
    \<not> isKnown (knownLocations s) (locationKeyOf r) \<and>
    generateSceneImage svc (GameResponse.visualPrompt r) (artStyle (settings s))
      (keyElements r) None log1 = (Inr [], log2) \<longrightarrow>
      (\<exists>s1. handleAction svc s a log0 = (Inr s1, log2) \<and> imageUrl s1 = Some [] \<and>
         map_of (knownLocations s1) (locationKeyOf r) =
           Some \<lparr>VisitedLocation.imageUrl = [],
                 VisitedLocation.visualPrompt = GameResponse.visualPrompt r\<rparr>)) \<and>
   (\<not> busyOrBlank s' a' \<and> generateGameResponse svc' a' s' (imageUrl s') log' = (Inr r', log1') \<and>
    wellFormed r' \<and> GameResponse.location r' \<noteq> JString (location s') \<and>
    map_of (knownLocations s') (locationKeyOf r') = Some entry \<and>
    VisitedLocation.imageUrl entry = [] \<longrightarrow>
      (\<exists>s2. handleAction svc' s' a' log' = (Inr s2, log1') \<and> imageUrl s2 = Some [] \<and>
         imageCalls log1' = imageCalls log'))"
proof -
  have later: "\<exists>s2. handleAction svc' s' a' log' = (Inr s2, log1') \<and> imageUrl s2 = Some [] \<and>
         imageCalls log1' = imageCalls log'"
    if h: "\<not> busyOrBlank s' a' \<and>
      generateGameResponse svc' a' s' (imageUrl s') log' = (Inr r', log1') \<and>
      wellFormed r' \<and> GameResponse.location r' \<noteq> JString (location s') \<and>
      map_of (knownLocations s') (locationKeyOf r') = Some entry \<and>
      VisitedLocation.imageUrl entry = []"
  proof -
    from h cache_hit_effect [of s' a' svc' log' r' log1' entry] obtain s2 where
      "handleAction svc' s' a' log' = (Inr s2, log1')"
      "imageUrl s2 = Some (VisitedLocation.imageUrl entry)"
      "imageCalls log1' = imageCalls log'"
      by blast
    with h show ?thesis by simp
  qed
  show ?thesis
    using generateSceneImage_both_fail [of xs els svc style vp None log e1 l1 e2 l2]
      cache_miss_effect [of s a svc log0 r log1 "[]" log2] later
    by blast
qed

theorem failed_image_is_cached_witness:
  "stringsOf [] = Some [] \<and>
   generate exImagesRefusedService (FullPrompt (utf16 ''Pixel Art'') (utf16 ''A sunny plaza'') []) None
     [Request MODEL_LOOP (ActionPrompt (utf16 ''go'')) (Some (utf16 ''STREET''))] =
     (Inl exRefusal,
      [Request MODEL_LOOP (ActionPrompt (utf16 ''go'')) (Some (utf16 ''STREET'')),
       Request MODEL_IMAGE (FullPrompt (utf16 ''Pixel Art'') (utf16 ''A sunny plaza'') []) None]) \<and>
   generate exImagesRefusedService (SimplePrompt (utf16 ''Pixel Art'') (utf16 ''A sunny plaza'')) None
     [Request MODEL_LOOP (ActionPrompt (utf16 ''go'')) (Some (utf16 ''STREET'')),
      Request MODEL_IMAGE (FullPrompt (utf16 ''Pixel Art'') (utf16 ''A sunny plaza'') []) None] =
     (Inl exRefusal,
      [Request MODEL_LOOP (ActionPrompt (utf16 ''go'')) (Some (utf16 ''STREET'')),
       Request MODEL_IMAGE (FullPrompt (utf16 ''Pixel Art'') (utf16 ''A sunny plaza'') []) None,
       Request MODEL_IMAGE (SimplePrompt (utf16 ''Pixel Art'') (utf16 ''A sunny plaza'')) None]) \<and>
   \<not> busyOrBlank exState (utf16 ''go'') \<and>
   generateGameResponse exImagesRefusedService (utf16 ''go'') exState (imageUrl exState) [] =
     (Inr exPlazaReply, [Request MODEL_LOOP (ActionPrompt (utf16 ''go'')) (Some (utf16 ''STREET''))]) \<and>
   wellFormed exPlazaReply \<and>
   GameResponse.location exPlazaReply \<noteq> JString (location exState) \<and>
   \<not> isKnown (knownLocations exState) (locationKeyOf exPlazaReply) \<and>
   fst (handleAction exImagesRefusedService exState (utf16 ''go'') []) = Inr exNoSignal \<and>
   imageUrl exNoSignal = Some [] \<and>
   map_of (knownLocations exNoSignal) (utf16 ''plaza'') =
     Some \<lparr>VisitedLocation.imageUrl = [],
           VisitedLocation.visualPrompt = JString (utf16 ''A sunny plaza'')\<rparr> \<and>
   reachable exAway \<and> \<not> busyOrBlank exAway (utf16 ''go'') \<and>
   generateGameResponse exReturnService (utf16 ''go'') exAway (imageUrl exAway) [] =
     (Inr exReturnReply, [Request MODEL_LOOP (ActionPrompt (utf16 ''go'')) (Some (utf16 ''STREET''))]) \<and>
   wellFormed exReturnReply \<and>
   GameResponse.location exReturnReply \<noteq> JString (location exAway) \<and>
   map_of (knownLocations exAway) (locationKeyOf exReturnReply) =
     Some \<lparr>VisitedLocation.imageUrl = [],
           VisitedLocation.visualPrompt = JString (utf16 ''A sunny plaza'')\<rparr> \<and>
   map_option imageUrl (stateAfter (handleAction exReturnService exAway (utf16 ''go'') [])) =
     Some (Some []) \<and>
   imageCalls (snd (handleAction exReturnService exAway (utf16 ''go'') [])) = []"
proof -
  let ?l0 = "[Request MODEL_LOOP (ActionPrompt (utf16 ''go'')) (Some (utf16 ''STREET''))]"
  let ?full = "FullPrompt (utf16 ''Pixel Art'') (utf16 ''A sunny plaza'') []"
  let ?simple = "SimplePrompt (utf16 ''Pixel Art'') (utf16 ''A sunny plaza'')"
  let ?l1 = "?l0 @ [Request MODEL_IMAGE ?full None]"
  let ?l2 = "?l1 @ [Request MODEL_IMAGE ?simple None]"
  let ?e = "\<lparr>VisitedLocation.imageUrl = [],
             VisitedLocation.visualPrompt = JString (utf16 ''A sunny plaza'')\<rparr>"
  have so: "stringsOf [] = Some []" by simp
  have g1: "generate exImagesRefusedService ?full None ?l0 = (Inl exRefusal, ?l1)" by code_simp
  have g2: "generate exImagesRefusedService ?simple None ?l1 = (Inl exRefusal, ?l2)" by code_simp
  have b: "\<not> busyOrBlank exState (utf16 ''go'')" by code_simp
  have r: "generateGameResponse exImagesRefusedService (utf16 ''go'') exState (imageUrl exState) [] =
      (Inr exPlazaReply, ?l0)" by code_simp
  have w: "wellFormed exPlazaReply" by code_simp
  have d: "GameResponse.location exPlazaReply \<noteq> JString (location exState)" by code_simp
  have k: "\<not> isKnown (knownLocations exState) (locationKeyOf exPlazaReply)" by code_simp
  have p: "GameResponse.visualPrompt exPlazaReply = JString (utf16 ''A sunny plaza'')"
    "artStyle (settings exState) = utf16 ''Pixel Art''" "keyElements exPlazaReply = JArray []"
    by code_simp+
  have kp: "locationKeyOf exPlazaReply = utf16 ''plaza''" by code_simp
  have b': "\<not> busyOrBlank exAway (utf16 ''go'')" by code_simp
  have r': "generateGameResponse exReturnService (utf16 ''go'') exAway (imageUrl exAway) [] =
      (Inr exReturnReply, ?l0)" by code_simp
  have w': "wellFormed exReturnReply" by code_simp
  have d': "GameResponse.location exReturnReply \<noteq> JString (location exAway)" by code_simp
  have m': "map_of (knownLocations exAway) (locationKeyOf exReturnReply) = Some ?e" by code_simp
  have c0: "imageCalls ?l0 = []" "imageCalls [] = []" by code_simp+
  note t = failed_image_is_cached
    [where svc = exImagesRefusedService and style = "utf16 ''Pixel Art''"
      and vp = "utf16 ''A sunny plaza''" and xs = "[]" and els = "[]" and log = ?l0
      and ?e1.0 = exRefusal and ?l1.0 = ?l1 and ?e2.0 = exRefusal and ?l2.0 = ?l2
      and s = exState and a = "utf16 ''go''" and ?log0.0 = "[]" and r = exPlazaReply
      and ?log1.0 = ?l0 and ?log2.0 = ?l2 and s' = exAway and a' = "utf16 ''go''"
      and svc' = exReturnService and log' = "[]" and r' = exReturnReply and log1' = ?l0
      and entry = ?e]
  from t so g1 g2 have e: "generateSceneImage exImagesRefusedService
      (JString (utf16 ''A sunny plaza'')) (utf16 ''Pixel Art'') (JArray []) None ?l0 = (Inr [], ?l2)"
    by simp
  from t b r w d k e p have "\<exists>s1. handleAction exImagesRefusedService exState (utf16 ''go'') [] =
      (Inr s1, ?l2) \<and> imageUrl s1 = Some [] \<and>
      map_of (knownLocations s1) (locationKeyOf exPlazaReply) =
        Some \<lparr>VisitedLocation.imageUrl = [],
              VisitedLocation.visualPrompt = GameResponse.visualPrompt exPlazaReply\<rparr>"
    by simp
  then have n: "imageUrl exNoSignal = Some []"
    "map_of (knownLocations exNoSignal) (utf16 ''plaza'') = Some ?e"
    using exNoSignal_reached kp p(1) by auto
  from t b' r' w' d' m' have "\<exists>s2. handleAction exReturnService exAway (utf16 ''go'') [] =
      (Inr s2, ?l0) \<and> imageUrl s2 = Some [] \<and> imageCalls ?l0 = imageCalls []"
    by simp
  then have h:
    "map_option imageUrl (stateAfter (handleAction exReturnService exAway (utf16 ''go'') [])) =
       Some (Some [])"
    "imageCalls (snd (handleAction exReturnService exAway (utf16 ''go'') [])) = []"
    using c0 by (auto simp: stateAfter_def)
  show ?thesis
    using so g1 g2 b r w d k exNoSignal_reached n exAway_reachable b' r' w' d' m' h by simp
qed

text \<open>
  C10 as the claim states it fails for a later turn that reports the same location while
  the player is in it and says that the scene has changed: the location has not changed, so
  the cache is not consulted, and the image is requested again. Here the request succeeds and
  the empty image is replaced.
\<close>

theorem same_location_turn_regenerates:
  "reachable exNoSignal \<and> location exNoSignal = utf16 ''Plaza'' \<and> imageUrl exNoSignal = Some [] \<and>
   map_of (knownLocations exNoSignal) (utf16 ''plaza'') =
     Some \<lparr>VisitedLocation.imageUrl = [],
           VisitedLocation.visualPrompt = JString (utf16 ''A sunny plaza'')\<rparr> \<and>
   imageCalls (snd (handleAction exStayService exNoSignal (utf16 ''look'') [])) =
     [Request MODEL_IMAGE (FullPrompt (utf16 ''Pixel Art'') (utf16 ''A sunny plaza'') []) None] \<and>
   map_option location (stateAfter (handleAction exStayService exNoSignal (utf16 ''look'') [])) =
     Some (utf16 ''Plaza'') \<and>
   map_option imageUrl (stateAfter (handleAction exStayService exNoSignal (utf16 ''look'') [])) =
     Some (Some (utf16 ''data:image/png;base64,PLAZA''))"
proof -
  have "location exNoSignal = utf16 ''Plaza'' \<and> imageUrl exNoSignal = Some [] \<and>
   map_of (knownLocations exNoSignal) (utf16 ''plaza'') =
     Some \<lparr>VisitedLocation.imageUrl = [],
           VisitedLocation.visualPrompt = JString (utf16 ''A sunny plaza'')\<rparr> \<and>
   imageCalls (snd (handleAction exStayService exNoSignal (utf16 ''look'') [])) =
     [Request MODEL_IMAGE (FullPrompt (utf16 ''Pixel Art'') (utf16 ''A sunny plaza'') []) None] \<and>
   map_option location (stateAfter (handleAction exStayService exNoSignal (utf16 ''look'') [])) =
     Some (utf16 ''Plaza'') \<and>
   map_option imageUrl (stateAfter (handleAction exStayService exNoSignal (utf16 ''look'') [])) =
     Some (Some (utf16 ''data:image/png;base64,PLAZA''))"
    by code_simp
  with exNoSignal_reachable show ?thesis by simp
qed


end
